theory Spec2Isabelle
  imports Main "HOL-Library.Sublist"
begin

section \<open>Kickstart storage commands of pyanaconda/kickstart.py\<close>

text \<open>
  The theory embeds the storage part of \<^verbatim>\<open>pyanaconda/kickstart.py\<close>: the device
  resolver \<^verbatim>\<open>deviceMatches\<close>, the helpers \<^verbatim>\<open>lookupAlias\<close>,
  \<^verbatim>\<open>removeExistingFormat\<close>, \<^verbatim>\<open>getAvailableDiskSpace\<close> and
  \<^verbatim>\<open>getEscrowCertificate\<close>, the \<^verbatim>\<open>execute\<close> methods of the partition, raid,
  volgroup, logvol and btrfs commands and of their data objects, and the orchestrator
  \<^verbatim>\<open>doKickstartStorage\<close>.

  Python objects are mutable and an exception leaves the mutations done so far in place,
  so every method is a function from the state to the state it leaves behind paired with
  the way it stopped: it returned, it raised, or it never stopped.
\<close>

subsection \<open>Device resolver (lines 168-188)\<close>

text \<open>
  \<^verbatim>\<open>blivet.udev\<close> and \<^verbatim>\<open>os.path\<close> are not part of the sources. The two udev
  queries and \<^verbatim>\<open>os.path.normpath\<close> are parameters: \<open>udev_resolve_glob\<close> returns a
  list of names, \<open>udev_resolve_devspec\<close> a name or \<open>None\<close>.
\<close>

record udev =
  udev_resolve_glob :: "string \<Rightarrow> string list"
  udev_resolve_devspec :: "string \<Rightarrow> string option"
  normpath :: "string \<Rightarrow> string"

text \<open>The local variable \<^verbatim>\<open>full_spec\<close> of \<^verbatim>\<open>deviceMatches\<close> (lines 169-171).\<close>

definition full_spec :: "udev \<Rightarrow> string \<Rightarrow> string" where
  "full_spec u spec =
     (if \<not> prefix ''/dev/'' spec then normpath u (''/dev/'' @ spec) else spec)"

text \<open>
  \<^verbatim>\<open>if dev and dev not in matches\<close>: a name is falsy when it is \<open>None\<close> or the empty
  string.
\<close>

definition deviceMatches :: "udev \<Rightarrow> string \<Rightarrow> string list" where
  "deviceMatches u spec =
     (let matches = udev_resolve_glob u (full_spec u spec);
          dev = udev_resolve_devspec u (full_spec u spec)
      in case dev of
           None \<Rightarrow> matches
         | Some d \<Rightarrow> if d \<noteq> [] \<and> d \<notin> set matches then matches @ [d] else matches)"

text \<open>An inventory with the single disk sda: a glob finds it, a direct lookup of a glob
  pattern finds nothing. The paths used with it are already normal.\<close>

definition udev_sda :: udev where
  "udev_sda =
     \<lparr> udev_resolve_glob = (\<lambda>g. if g = ''/dev/sd*'' \<or> g = ''/dev/sda'' then [''sda''] else []),
       udev_resolve_devspec = (\<lambda>g. if g = ''/dev/sda'' then Some ''sda'' else None),
       normpath = (\<lambda>p. p) \<rparr>"

text \<open>An inventory where the pattern \<^verbatim>\<open>/dev/md/*\<close> expands to two arrays and is also,
  taken literally, a name that a direct lookup finds.\<close>

definition udev_md :: udev where
  "udev_md =
     \<lparr> udev_resolve_glob = (\<lambda>g. if g = ''/dev/md/*'' then [''md0'', ''md1''] else []),
       udev_resolve_devspec = (\<lambda>g. if g = ''/dev/md/*'' then Some ''md127'' else None),
       normpath = (\<lambda>p. p) \<rparr>"

subsection \<open>Exceptions and outcomes\<close>

text \<open>
  Every \<^verbatim>\<open>raise\<close> of the embedded methods is a value. The handlers raise
  \<^verbatim>\<open>KickstartValueError(formatErrorMsg(self.lineno, msg=...))\<close>; the message is kept
  as one constructor per message text, with the values formatted into it.
  \<^verbatim>\<open>getEscrowCertificate\<close> raises \<^verbatim>\<open>KickstartError\<close>. An index into an empty
  list of children that no handler catches is an \<^verbatim>\<open>IndexError\<close>.
\<close>

datatype member_kind = RaidMember | PhysicalVolume | BTRFSPartition

datatype ks_msg =
    IncorrectFormat member_kind string "string option"
  | UndefinedPartition member_kind string
  | BTRFSNoMembers
  | MountPointInvalid string
  | RaidMountPointInvalid
  | NonexistentBTRFS string
  | NoVolumeGroup string
  | NoThinPool string
  | NoformatWithoutName
  | NoPreexistingLV string
  | InvalidTargetSize "int option" string
  | LVNameUsed string
  | SizeRequired
  | LVSizeTooSmall
  | PercentageRange
  | FsTypeUnsupported "string option"
  | NonexistentLV string
  | BiosDiskUndetermined string
  | RaidDefinedMultiple
  | PVDefinedMultiple
  | BTRFSDefinedMultiple
  | NoformatWithoutOnpart
  | NoPreexistingPartition string
  | NonexistentDisk string
  | ReadOnlyMedia string
  | UnpartitionedDisk string
  | NonexistentPartition string
  | NoformatWithoutDevice
  | NoPreexistingRaid string
  | NonexistentRaid string
  | RaidNameInUse string
  | EngineValueError string
  | VGNoPhysicalVolumes
  | VGInvalidPesize
  | VGNoName
  | NoPreexistingVG string
  | VGNameInUse string
  | EscrowNeedsNetwork string
  | EscrowDownloadError string

datatype error =
    KickstartValueError nat ks_msg
  | KickstartError ks_msg
  | IndexError

datatype 'a result = Returns 'a | Raises error | Hangs

text \<open>Sequencing: the next statement runs only when the previous one returned.\<close>

definition then_do :: "'s \<times> 'a result \<Rightarrow> ('s \<Rightarrow> 'a \<Rightarrow> 's \<times> 'b result) \<Rightarrow> 's \<times> 'b result" where
  "then_do r f =
     (case r of
        (s, Returns x) \<Rightarrow> f s x
      | (s, Raises e) \<Rightarrow> (s, Raises e)
      | (s, Hangs) \<Rightarrow> (s, Hangs))"

subsection \<open>Storage state\<close>

text \<open>
  The storage engine (blivet) is not part of the sources. The handlers read and write a
  few attributes of its objects; these are the fields below. A format is what
  \<^verbatim>\<open>getFormat(type, **kwargs)\<close> returns: the keyword arguments the handlers pass,
  and \<open>f_type\<close>, which is \<open>None\<close> when the engine knows no format of the requested
  type.
\<close>

record fmt =
  f_type :: "string option"
  f_mountpoint :: string
  f_label :: string
  f_fsprofile :: string
  f_mountopts :: string
  f_size :: "int option"
  f_passphrase :: string
  f_device :: string
  f_cipher :: string
  f_escrow_cert :: "string option"
  f_add_backup_passphrase :: bool
  f_hidden :: bool

definition DeviceFormat :: fmt where
  "DeviceFormat =
     \<lparr> f_type = None, f_mountpoint = [], f_label = [], f_fsprofile = [], f_mountopts = [],
       f_size = None, f_passphrase = [], f_device = [], f_cipher = [], f_escrow_cert = None,
       f_add_backup_passphrase = False, f_hidden = False \<rparr>"

text \<open>The keyword arguments of the engine's device constructors, as the handlers pass
  them; \<open>Existing\<close> is a device the engine found on the system.\<close>

datatype new_args =
    Existing
  | NewPartition bool "int option" int bool
  | NewTmpFS bool "int option" int bool
  | NewMDArray string int nat
  | NewVG int int int
  | NewLV "int option" bool bool bool int int "(int \<times> int) option"
  | NewBTRFS bool string string
  | NewLUKS

datatype dev_type = DiskDev | PartitionDev | TmpFSDev | MDArrayDev | VGDev | LVDev | BTRFSDev | LUKSDev

record device =
  d_id :: nat
  d_name :: string
  d_req_name :: "string option"
  d_path :: string
  d_type :: dev_type
  d_format :: fmt
  d_parents :: "nat list"
  d_args :: new_args
  d_size :: int
  d_currentSize :: int
  d_peSize :: int
  d_protected :: bool
  d_partitionable :: bool
  d_partitioned :: bool

datatype action =
    ActionCreateDevice device
  | ActionDestroyDevice nat
  | ActionResizeDevice nat "int option"
  | ActionCreateFormat nat fmt
  | ActionDestroyFormat nat
  | ActionResizeFormat nat "int option"

text \<open>
  The state the handlers share: the device tree and the actions registered with it, the
  attributes of \<^verbatim>\<open>storage\<close> they read or write, and \<^verbatim>\<open>ksdata.onPart\<close>, the
  dictionary from placeholder names to device names (line 1623).
\<close>

record kstate =
  devices :: "device list"
  actions :: "action list"
  doAutoPart :: bool
  encryptionPassphrase :: string
  escrowCertificates :: "string \<rightharpoonup> string"
  nextID :: nat
  onPart :: "string \<rightharpoonup> string"
  defaultFSType :: string
  defaultBootFSType :: string
  eddDict :: "(string \<times> nat) list"
  clearPartType :: nat
  clearPartDisks :: "string list"
  clearPartDevices :: "string list"
  initializeDisks :: bool
  stage2_device_types :: "string list"

text \<open>
  What the engine computes and the handlers only call is a parameter: device lookup by
  specification, the format class of a type name, the dependants of a device, whether an
  action or an array is accepted (\<^verbatim>\<open>ValueError\<close> otherwise), name adjustment, and the
  global solvers.
\<close>

record engine =
  resolveDevice :: "device list \<Rightarrow> string \<Rightarrow> device option"
  getFormat_type :: "string option \<Rightarrow> string option"
  deviceDeps :: "device list \<Rightarrow> device \<Rightarrow> device list"
  shouldClear :: "device \<Rightarrow> bool"
  accepts_resize_format :: "device \<Rightarrow> int option \<Rightarrow> bool"
  accepts_resize_device :: "device \<Rightarrow> int option \<Rightarrow> bool"
  newMDArray_error :: "string \<Rightarrow> string \<Rightarrow> nat \<Rightarrow> string option"
  newVG_name :: "string \<Rightarrow> string"
  swapSuggestion :: "bool \<Rightarrow> int \<Rightarrow> int"
  isMactel :: bool
  possiblePhysicalExtents :: "int list"
  nm_is_connected :: bool
  urlopen :: "string \<Rightarrow> string option"
  clearPartitions :: "kstate \<Rightarrow> kstate \<times> unit result"
  doPartitioning :: "kstate \<Rightarrow> kstate \<times> unit result"
  growLVM :: "kstate \<Rightarrow> kstate \<times> unit result"

definition getFormat :: "engine \<Rightarrow> string option \<Rightarrow> fmt \<Rightarrow> fmt" where
  "getFormat eng ty kwargs = kwargs\<lparr>f_type := getFormat_type eng ty\<rparr>"

text \<open>Python truthiness of an optional string (\<^verbatim>\<open>if not format.type\<close>).\<close>

definition truthy :: "string option \<Rightarrow> bool" where
  "truthy x = (case x of None \<Rightarrow> False | Some v \<Rightarrow> v \<noteq> [])"

subsection \<open>The device tree\<close>

text \<open>
  Modelled from the spec: the storage engine's device inventory and action-registration
  surface (section 6), which the sources only call. The tree is the list of its devices.
  Registering an action records it; a create-device action adds the device, a
  destroy-device action removes it, a create-format action puts the format on the
  device and a destroy-format action leaves it unformatted. Lookup by name compares
  the device name, the children of a device are the devices that list it as a parent,
  and a device is a leaf when it has no child.

  The engine can refuse an action (section 7). The refusal of a resize, which the
  handlers catch, is a parameter of the engine and a branch of \<open>resize_existing\<close> and
  \<open>format_existing\<close>. The handlers catch no refusal of a creation or a destruction,
  and the theory has none: what is proved of a handler that creates or destroys a device
  is proved of the runs in which the engine performs the action.
\<close>

definition getDeviceByName :: "device list \<Rightarrow> string \<Rightarrow> device option" where
  "getDeviceByName ds n = (if n = [] then None else find (\<lambda>d. d_name d = n) ds)"

definition getChildren :: "device list \<Rightarrow> device \<Rightarrow> device list" where
  "getChildren ds dev = filter (\<lambda>d. d_id dev \<in> set (d_parents d)) ds"

definition isleaf :: "device list \<Rightarrow> device \<Rightarrow> bool" where
  "isleaf ds dev = (getChildren ds dev = [])"

definition set_format :: "nat \<Rightarrow> fmt \<Rightarrow> device list \<Rightarrow> device list" where
  "set_format i f ds = map (\<lambda>d. if d_id d = i then d\<lparr>d_format := f\<rparr> else d) ds"

fun apply_action :: "action \<Rightarrow> device list \<Rightarrow> device list" where
  "apply_action (ActionCreateDevice d) ds = ds @ [d]"
| "apply_action (ActionDestroyDevice i) ds = filter (\<lambda>d. d_id d \<noteq> i) ds"
| "apply_action (ActionCreateFormat i f) ds = set_format i f ds"
| "apply_action (ActionDestroyFormat i) ds = set_format i DeviceFormat ds"
| "apply_action (ActionResizeDevice i n) ds = ds"
| "apply_action (ActionResizeFormat i n) ds = ds"

definition registerAction :: "action \<Rightarrow> kstate \<Rightarrow> kstate" where
  "registerAction a s = s\<lparr>devices := apply_action a (devices s), actions := actions s @ [a]\<rparr>"

definition createDevice :: "device \<Rightarrow> kstate \<Rightarrow> kstate" where
  "createDevice d s = registerAction (ActionCreateDevice d) s"

definition destroyDevice :: "device \<Rightarrow> kstate \<Rightarrow> kstate" where
  "destroyDevice d s = registerAction (ActionDestroyDevice (d_id d)) s"

text \<open>
  Modelled from the spec: \<^verbatim>\<open>storage.mountpoints\<close>, the dictionary from mount point to
  the device whose format claims it (section 3); filled in device order, so a later
  device replaces an earlier one under the same key.
\<close>

definition mountpoints :: "kstate \<Rightarrow> string \<Rightarrow> device option" where
  "mountpoints s mp = find (\<lambda>d. f_mountpoint (d_format d) = mp) (rev (devices s))"

text \<open>Modelled from the spec: \<^verbatim>\<open>storage.disks\<close>, \<^verbatim>\<open>storage.mdarrays\<close> and
  \<^verbatim>\<open>storage.vgs\<close>, the devices of the tree of each type (section 6).\<close>

definition disks :: "kstate \<Rightarrow> device list" where
  "disks s = filter (\<lambda>d. d_type d = DiskDev) (devices s)"

definition mdarrays :: "kstate \<Rightarrow> device list" where
  "mdarrays s = filter (\<lambda>d. d_type d = MDArrayDev) (devices s)"

definition vgs :: "kstate \<Rightarrow> device list" where
  "vgs s = filter (\<lambda>d. d_type d = VGDev) (devices s)"

text \<open>
  Modelled from the spec: \<^verbatim>\<open>storage.nextID\<close> and the engine's device constructors.
  Reading \<^verbatim>\<open>nextID\<close> and constructing a device each draw the next number of one
  counter. A request is not yet on the system: its sizes are those requested.
\<close>

definition take_id :: "kstate \<Rightarrow> nat \<times> kstate" where
  "take_id s = (nextID s, s\<lparr>nextID := Suc (nextID s)\<rparr>)"

definition new_device :: "nat \<Rightarrow> string \<Rightarrow> dev_type \<Rightarrow> fmt \<Rightarrow> nat list \<Rightarrow> new_args \<Rightarrow> device" where
  "new_device i n t f ps a =
     \<lparr> d_id = i, d_name = n, d_req_name = (if t = PartitionDev then Some n else None),
       d_path = ''/dev/'' @ n, d_type = t, d_format = f, d_parents = ps, d_args = a,
       d_size = 0, d_currentSize = 0, d_peSize = 0, d_protected = False,
       d_partitionable = False, d_partitioned = False \<rparr>"

text \<open>Decimal and hexadecimal digits, for \<^verbatim>\<open>"luks%d"\<close>, \<^verbatim>\<open>"req%d"\<close> and
  \<^verbatim>\<open>"%x" % biosdisk\<close>.\<close>

function digits :: "nat \<Rightarrow> nat \<Rightarrow> string" where
  "digits b n =
     (if n < b \<or> b < 2 then [''0123456789abcdef'' ! (n mod 16)]
      else digits b (n div b) @ [''0123456789abcdef'' ! (n mod b mod 16)])"
  by pat_completeness auto
termination
  by (relation "measure snd") auto

subsection \<open>Helpers of kickstart.py\<close>

text \<open>\<^verbatim>\<open>lookupAlias\<close> (lines 183-188): the first device whose \<^verbatim>\<open>req_name\<close> is the alias.\<close>

definition lookupAlias :: "device list \<Rightarrow> string \<Rightarrow> device option" where
  "lookupAlias devicetree alias = find (\<lambda>dev. d_req_name dev = Some alias) devicetree"

text \<open>
  \<^verbatim>\<open>removeExistingFormat\<close> (lines 192-200). Each round of the \<^verbatim>\<open>while\<close> loop destroys
  the dependants that are leaves and drops them from \<^verbatim>\<open>deps\<close>. A round that finds no
  leaf changes nothing, so the loop never ends: the result is \<open>None\<close>.
\<close>

function removeExistingFormat_loop :: "kstate \<Rightarrow> device list \<Rightarrow> kstate option" where
  "removeExistingFormat_loop s deps =
     (if deps = [] then Some s
      else if filter (isleaf (devices s)) deps = [] then None
      else removeExistingFormat_loop
             (fold destroyDevice (filter (isleaf (devices s)) deps) s)
             (filter (\<lambda>d. d \<notin> set (filter (isleaf (devices s)) deps)) deps))"
  by pat_completeness auto
termination
proof (relation "measure (\<lambda>(s, deps). length deps)")
  show "wf (measure (\<lambda>(s, deps). length deps))" by simp
next
  fix s :: kstate and deps :: "device list"
  assume "deps \<noteq> []" and ne: "filter (isleaf (devices s)) deps \<noteq> []"
  then obtain x where x: "x \<in> set (filter (isleaf (devices s)) deps)"
    by (cases "filter (isleaf (devices s)) deps") auto
  then have "x \<in> set deps" by simp
  with x have "length (filter (\<lambda>d. d \<notin> set (filter (isleaf (devices s)) deps)) deps) < length deps"
    by (intro length_filter_less [of x]) auto
  then show "((fold destroyDevice (filter (isleaf (devices s)) deps) s,
               filter (\<lambda>d. d \<notin> set (filter (isleaf (devices s)) deps)) deps), (s, deps))
             \<in> measure (\<lambda>(s, deps). length deps)"
    by simp
qed

definition removeExistingFormat :: "engine \<Rightarrow> device \<Rightarrow> kstate \<Rightarrow> kstate \<times> unit result" where
  "removeExistingFormat eng device s =
     (case removeExistingFormat_loop s (deviceDeps eng (devices s) device) of
        None \<Rightarrow> (s, Hangs)
      | Some s' \<Rightarrow> (registerAction (ActionDestroyFormat (d_id device)) s', Returns ()))"

text \<open>\<^verbatim>\<open>getAvailableDiskSpace\<close> (lines 202-219).\<close>

definition getAvailableDiskSpace :: "kstate \<Rightarrow> int" where
  "getAvailableDiskSpace s =
     sum_list (map d_size
       (filter (\<lambda>disk. clearPartDisks s = [] \<or> d_name disk \<in> set (clearPartDisks s)) (disks s)))"

text \<open>
  \<^verbatim>\<open>getEscrowCertificate\<close> (lines 141-166). \<open>urlopen\<close> gives the text behind a URL, or
  \<open>None\<close> when the download fails with \<^verbatim>\<open>URLGrabError\<close>.
\<close>

definition getEscrowCertificate :: "engine \<Rightarrow> string \<Rightarrow> kstate \<Rightarrow> kstate \<times> string option result" where
  "getEscrowCertificate eng url s =
     (if url = [] then (s, Returns None)
      else case escrowCertificates s url of
        Some cert \<Rightarrow> (s, Returns (Some cert))
      | None \<Rightarrow>
          if (\<not> prefix ''/'' url \<and> \<not> prefix ''file:'' url) \<and> \<not> nm_is_connected eng
          then (s, Raises (KickstartError (EscrowNeedsNetwork url)))
          else case urlopen eng url of
            None \<Rightarrow> (s, Raises (KickstartError (EscrowDownloadError url)))
          | Some text \<Rightarrow>
              (s\<lparr>escrowCertificates := (escrowCertificates s)(url \<mapsto> text)\<rparr>, Returns (Some text)))"


subsection \<open>Blocks the handlers share\<close>

text \<open>
  The comparison \<^verbatim>\<open>self.size < dev.currentSize\<close>: a size that was not given is
  \<open>None\<close>, which Python 2 orders below every number.
\<close>

definition py_lt :: "int option \<Rightarrow> int \<Rightarrow> bool" where
  "py_lt x y = (case x of None \<Rightarrow> True | Some n \<Rightarrow> n < y)"

text \<open>
  The resize of a device that is bound without formatting (lines 771-787 and 1025-1041).
  Building or registering an action raises \<^verbatim>\<open>ValueError\<close> when the engine does not
  accept it; the handler turns that into a \<^verbatim>\<open>KickstartValueError\<close>. An action
  registered before the failure stays registered.
\<close>

definition resize_existing :: "engine \<Rightarrow> nat \<Rightarrow> device \<Rightarrow> int option \<Rightarrow> kstate \<Rightarrow> kstate \<times> unit result" where
  "resize_existing eng lineno dev sz s =
     (if py_lt sz (d_currentSize dev) then
        (if \<not> accepts_resize_format eng dev sz
         then (s, Raises (KickstartValueError lineno (InvalidTargetSize sz (d_name dev))))
         else if \<not> accepts_resize_device eng dev sz
         then (registerAction (ActionResizeFormat (d_id dev) sz) s,
               Raises (KickstartValueError lineno (InvalidTargetSize sz (d_name dev))))
         else (registerAction (ActionResizeDevice (d_id dev) sz)
                 (registerAction (ActionResizeFormat (d_id dev) sz) s), Returns ()))
      else
        (if \<not> accepts_resize_device eng dev sz
         then (s, Raises (KickstartValueError lineno (InvalidTargetSize sz (d_name dev))))
         else if \<not> accepts_resize_format eng dev sz
         then (registerAction (ActionResizeDevice (d_id dev) sz) s,
               Raises (KickstartValueError lineno (InvalidTargetSize sz (d_name dev))))
         else (registerAction (ActionResizeFormat (d_id dev) sz)
                 (registerAction (ActionResizeDevice (d_id dev) sz) s), Returns ())))"

text \<open>\<^verbatim>\<open>dev.format.mountpoint = ...; dev.format.mountopts = ...\<close> on a device of the tree.\<close>

definition set_mount :: "nat \<Rightarrow> string \<Rightarrow> string \<Rightarrow> kstate \<Rightarrow> kstate" where
  "set_mount i mp opts s =
     s\<lparr>devices := map (\<lambda>d. if d_id d = i
                              then d\<lparr>d_format := (d_format d)\<lparr>f_mountpoint := mp, f_mountopts := opts\<rparr>\<rparr>
                              else d) (devices s)\<rparr>"

definition set_mountpoint :: "nat \<Rightarrow> string \<Rightarrow> kstate \<Rightarrow> kstate" where
  "set_mountpoint i mp s =
     s\<lparr>devices := map (\<lambda>d. if d_id d = i
                              then d\<lparr>d_format := (d_format d)\<lparr>f_mountpoint := mp\<rparr>\<rparr>
                              else d) (devices s)\<rparr>"

text \<open>
  Binding an existing device without formatting it (lines 771-791 and 1025-1045): the
  resize when one is asked for, then the mount point and the mount options.
\<close>

definition bind_existing :: "engine \<Rightarrow> nat \<Rightarrow> device \<Rightarrow> bool \<Rightarrow> int option \<Rightarrow> string \<Rightarrow> string \<Rightarrow> kstate
    \<Rightarrow> kstate \<times> unit result" where
  "bind_existing eng lineno dev resize sz mp opts s =
     then_do (if resize then resize_existing eng lineno dev sz s else (s, Returns ()))
       (\<lambda>s' u. (set_mount (d_id dev) mp opts s', Returns ()))"

text \<open>
  The block "If a previous device has claimed this mount point, delete the old one"
  (lines 404-409, 839-844, 1113-1118, 1268-1273); a missing key is caught and ignored.
\<close>

definition claim_mountpoint :: "string \<Rightarrow> kstate \<Rightarrow> kstate" where
  "claim_mountpoint mp s =
     (if mp \<noteq> [] then
        (case mountpoints s mp of
           Some device \<Rightarrow> destroyDevice device s
         | None \<Rightarrow> s)
      else s)"

text \<open>
  The block that puts a new format on a device that exists already (lines 826-835,
  1096-1104, 1260-1261): remove what is on it, register the resize when one is asked
  for (a \<^verbatim>\<open>ValueError\<close> becomes a \<^verbatim>\<open>KickstartValueError\<close>), register the new format.
\<close>

definition format_existing :: "engine \<Rightarrow> nat \<Rightarrow> device \<Rightarrow> bool \<Rightarrow> int option \<Rightarrow> fmt \<Rightarrow> kstate
    \<Rightarrow> kstate \<times> device result" where
  "format_existing eng lineno device resize sz format s =
     then_do (removeExistingFormat eng device s)
       (\<lambda>s u.
          if resize \<and> \<not> accepts_resize_device eng device sz
          then (s, Raises (KickstartValueError lineno (InvalidTargetSize sz (d_name device))))
          else (registerAction (ActionCreateFormat (d_id device) format)
                  (if resize then registerAction (ActionResizeDevice (d_id device) sz) s
                   else s),
                Returns device))"

text \<open>
  The encryption block (lines 870-893, 1123-1146, 1282-1305). \<open>existing\<close> tells whether
  the device was on the system (\<^verbatim>\<open>self.onPart\<close>, \<^verbatim>\<open>self.preexist\<close>); \<open>luksformat\<close> is
  the format built for the device, which moves to the new LUKS device; \<open>luks_format\<close>
  is the \<^verbatim>\<open>getFormat("luks", ...)\<close> that the device gets instead.
\<close>

definition luks_format :: "engine \<Rightarrow> bool \<Rightarrow> device \<Rightarrow> string \<Rightarrow> string \<Rightarrow> string option \<Rightarrow> bool \<Rightarrow> fmt" where
  "luks_format eng existing device passphrase cipher cert backuppassphrase =
     getFormat eng (Some ''luks'')
       (DeviceFormat\<lparr>f_passphrase := passphrase,
          f_device := (if existing then d_path device else []),
          f_cipher := cipher, f_escrow_cert := cert,
          f_add_backup_passphrase := backuppassphrase\<rparr>)"

definition luks_wrap :: "engine \<Rightarrow> bool \<Rightarrow> device \<Rightarrow> fmt \<Rightarrow> string \<Rightarrow> string \<Rightarrow> string \<Rightarrow> bool \<Rightarrow> kstate
    \<Rightarrow> kstate \<times> unit result" where
  "luks_wrap eng existing device luksformat passphrase cipher escrowcert backuppassphrase s =
     then_do
       (getEscrowCertificate eng escrowcert
          (if passphrase \<noteq> [] \<and> encryptionPassphrase s = []
           then s\<lparr>encryptionPassphrase := passphrase\<rparr> else s))
       (\<lambda>s cert.
          let s1 = s\<lparr>devices := set_format (d_id device)
                      (luks_format eng existing device passphrase cipher cert backuppassphrase)
                      (devices s)\<rparr>;
              k = fst (take_id s1); s2 = snd (take_id s1);
              i = fst (take_id s2); s3 = snd (take_id s2)
          in (createDevice (new_device i (''luks'' @ digits 10 k) LUKSDev luksformat
                              [d_id device] NewLUKS) s3, Returns ()))"

text \<open>
  The member loops of the raid, volgroup and btrfs handlers (lines 363-382, 1216-1234,
  1445-1463) differ in the format they expect and in their messages only.
\<close>

definition resolve_member :: "engine \<Rightarrow> kstate \<Rightarrow> string \<Rightarrow> device option" where
  "resolve_member eng s member =
     (let dev =
        (case resolveDevice eng (devices s) member of
           Some d \<Rightarrow> Some d
         | None \<Rightarrow>
             (case resolveDevice eng (devices s)
                     (case onPart s member of Some n \<Rightarrow> n | None \<Rightarrow> member) of
                Some d \<Rightarrow> Some d
              | None \<Rightarrow> lookupAlias (devices s) member))
      in case dev of
           None \<Rightarrow> None
         | Some d \<Rightarrow>
             if f_type (d_format d) = Some ''luks''
             then (case getChildren (devices s) d of [] \<Rightarrow> None | c # cs \<Rightarrow> Some c)
             else Some d)"

fun resolve_members :: "engine \<Rightarrow> nat \<Rightarrow> member_kind \<Rightarrow> string \<Rightarrow> kstate \<Rightarrow> string list
    \<Rightarrow> device list result" where
  "resolve_members eng lineno kind expected s [] = Returns []"
| "resolve_members eng lineno kind expected s (member # rest) =
     (case resolve_member eng s member of
        Some dev \<Rightarrow>
          if f_type (d_format dev) \<noteq> Some expected
          then Raises (KickstartValueError lineno
                         (IncorrectFormat kind member (f_type (d_format dev))))
          else (case resolve_members eng lineno kind expected s rest of
                  Returns devs \<Rightarrow> Returns (dev # devs)
                | Raises e \<Rightarrow> Raises e
                | Hangs \<Rightarrow> Hangs)
      | None \<Rightarrow> Raises (KickstartValueError lineno (UndefinedPartition kind member)))"


subsection \<open>PartitionData.execute (lines 931-1146)\<close>

record part_data =
  p_lineno :: nat
  p_onbiosdisk :: string
  p_disk :: string
  p_mountpoint :: string
  p_recommended :: bool
  p_hibernation :: bool
  p_size :: "int option"
  p_grow :: bool
  p_fstype :: string
  p_onPart :: string
  p_format :: bool
  p_resize :: bool
  p_fsopts :: string
  p_label :: string
  p_fsprofile :: string
  p_maxSizeMB :: int
  p_primOnly :: bool
  p_encrypted :: bool
  p_passphrase :: string
  p_escrowcert :: string
  p_cipher :: string
  p_backuppassphrase :: bool

text \<open>
  The handler assigns to fields of \<^verbatim>\<open>self\<close> (mount point, size, grow, disk, options):
  each step returns the updated data object.

  Lines 938-945: \<^verbatim>\<open>eddDict\<close> is searched for the disk with the given BIOS number.
\<close>

definition part_biosdisk :: "part_data \<Rightarrow> kstate \<Rightarrow> kstate \<times> part_data result" where
  "part_biosdisk p s =
     (if p_onbiosdisk p \<noteq> [] then
        (let p' = (case find (\<lambda>e. digits 16 (snd e) = p_onbiosdisk p) (eddDict s) of
                     Some e \<Rightarrow> p\<lparr>p_disk := fst e\<rparr>
                   | None \<Rightarrow> p)
         in if p_disk p' = []
            then (s, Raises (KickstartValueError (p_lineno p)
                               (BiosDiskUndetermined (p_onbiosdisk p))))
            else (s, Returns p'))
      else (s, Returns p))"

text \<open>
  Lines 971-1000: a mount point \<^verbatim>\<open>raid.\<close>, \<^verbatim>\<open>pv.\<close> or \<^verbatim>\<open>btrfs.\<close> becomes the name
  of the request (\<^verbatim>\<open>kwargs["name"]\<close>); a device of that name in the tree is an error;
  with \<^verbatim>\<open>--onpart\<close> the name is entered into \<^verbatim>\<open>ksdata.onPart\<close>.
\<close>

definition part_placeholder :: "string \<Rightarrow> ks_msg \<Rightarrow> part_data \<Rightarrow> kstate
    \<Rightarrow> kstate \<times> (part_data \<times> string \<times> string option) result" where
  "part_placeholder ty msg p s =
     (if getDeviceByName (devices s) (p_mountpoint p) \<noteq> None
      then (s, Raises (KickstartValueError (p_lineno p) msg))
      else ((if p_onPart p \<noteq> []
             then s\<lparr>onPart := (onPart s)(p_mountpoint p \<mapsto> p_onPart p)\<rparr> else s),
            Returns (p\<lparr>p_mountpoint := []\<rparr>, ty, Some (p_mountpoint p))))"

text \<open>Lines 947-1013: the format type, and the name of a placeholder request.\<close>

definition part_type :: "engine \<Rightarrow> part_data \<Rightarrow> kstate
    \<Rightarrow> kstate \<times> (part_data \<times> string \<times> string option) result" where
  "part_type eng p s =
     (if p_mountpoint p = ''swap'' then
        (s, Returns
           ((if p_recommended p \<or> p_hibernation p
             then p\<lparr>p_mountpoint := [],
                    p_size := Some (swapSuggestion eng (p_hibernation p) (getAvailableDiskSpace s)),
                    p_grow := False\<rparr>
             else p\<lparr>p_mountpoint := []\<rparr>), ''swap'', None))
      else if p_mountpoint p = ''None'' then
        (s, Returns (p\<lparr>p_mountpoint := []\<rparr>,
                     (if p_fstype p \<noteq> [] then p_fstype p else defaultFSType s), None))
      else if p_mountpoint p = ''appleboot'' then
        (s, Returns (p\<lparr>p_mountpoint := []\<rparr>, ''appleboot'', None))
      else if p_mountpoint p = ''prepboot'' then
        (s, Returns (p\<lparr>p_mountpoint := []\<rparr>, ''prepboot'', None))
      else if p_mountpoint p = ''biosboot'' then
        (s, Returns (p\<lparr>p_mountpoint := []\<rparr>, ''biosboot'', None))
      else if prefix ''raid.'' (p_mountpoint p) then
        part_placeholder ''mdmember'' RaidDefinedMultiple p s
      else if prefix ''pv.'' (p_mountpoint p) then
        part_placeholder ''lvmpv'' PVDefinedMultiple p s
      else if prefix ''btrfs.'' (p_mountpoint p) then
        part_placeholder ''btrfs'' BTRFSDefinedMultiple p s
      else if p_mountpoint p = ''/boot/efi'' then
        (if isMactel eng then (s, Returns (p, ''hfs+'', None))
         else (s, Returns (p\<lparr>p_fsopts := ''defaults,uid=0,gid=0,umask=0077,shortname=winnt''\<rparr>,
                           ''EFI System Partition'', None)))
      else
        (s, Returns (p,
                     (if p_fstype p \<noteq> [] then p_fstype p
                      else if p_mountpoint p = ''/boot'' then defaultBootFSType s
                      else defaultFSType s), None)))"

text \<open>Lines 1017-1045: bind an existing partition without formatting it.\<close>

definition part_noformat :: "engine \<Rightarrow> part_data \<Rightarrow> kstate \<Rightarrow> kstate \<times> unit result" where
  "part_noformat eng p s =
     (if p_onPart p = []
      then (s, Raises (KickstartValueError (p_lineno p) NoformatWithoutOnpart))
      else case resolveDevice eng (devices s) (p_onPart p) of
        None \<Rightarrow> (s, Raises (KickstartValueError (p_lineno p)
                              (NoPreexistingPartition (p_onPart p))))
      | Some dev \<Rightarrow>
          bind_existing eng (p_lineno p) dev (p_resize p) (p_size p) (p_mountpoint p)
            (p_fsopts p) s)"

text \<open>
  Lines 1060-1080: \<^verbatim>\<open>kwargs["parents"]\<close>, the disk to create the partition on; without
  \<^verbatim>\<open>--ondisk\<close> the key is absent (the empty list here).
\<close>

definition part_disk :: "engine \<Rightarrow> part_data \<Rightarrow> kstate \<Rightarrow> kstate \<times> nat list result" where
  "part_disk eng p s =
     (if p_disk p = [] then (s, Returns [])
      else
        then_do
          (case resolveDevice eng (devices s) (p_disk p) of
             Some disk \<Rightarrow>
               if f_type (d_format disk) = Some ''multipath_member''
               then (case getChildren (devices s) disk of
                       [] \<Rightarrow> (s, Raises IndexError)
                     | mpath_device # cs \<Rightarrow> (s, Returns (Some mpath_device)))
               else (s, Returns (Some disk))
           | None \<Rightarrow> (s, Returns None))
          (\<lambda>s disk.
             case disk of
               None \<Rightarrow> (s, Raises (KickstartValueError (p_lineno p) (NonexistentDisk (p_disk p))))
             | Some disk \<Rightarrow>
                 if \<not> d_partitionable disk
                 then (s, Raises (KickstartValueError (p_lineno p) (ReadOnlyMedia (p_disk p))))
                 else if d_partitioned disk \<or> shouldClear eng disk
                 then (s, Returns [d_id disk])
                 else (s, Raises (KickstartValueError (p_lineno p)
                                    (UnpartitionedDisk (p_disk p))))))"

text \<open>
  Modelled from the spec: \<^verbatim>\<open>storage.newPartition\<close> and \<^verbatim>\<open>storage.newTmpFS\<close>, the
  engine's constructors of requests (section 6). A partition request is named by
  \<^verbatim>\<open>kwargs["name"]\<close> when given and \<^verbatim>\<open>"req%d" % nextID\<close> otherwise.
\<close>

definition newPartition :: "string option \<Rightarrow> fmt \<Rightarrow> nat list \<Rightarrow> new_args \<Rightarrow> kstate \<Rightarrow> device \<times> kstate" where
  "newPartition name format parents args s =
     (case name of
        Some n \<Rightarrow> (new_device (nextID s) n PartitionDev format parents args, snd (take_id s))
      | None \<Rightarrow>
          (new_device (Suc (nextID s)) (''req'' @ digits 10 (nextID s)) PartitionDev format
             parents args,
           snd (take_id (snd (take_id s)))))"

definition newTmpFS :: "fmt \<Rightarrow> nat list \<Rightarrow> new_args \<Rightarrow> kstate \<Rightarrow> device \<times> kstate" where
  "newTmpFS format parents args s =
     (new_device (nextID s) ''tmpfs'' TmpFSDev format parents args, snd (take_id s))"

text \<open>Lines 1091-1121: format an existing partition, or create a tmpfs or a partition
  request. The result is \<^verbatim>\<open>device\<close> or \<^verbatim>\<open>request\<close>.\<close>

definition part_create :: "engine \<Rightarrow> part_data \<Rightarrow> fmt \<Rightarrow> nat list \<Rightarrow> string option \<Rightarrow> kstate
    \<Rightarrow> kstate \<times> device result" where
  "part_create eng p format parents name s =
     (if p_onPart p \<noteq> [] then
        (case resolveDevice eng (devices s) (p_onPart p) of
           None \<Rightarrow> (s, Raises (KickstartValueError (p_lineno p)
                                 (NonexistentPartition (p_onPart p))))
         | Some device \<Rightarrow>
             format_existing eng (p_lineno p) device (p_resize p) (p_size p) format s)
      else if p_fstype p = ''tmpfs'' then
        (let r = newTmpFS format parents
                   (NewTmpFS (p_grow p) (p_size p) (p_maxSizeMB p) (p_primOnly p)) s
         in (createDevice (fst r) (snd r), Returns (fst r)))
      else
        (let r = newPartition name format parents
                   (NewPartition (p_grow p) (p_size p) (p_maxSizeMB p) (p_primOnly p))
                   (claim_mountpoint (p_mountpoint p) s)
         in (createDevice (fst r) (snd r), Returns (fst r))))"

definition part_format :: "engine \<Rightarrow> part_data \<Rightarrow> string \<Rightarrow> fmt" where
  "part_format eng p ty =
     getFormat eng (Some ty)
       (DeviceFormat\<lparr>f_mountpoint := p_mountpoint p, f_label := p_label p,
          f_fsprofile := p_fsprofile p, f_mountopts := p_fsopts p, f_size := p_size p\<rparr>)"

text \<open>Lines 1015-1146, once the type is known.\<close>

definition part_rest :: "engine \<Rightarrow> part_data \<Rightarrow> string \<Rightarrow> string option \<Rightarrow> kstate \<Rightarrow> kstate \<times> unit result" where
  "part_rest eng p ty name s =
     (if \<not> p_format p then part_noformat eng p s
      else if \<not> truthy (f_type (part_format eng p ty))
      then (s, Raises (KickstartValueError (p_lineno p) (FsTypeUnsupported (Some ty))))
      else
        then_do (part_disk eng p s) (\<lambda>s parents.
        then_do (part_create eng p (part_format eng p ty) parents name s) (\<lambda>s device.
          if p_encrypted p
          then luks_wrap eng (p_onPart p \<noteq> []) device (part_format eng p ty)
                 (p_passphrase p) (p_cipher p) (p_escrowcert p) (p_backuppassphrase p) s
          else (s, Returns ()))))"

definition PartitionData_execute :: "engine \<Rightarrow> part_data \<Rightarrow> kstate \<Rightarrow> kstate \<times> unit result" where
  "PartitionData_execute eng self s =
     then_do (part_biosdisk self (s\<lparr>doAutoPart := False\<rparr>)) (\<lambda>s p.
     then_do (part_type eng p s) (\<lambda>s r.
       part_rest eng (fst r) (fst (snd r)) (snd (snd r)) s))"


subsection \<open>LogVolData.execute (lines 716-893)\<close>

record logvol_data =
  l_lineno :: nat
  l_vgname :: string
  l_name :: string
  l_mountpoint :: string
  l_recommended :: bool
  l_hibernation :: bool
  l_size :: "int option"
  l_grow :: bool
  l_fstype :: string
  l_thin_pool :: bool
  l_thin_volume :: bool
  l_pool_name :: string
  l_format :: bool
  l_preexist :: bool
  l_resize :: bool
  l_fsopts :: string
  l_label :: string
  l_fsprofile :: string
  l_percent :: int
  l_maxSizeMB :: int
  l_metadata_size :: int
  l_chunk_size :: int
  l_encrypted :: bool
  l_passphrase :: string
  l_escrowcert :: string
  l_cipher :: string
  l_backuppassphrase :: bool

text \<open>Lines 725-740: the format type (\<open>None\<close> for a thin pool) and the updated data.\<close>

definition lv_type :: "engine \<Rightarrow> logvol_data \<Rightarrow> kstate \<Rightarrow> logvol_data \<times> string option" where
  "lv_type eng l s =
     (let r = (if l_mountpoint l = ''swap'' then
                 ((if l_recommended l \<or> l_hibernation l
                   then l\<lparr>l_mountpoint := [],
                          l_size := Some (swapSuggestion eng (l_hibernation l)
                                            (getAvailableDiskSpace s)),
                          l_grow := False\<rparr>
                   else l\<lparr>l_mountpoint := []\<rparr>), Some ''swap'')
               else (l, Some (if l_fstype l \<noteq> [] then l_fstype l else defaultFSType s)))
      in if l_thin_pool l then ((fst r)\<lparr>l_mountpoint := []\<rparr>, None) else r)"

text \<open>The name \<^verbatim>\<open>"%s-%s" % (vg.name, name)\<close> of a logical volume.\<close>

definition lv_name :: "device \<Rightarrow> string \<Rightarrow> string" where
  "lv_name vg n = d_name vg @ ''-'' @ n"

text \<open>Lines 763-791: bind an existing logical volume without formatting it.\<close>

definition lv_noformat :: "engine \<Rightarrow> logvol_data \<Rightarrow> device \<Rightarrow> kstate \<Rightarrow> kstate \<times> unit result" where
  "lv_noformat eng l vg s =
     (if l_name l = []
      then (s, Raises (KickstartValueError (l_lineno l) NoformatWithoutName))
      else case getDeviceByName (devices s) (lv_name vg (l_name l)) of
        None \<Rightarrow> (s, Raises (KickstartValueError (l_lineno l) (NoPreexistingLV (l_name l))))
      | Some dev \<Rightarrow>
          bind_existing eng (l_lineno l) dev (l_resize l) (l_size l) (l_mountpoint l)
            (l_fsopts l) s)"

text \<open>Lines 793-806: the checks of a new logical volume; \<open>None\<close> when they pass.\<close>

definition lv_new_checks :: "logvol_data \<Rightarrow> device \<Rightarrow> kstate \<Rightarrow> ks_msg option" where
  "lv_new_checks l vg s =
     (if l_preexist l then None
      else if getDeviceByName (devices s) (lv_name vg (l_name l)) \<noteq> None
      then Some (LVNameUsed (d_name vg))
      else if l_percent l = 0 then
        (case l_size l of
           None \<Rightarrow> Some SizeRequired
         | Some n \<Rightarrow>
             if n = 0 then Some SizeRequired
             else if \<not> l_grow l \<and> n * 1024 < d_peSize vg then Some LVSizeTooSmall
             else None)
      else if l_percent l \<le> 0 \<or> l_percent l > 100 then Some PercentageRange
      else None)"

definition lv_format :: "engine \<Rightarrow> logvol_data \<Rightarrow> string option \<Rightarrow> fmt" where
  "lv_format eng l ty =
     getFormat eng ty
       (DeviceFormat\<lparr>f_mountpoint := l_mountpoint l, f_label := l_label l,
          f_fsprofile := l_fsprofile l, f_mountopts := l_fsopts l\<rparr>)"

text \<open>
  Modelled from the spec: \<^verbatim>\<open>storage.newLV\<close>, the engine's constructor of a logical
  volume request (section 6), named after its volume group as the handler's lookups
  expect. The chunk size is passed on as \<^verbatim>\<open>chunk_size / 1024.0\<close>; the request keeps
  \<^verbatim>\<open>chunk_size\<close>.
\<close>

definition newLV :: "logvol_data \<Rightarrow> device \<Rightarrow> fmt \<Rightarrow> nat list \<Rightarrow> kstate \<Rightarrow> device \<times> kstate" where
  "newLV l vg format parents s =
     (new_device (nextID s) (lv_name vg (l_name l)) LVDev format parents
        (NewLV (l_size l) (l_thin_pool l) (l_thin_volume l) (l_grow l) (l_maxSizeMB l)
           (l_percent l)
           (if l_thin_pool l then Some (l_metadata_size l, l_chunk_size l) else None)),
      snd (take_id s))"

text \<open>Lines 821-868: format an existing logical volume or create a request.\<close>

definition lv_create :: "engine \<Rightarrow> logvol_data \<Rightarrow> device \<Rightarrow> device option \<Rightarrow> fmt \<Rightarrow> kstate
    \<Rightarrow> kstate \<times> device result" where
  "lv_create eng l vg pool format s =
     (if l_preexist l then
        (case getDeviceByName (devices s) (lv_name vg (l_name l)) of
           None \<Rightarrow> (s, Raises (KickstartValueError (l_lineno l) (NonexistentLV (l_name l))))
         | Some device \<Rightarrow>
             format_existing eng (l_lineno l) device (l_resize l) (l_size l) format s)
      else
        (let r = newLV l vg format
                   (if l_thin_volume l then (case pool of Some pl \<Rightarrow> [d_id pl] | None \<Rightarrow> [])
                    else [d_id vg])
                   (claim_mountpoint (l_mountpoint l) s)
         in (createDevice (fst r) (snd r), Returns (fst r))))"

text \<open>Lines 761-893, once the volume group and the thin pool are known.\<close>

definition lv_rest :: "engine \<Rightarrow> logvol_data \<Rightarrow> string option \<Rightarrow> device \<Rightarrow> device option \<Rightarrow> kstate
    \<Rightarrow> kstate \<times> unit result" where
  "lv_rest eng l ty vg pool s =
     (if \<not> l_format l then lv_noformat eng l vg s
      else case lv_new_checks l vg s of
        Some msg \<Rightarrow> (s, Raises (KickstartValueError (l_lineno l) msg))
      | None \<Rightarrow>
          if \<not> truthy (f_type (lv_format eng l ty)) \<and> \<not> l_thin_pool l
          then (s, Raises (KickstartValueError (l_lineno l) (FsTypeUnsupported ty)))
          else
            then_do (lv_create eng l vg pool (lv_format eng l ty) s) (\<lambda>s device.
              if l_encrypted l
              then luks_wrap eng (l_preexist l) device (lv_format eng l ty)
                     (l_passphrase l) (l_cipher l) (l_escrowcert l)
                     (l_backuppassphrase l) s
              else (s, Returns ())))"

definition LogVolData_execute :: "engine \<Rightarrow> logvol_data \<Rightarrow> kstate \<Rightarrow> kstate \<times> unit result" where
  "LogVolData_execute eng self s0 =
     (let s = s0\<lparr>doAutoPart := False\<rparr>;
          vgname = (case onPart s (l_vgname self) of Some n \<Rightarrow> n | None \<Rightarrow> l_vgname self);
          l = fst (lv_type eng self s); ty = snd (lv_type eng self s)
      in
      if l_mountpoint l \<noteq> [] \<and> \<not> prefix ''/'' (l_mountpoint l)
      then (s, Raises (KickstartValueError (l_lineno l) (MountPointInvalid (l_mountpoint l))))
      else case getDeviceByName (devices s) vgname of
        None \<Rightarrow> (s, Raises (KickstartValueError (l_lineno l) (NoVolumeGroup (l_vgname l))))
      | Some vg \<Rightarrow>
          let pool = (if l_thin_volume l
                      then getDeviceByName (devices s) (lv_name vg (l_pool_name l)) else None)
          in
          if l_thin_volume l \<and> pool = None
          then (s, Raises (KickstartValueError (l_lineno l) (NoThinPool (l_pool_name l))))
          else lv_rest eng l ty vg pool s)"

subsection \<open>RaidData.execute (lines 1153-1305)\<close>

record raid_data =
  r_lineno :: nat
  r_device :: string
  r_preexist :: bool
  r_mountpoint :: string
  r_fstype :: string
  r_format :: bool
  r_fsopts :: string
  r_members :: "string list"
  r_label :: string
  r_fsprofile :: string
  r_level :: string
  r_spares :: int
  r_encrypted :: bool
  r_passphrase :: string
  r_escrowcert :: string
  r_cipher :: string
  r_backuppassphrase :: bool

text \<open>Lines 1157-1161: the name of the array, resolved when it exists already.\<close>

definition raid_devicename :: "engine \<Rightarrow> raid_data \<Rightarrow> kstate \<Rightarrow> string" where
  "raid_devicename eng r s =
     (if r_preexist r then
        (case resolveDevice eng (devices s) (r_device r) of
           Some device \<Rightarrow> d_name device
         | None \<Rightarrow> r_device r)
      else r_device r)"

text \<open>
  Lines 1170-1187: a mount point \<^verbatim>\<open>pv.\<close> or \<^verbatim>\<open>btrfs.\<close> is entered into
  \<^verbatim>\<open>ksdata.onPart\<close> under the name of the array, then a device of the placeholder's
  name in the tree is an error.
\<close>

definition raid_placeholder :: "string \<Rightarrow> ks_msg \<Rightarrow> string \<Rightarrow> raid_data \<Rightarrow> kstate
    \<Rightarrow> kstate \<times> (raid_data \<times> string) result" where
  "raid_placeholder ty msg devicename r s =
     (let s1 = s\<lparr>onPart := (onPart s)(r_mountpoint r \<mapsto> devicename)\<rparr> in
      if getDeviceByName (devices s1) (r_mountpoint r) \<noteq> None
      then (s1, Raises (KickstartValueError (r_lineno r) msg))
      else (s1, Returns (r\<lparr>r_mountpoint := []\<rparr>, ty)))"

text \<open>Lines 1167-1195: the format type.\<close>

definition raid_type :: "string \<Rightarrow> raid_data \<Rightarrow> kstate \<Rightarrow> kstate \<times> (raid_data \<times> string) result" where
  "raid_type devicename r s =
     (if r_mountpoint r = ''swap'' then (s, Returns (r\<lparr>r_mountpoint := []\<rparr>, ''swap''))
      else if prefix ''pv.'' (r_mountpoint r) then
        raid_placeholder ''lvmpv'' PVDefinedMultiple devicename r s
      else if prefix ''btrfs.'' (r_mountpoint r) then
        raid_placeholder ''btrfs'' BTRFSDefinedMultiple devicename r s
      else
        (s, Returns (r,
                     (if r_fstype r \<noteq> [] then r_fstype r
                      else if r_mountpoint r = ''/boot'' \<and> ''mdarray'' \<in> set (stage2_device_types s)
                      then defaultBootFSType s
                      else defaultFSType s))))"

text \<open>Lines 1203-1213: bind an existing array without formatting it.\<close>

definition raid_noformat :: "string \<Rightarrow> raid_data \<Rightarrow> kstate \<Rightarrow> kstate \<times> unit result" where
  "raid_noformat devicename r s =
     (if devicename = []
      then (s, Raises (KickstartValueError (r_lineno r) NoformatWithoutDevice))
      else case getDeviceByName (devices s) devicename of
        None \<Rightarrow> (s, Raises (KickstartValueError (r_lineno r) (NoPreexistingRaid devicename)))
      | Some dev \<Rightarrow> (set_mount (d_id dev) (r_mountpoint r) (r_fsopts r) s, Returns ()))"

definition raid_format :: "engine \<Rightarrow> raid_data \<Rightarrow> string \<Rightarrow> fmt" where
  "raid_format eng r ty =
     getFormat eng (Some ty)
       (DeviceFormat\<lparr>f_mountpoint := r_mountpoint r, f_label := r_label r,
          f_fsprofile := r_fsprofile r, f_mountopts := r_fsopts r\<rparr>)"

text \<open>
  Modelled from the spec: \<^verbatim>\<open>storage.newMDArray\<close>, the engine's constructor of an array
  request (section 6), named as the handler asks; \<open>newMDArray_error\<close> is the text of the
  \<^verbatim>\<open>ValueError\<close> of an array the engine rejects.
\<close>

definition newMDArray :: "string \<Rightarrow> raid_data \<Rightarrow> fmt \<Rightarrow> device list \<Rightarrow> kstate \<Rightarrow> device \<times> kstate" where
  "newMDArray devicename r format raidmems s =
     (new_device (nextID s) devicename MDArrayDev format (map d_id raidmems)
        (NewMDArray (r_level r) (int (length raidmems) - r_spares r) (length raidmems)),
      snd (take_id s))"

text \<open>Lines 1255-1280: format an existing array or create a request.\<close>

definition raid_create :: "engine \<Rightarrow> string \<Rightarrow> raid_data \<Rightarrow> fmt \<Rightarrow> device list \<Rightarrow> kstate
    \<Rightarrow> kstate \<times> device result" where
  "raid_create eng devicename r format raidmems s =
     (if r_preexist r then
        (case getDeviceByName (devices s) devicename of
           None \<Rightarrow> (s, Raises (KickstartValueError (r_lineno r) (NonexistentRaid devicename)))
         | Some device \<Rightarrow>
             format_existing eng (r_lineno r) device False None format s)
      else if devicename \<noteq> [] \<and> devicename \<in> set (map d_name (mdarrays s))
      then (s, Raises (KickstartValueError (r_lineno r) (RaidNameInUse devicename)))
      else
        (let s1 = claim_mountpoint (r_mountpoint r) s in
         case newMDArray_error eng (r_level r) devicename (length raidmems) of
           Some e \<Rightarrow> (s1, Raises (KickstartValueError (r_lineno r) (EngineValueError e)))
         | None \<Rightarrow>
             (let q = newMDArray devicename r format raidmems s1
              in (createDevice (fst q) (snd q), Returns (fst q)))))"

text \<open>Lines 1197-1305, once the type is known.\<close>

definition raid_rest :: "engine \<Rightarrow> string \<Rightarrow> raid_data \<Rightarrow> string \<Rightarrow> kstate \<Rightarrow> kstate \<times> unit result" where
  "raid_rest eng devicename r ty s =
     (if r_mountpoint r \<noteq> [] \<and> \<not> prefix ''/'' (r_mountpoint r)
      then (s, Raises (KickstartValueError (r_lineno r) RaidMountPointInvalid))
      else if \<not> r_format r then raid_noformat devicename r s
      else
        then_do (s, resolve_members eng (r_lineno r) RaidMember ''mdmember'' s (r_members r))
          (\<lambda>s raidmems.
             if \<not> truthy (f_type (raid_format eng r ty))
             then (s, Raises (KickstartValueError (r_lineno r) (FsTypeUnsupported (Some ty))))
             else
               then_do (raid_create eng devicename r (raid_format eng r ty) raidmems s)
                 (\<lambda>s device.
                    if r_encrypted r
                    then luks_wrap eng (r_preexist r) device (raid_format eng r ty)
                           (r_passphrase r) (r_cipher r) (r_escrowcert r)
                           (r_backuppassphrase r) s
                    else (s, Returns ()))))"

definition RaidData_execute :: "engine \<Rightarrow> raid_data \<Rightarrow> kstate \<Rightarrow> kstate \<times> unit result" where
  "RaidData_execute eng self s0 =
     then_do (raid_type (raid_devicename eng self s0) self (s0\<lparr>doAutoPart := False\<rparr>))
       (\<lambda>s q. raid_rest eng (raid_devicename eng self s0) (fst q) (snd q) s)"


subsection \<open>VolGroupData.execute (lines 1436-1493)\<close>

record volgroup_data =
  v_lineno :: nat
  v_vgname :: string
  v_physvols :: "string list"
  v_preexist :: bool
  v_format :: bool
  v_pesize :: int
  v_reserved_space :: int
  v_reserved_percent :: int

text \<open>
  Modelled from the spec: \<^verbatim>\<open>storage.newVG\<close>, the engine's constructor of a volume
  group request (section 6); \<open>newVG_name\<close> is the name the engine gives it, which may
  differ from the one asked for. The extent size is passed as \<^verbatim>\<open>pesize / 1024.0\<close>;
  the request keeps the whole part of the quotient. The reserved space or percentage
  is set on the request after it was created (lines 1487-1490).
\<close>

definition newVG :: "engine \<Rightarrow> volgroup_data \<Rightarrow> device list \<Rightarrow> kstate \<Rightarrow> device \<times> kstate" where
  "newVG eng v pvs s =
     ((new_device (nextID s) (newVG_name eng (v_vgname v)) VGDev DeviceFormat (map d_id pvs)
         (NewVG (v_pesize v div 1024) 0 0))\<lparr>d_peSize := v_pesize v div 1024\<rparr>,
      snd (take_id s))"

definition set_reserved :: "nat \<Rightarrow> volgroup_data \<Rightarrow> kstate \<Rightarrow> kstate" where
  "set_reserved i v s =
     s\<lparr>devices := map (\<lambda>d. if d_id d = i then
                               (case d_args d of
                                  NewVG pe sp pc \<Rightarrow>
                                    if v_reserved_space v \<noteq> 0
                                    then d\<lparr>d_args := NewVG pe (v_reserved_space v) pc\<rparr>
                                    else if v_reserved_percent v \<noteq> 0
                                    then d\<lparr>d_args := NewVG pe sp (v_reserved_percent v)\<rparr>
                                    else d
                                | _ \<Rightarrow> d)
                             else d) (devices s)\<rparr>"

definition VolGroupData_execute :: "engine \<Rightarrow> volgroup_data \<Rightarrow> kstate \<Rightarrow> kstate \<times> unit result" where
  "VolGroupData_execute eng v s0 =
     (let s = s0\<lparr>doAutoPart := False\<rparr> in
      then_do (s, resolve_members eng (v_lineno v) PhysicalVolume ''lvmpv'' s (v_physvols v))
        (\<lambda>s pvs.
           if pvs = [] \<and> \<not> v_preexist v
           then (s, Raises (KickstartValueError (v_lineno v) VGNoPhysicalVolumes))
           else if v_pesize v \<notin> set (possiblePhysicalExtents eng)
           then (s, Raises (KickstartValueError (v_lineno v) VGInvalidPesize))
           else if \<not> v_format v \<or> v_preexist v then
             (if v_vgname v = []
              then (s, Raises (KickstartValueError (v_lineno v) VGNoName))
              else case getDeviceByName (devices s) (v_vgname v) of
                None \<Rightarrow> (s, Raises (KickstartValueError (v_lineno v)
                                      (NoPreexistingVG (v_vgname v))))
              | Some dev \<Rightarrow> (s, Returns ()))
           else if v_vgname v \<in> set (map d_name (vgs s))
           then (s, Raises (KickstartValueError (v_lineno v) (VGNameInUse (v_vgname v))))
           else
             (let q = newVG eng v pvs s;
                  s1 = set_reserved (d_id (fst q)) v (createDevice (fst q) (snd q))
              in (s1\<lparr>onPart := (onPart s1)(v_vgname v \<mapsto> d_name (fst q))\<rparr>, Returns ()))))"

subsection \<open>BTRFSData.execute (lines 354-425)\<close>

record btrfs_data =
  b_lineno :: nat
  b_devices :: "string list"
  b_subvol :: bool
  b_name :: string
  b_label :: string
  b_preexist :: bool
  b_mountpoint :: string
  b_metaDataLevel :: string
  b_dataLevel :: string

text \<open>
  Modelled from the spec: \<^verbatim>\<open>storage.newBTRFS\<close>, the engine's constructor of a BTRFS
  volume request (section 6): a device with a btrfs format that claims the mount point,
  named as asked or by a fresh number.
\<close>

definition newBTRFS :: "engine \<Rightarrow> btrfs_data \<Rightarrow> string option \<Rightarrow> string \<Rightarrow> device list \<Rightarrow> kstate
    \<Rightarrow> device \<times> kstate" where
  "newBTRFS eng b name mountpoint members s =
     (case name of
        Some n \<Rightarrow>
          (new_device (nextID s) n BTRFSDev
             (getFormat eng (Some ''btrfs'') (DeviceFormat\<lparr>f_mountpoint := mountpoint\<rparr>))
             (map d_id members) (NewBTRFS (b_subvol b) (b_metaDataLevel b) (b_dataLevel b)),
           snd (take_id s))
      | None \<Rightarrow>
          (new_device (Suc (nextID s)) (''btrfs.'' @ digits 10 (nextID s)) BTRFSDev
             (getFormat eng (Some ''btrfs'') (DeviceFormat\<lparr>f_mountpoint := mountpoint\<rparr>))
             (map d_id members) (NewBTRFS (b_subvol b) (b_metaDataLevel b) (b_dataLevel b)),
           snd (take_id (snd (take_id s)))))"

definition BTRFSData_execute :: "engine \<Rightarrow> btrfs_data \<Rightarrow> kstate \<Rightarrow> kstate \<times> unit result" where
  "BTRFSData_execute eng b s0 =
     (let s = s0\<lparr>doAutoPart := False\<rparr> in
      then_do (s, resolve_members eng (b_lineno b) BTRFSPartition ''btrfs'' s (b_devices b))
        (\<lambda>s members.
           let name = (if b_subvol b then Some (b_name b)
                       else if b_label b \<noteq> [] then Some (b_label b) else None);
               mountpoint = (if b_mountpoint b = ''none'' \<or> b_mountpoint b = ''None'' then []
                             else b_mountpoint b)
           in
           if members = [] \<and> \<not> b_preexist b
           then (s, Raises (KickstartValueError (b_lineno b) BTRFSNoMembers))
           else if mountpoint \<noteq> [] \<and> \<not> prefix ''/'' mountpoint
           then (s, Raises (KickstartValueError (b_lineno b) (MountPointInvalid mountpoint)))
           else
             (let s1 = claim_mountpoint mountpoint s in
              if b_preexist b then
                (case resolveDevice eng (devices s1) (b_name b) of
                   None \<Rightarrow> (s1, Raises (KickstartValueError (b_lineno b)
                                          (NonexistentBTRFS (b_name b))))
                 | Some device \<Rightarrow> (set_mountpoint (d_id device) mountpoint s1, Returns ()))
              else
                (let q = newBTRFS eng b name mountpoint members s1
                 in (createDevice (fst q) (snd q), Returns ())))))"

subsection \<open>The commands (lines 349-352, 535-543, 708-714, 923-929, 1148-1151, 1431-1434)\<close>

text \<open>\<^verbatim>\<open>for x in self.dataList: x.execute(storage, ksdata, instClass)\<close>.\<close>

fun execute_each :: "('d \<Rightarrow> kstate \<Rightarrow> kstate \<times> unit result) \<Rightarrow> 'd list \<Rightarrow> kstate \<Rightarrow> kstate \<times> unit result" where
  "execute_each f [] s = (s, Returns ())"
| "execute_each f (x # xs) s = then_do (f x s) (\<lambda>s' u. execute_each f xs s')"

definition Partition_execute :: "engine \<Rightarrow> part_data list \<Rightarrow> kstate \<Rightarrow> kstate \<times> unit result" where
  "Partition_execute eng partitions s =
     then_do (execute_each (PartitionData_execute eng) partitions s)
       (\<lambda>s' u. if partitions \<noteq> [] then doPartitioning eng s' else (s', Returns ()))"

definition Raid_execute :: "engine \<Rightarrow> raid_data list \<Rightarrow> kstate \<Rightarrow> kstate \<times> unit result" where
  "Raid_execute eng raidList s = execute_each (RaidData_execute eng) raidList s"

definition VolGroup_execute :: "engine \<Rightarrow> volgroup_data list \<Rightarrow> kstate \<Rightarrow> kstate \<times> unit result" where
  "VolGroup_execute eng vgList s = execute_each (VolGroupData_execute eng) vgList s"

definition LogVol_execute :: "engine \<Rightarrow> logvol_data list \<Rightarrow> kstate \<Rightarrow> kstate \<times> unit result" where
  "LogVol_execute eng lvList s =
     then_do (execute_each (LogVolData_execute eng) lvList s)
       (\<lambda>s' u. if lvList \<noteq> [] then growLVM eng s' else (s', Returns ()))"

definition BTRFS_execute :: "engine \<Rightarrow> btrfs_data list \<Rightarrow> kstate \<Rightarrow> kstate \<times> unit result" where
  "BTRFS_execute eng btrfsList s = execute_each (BTRFSData_execute eng) btrfsList s"

record clearpart_data =
  c_type :: nat
  c_drives :: "string list"
  c_devices :: "string list"
  c_initAll :: bool

definition ClearPart_execute :: "engine \<Rightarrow> clearpart_data \<Rightarrow> kstate \<Rightarrow> kstate \<times> unit result" where
  "ClearPart_execute eng c s =
     clearPartitions eng
       ((s\<lparr>clearPartType := c_type c, clearPartDisks := c_drives c,
            clearPartDevices := c_devices c\<rparr>)
          \<lparr>initializeDisks := (if c_initAll c then c_initAll c else initializeDisks s)\<rparr>)"

subsection \<open>doKickstartStorage (lines 1781-1795)\<close>

text \<open>
  \<^verbatim>\<open>ksdata\<close> holds one command object per kind and the orchestrator calls the
  \<^verbatim>\<open>execute\<close> method of each, whatever class the handler map gave it; the record below
  is these methods, with \<^verbatim>\<open>storage.setUpBootLoader\<close> of the engine. The orchestrator
  is followed through the list of the steps it has called.
\<close>

datatype step = ClearPartStep | BootloaderStep | AutoPartStep | PartitionStep | RaidStep
  | VolGroupStep | LogVolStep | BTRFSStep | SetUpBootLoaderStep

record commands =
  clearpart :: "kstate \<Rightarrow> kstate \<times> unit result"
  bootloader :: "kstate \<Rightarrow> kstate \<times> unit result"
  autopart :: "kstate \<Rightarrow> kstate \<times> unit result"
  partition :: "kstate \<Rightarrow> kstate \<times> unit result"
  raid :: "kstate \<Rightarrow> kstate \<times> unit result"
  volgroup :: "kstate \<Rightarrow> kstate \<times> unit result"
  logvol :: "kstate \<Rightarrow> kstate \<times> unit result"
  btrfs :: "kstate \<Rightarrow> kstate \<times> unit result"
  setUpBootLoader :: "kstate \<Rightarrow> kstate \<times> unit result"

text \<open>A call of a step: it is entered in the list, and runs from the state the previous
  call left when that call returned.\<close>

definition call :: "step \<Rightarrow> (kstate \<Rightarrow> kstate \<times> unit result) \<Rightarrow> step list \<times> kstate \<times> unit result
    \<Rightarrow> step list \<times> kstate \<times> unit result" where
  "call st f r =
     (case r of
        (tr, s, Returns u) \<Rightarrow> (tr @ [st], f s)
      | (tr, s, Raises e) \<Rightarrow> (tr, s, Raises e)
      | (tr, s, Hangs) \<Rightarrow> (tr, s, Hangs))"

text \<open>\<^verbatim>\<open>any(d for d in storage.disks if not d.format.hidden and not d.protected)\<close>.\<close>

definition usable_disk :: "kstate \<Rightarrow> bool" where
  "usable_disk s = (filter (\<lambda>d. \<not> f_hidden (d_format d) \<and> \<not> d_protected d) (disks s) \<noteq> [])"

definition doKickstartStorage :: "commands \<Rightarrow> kstate \<Rightarrow> step list \<times> kstate \<times> unit result" where
  "doKickstartStorage ksdata storage =
     (let r = call ClearPartStep (clearpart ksdata) ([], storage, Returns ()) in
      if snd (snd r) = Returns () \<and> \<not> usable_disk (fst (snd r)) then r
      else
        call SetUpBootLoaderStep (setUpBootLoader ksdata)
       (call BTRFSStep (btrfs ksdata)
       (call LogVolStep (logvol ksdata)
       (call VolGroupStep (volgroup ksdata)
       (call RaidStep (raid ksdata)
       (call PartitionStep (partition ksdata)
       (call AutoPartStep (autopart ksdata)
       (call BootloaderStep (bootloader ksdata) r))))))))"

text \<open>The commands of this file over the parsed data, with the bootloader and autopart
  commands and the engine's \<^verbatim>\<open>setUpBootLoader\<close> as given.\<close>

record ksdata =
  k_clearpart :: clearpart_data
  k_partition :: "part_data list"
  k_raid :: "raid_data list"
  k_volgroup :: "volgroup_data list"
  k_logvol :: "logvol_data list"
  k_btrfs :: "btrfs_data list"

definition storage_commands :: "engine \<Rightarrow> ksdata \<Rightarrow> (kstate \<Rightarrow> kstate \<times> unit result)
    \<Rightarrow> (kstate \<Rightarrow> kstate \<times> unit result) \<Rightarrow> (kstate \<Rightarrow> kstate \<times> unit result) \<Rightarrow> commands" where
  "storage_commands eng k bootloader_execute autopart_execute setup =
     \<lparr> clearpart = ClearPart_execute eng (k_clearpart k),
       bootloader = bootloader_execute,
       autopart = autopart_execute,
       partition = Partition_execute eng (k_partition k),
       raid = Raid_execute eng (k_raid k),
       volgroup = VolGroup_execute eng (k_volgroup k),
       logvol = LogVol_execute eng (k_logvol k),
       btrfs = BTRFS_execute eng (k_btrfs k),
       setUpBootLoader = setup \<rparr>"


section \<open>Notions used in the statements\<close>

text \<open>The order of the steps that the specification fixes for a run.\<close>

definition step_order :: "step list" where
  "step_order = [ClearPartStep, BootloaderStep, AutoPartStep, PartitionStep, RaidStep,
     VolGroupStep, LogVolStep, BTRFSStep, SetUpBootLoaderStep]"

text \<open>\<open>in_order k r\<close>: after \<open>k\<close> calls, the steps called are the first \<open>k\<close> of the order
  when the last call returned, and some beginning of them otherwise.\<close>

definition in_order :: "nat \<Rightarrow> step list \<times> kstate \<times> unit result \<Rightarrow> bool" where
  "in_order k r =
     (if snd (snd r) = Returns () then fst r = take k step_order
      else prefix (fst r) (take k step_order))"

text \<open>
  The specification's words for a run: commands are run strictly in the order of a list,
  each from the state the one before left, and the first that does not return ends the
  run with its outcome.
\<close>

fun run_in_order :: "(kstate \<Rightarrow> kstate \<times> unit result) list \<Rightarrow> kstate \<Rightarrow> kstate \<times> unit result" where
  "run_in_order [] s = (s, Returns ())"
| "run_in_order (f # fs) s = then_do (f s) (\<lambda>s' u. run_in_order fs s')"

text \<open>The command of \<^verbatim>\<open>ksdata\<close> that a step of the order stands for.\<close>

fun command_of :: "commands \<Rightarrow> step \<Rightarrow> kstate \<Rightarrow> kstate \<times> unit result" where
  "command_of c ClearPartStep = clearpart c"
| "command_of c BootloaderStep = bootloader c"
| "command_of c AutoPartStep = autopart c"
| "command_of c PartitionStep = partition c"
| "command_of c RaidStep = raid c"
| "command_of c VolGroupStep = volgroup c"
| "command_of c LogVolStep = logvol c"
| "command_of c BTRFSStep = btrfs c"
| "command_of c SetUpBootLoaderStep = setUpBootLoader c"

text \<open>\<open>same s s'\<close>: the two fields that no tree operation writes agree.\<close>

definition same :: "kstate \<Rightarrow> kstate \<Rightarrow> bool" where
  "same s s' \<longleftrightarrow> doAutoPart s' = doAutoPart s \<and> encryptionPassphrase s' = encryptionPassphrase s"

text \<open>The default passphrase after an encryption block that was given \<open>pw\<close>
  (lines 871-872, 1124-1125, 1283-1284).\<close>

definition ep_after :: "string \<Rightarrow> kstate \<Rightarrow> string" where
  "ep_after pw s =
     (if pw \<noteq> [] \<and> encryptionPassphrase s = [] then pw else encryptionPassphrase s)"

text \<open>\<open>keeps pw s s'\<close>: from \<open>s\<close> to \<open>s'\<close> the flag is unchanged and the default passphrase
  is unchanged or was set by an encryption block that was given \<open>pw\<close>.\<close>

definition keeps :: "string \<Rightarrow> kstate \<Rightarrow> kstate \<Rightarrow> bool" where
  "keeps pw s s' \<longleftrightarrow>
     doAutoPart s' = doAutoPart s \<and>
     (encryptionPassphrase s' = encryptionPassphrase s \<or> encryptionPassphrase s' = ep_after pw s)"

text \<open>The size in effect after lines 725-731 and 947-953: the swap suggestion replaces
  the size of a recommended or hibernation swap.\<close>

definition part_size :: "engine \<Rightarrow> part_data \<Rightarrow> kstate \<Rightarrow> int option" where
  "part_size eng p s =
     (if p_mountpoint p = ''swap'' \<and> (p_recommended p \<or> p_hibernation p)
      then Some (swapSuggestion eng (p_hibernation p) (getAvailableDiskSpace s))
      else p_size p)"

definition lv_size :: "engine \<Rightarrow> logvol_data \<Rightarrow> kstate \<Rightarrow> int option" where
  "lv_size eng l s =
     (if l_mountpoint l = ''swap'' \<and> (l_recommended l \<or> l_hibernation l)
      then Some (swapSuggestion eng (l_hibernation l) (getAvailableDiskSpace s))
      else l_size l)"

text \<open>The volume group a logical volume request names (lines 723 and 747).\<close>

definition lv_vg :: "logvol_data \<Rightarrow> kstate \<Rightarrow> device option" where
  "lv_vg l s =
     getDeviceByName (devices s)
       (case onPart s (l_vgname l) of Some n \<Rightarrow> n | None \<Rightarrow> l_vgname l)"

text \<open>The pair of actions the specification gives for a resize to \<open>sz\<close>: the format
  first when the size is below the current size, the device first otherwise.\<close>

definition resize_pair :: "device \<Rightarrow> int option \<Rightarrow> action list" where
  "resize_pair dev sz =
     (if py_lt sz (d_currentSize dev)
      then [ActionResizeFormat (d_id dev) sz, ActionResizeDevice (d_id dev) sz]
      else [ActionResizeDevice (d_id dev) sz, ActionResizeFormat (d_id dev) sz])"

text \<open>Whether the engine accepts a resize action for the device and the size; no other
  kind of action is registered by a resize.\<close>

definition accepted :: "engine \<Rightarrow> device \<Rightarrow> int option \<Rightarrow> action \<Rightarrow> bool" where
  "accepted eng dev sz a =
     (case a of
        ActionResizeFormat i n \<Rightarrow> accepts_resize_format eng dev sz
      | ActionResizeDevice i n \<Rightarrow> accepts_resize_device eng dev sz
      | _ \<Rightarrow> True)"

text \<open>\<open>wrapped pw ds\<close>: the last two devices of the tree are a request whose format is a
  LUKS format with the passphrase \<open>pw\<close>, and the LUKS device layered on that request.\<close>

definition wrapped :: "engine \<Rightarrow> string \<Rightarrow> device list \<Rightarrow> bool" where
  "wrapped eng pw ds \<longleftrightarrow>
     (\<exists>rest req luksdev. ds = rest @ [req, luksdev] \<and>
        f_type (d_format req) = getFormat_type eng (Some ''luks'') \<and>
        f_passphrase (d_format req) = pw \<and>
        d_type luksdev = LUKSDev \<and> d_parents luksdev = [d_id req])"

text \<open>\<open>encrypted_with pw ds\<close>: the last device of the tree is a LUKS device on one
  parent, and every device of the tree that is this parent has a LUKS format with the
  passphrase \<open>pw\<close>. The parent is a new request or a device that was on the system.\<close>

definition encrypted_with :: "engine \<Rightarrow> string \<Rightarrow> device list \<Rightarrow> bool" where
  "encrypted_with eng pw ds =
     (case rev ds of
        [] \<Rightarrow> False
      | luksdev # rest \<Rightarrow>
          d_type luksdev = LUKSDev \<and>
          (case d_parents luksdev of
             [i] \<Rightarrow>
               list_all (\<lambda>d. d_id d = i \<longrightarrow>
                              f_type (d_format d) = getFormat_type eng (Some ''luks'') \<and>
                              f_passphrase (d_format d) = pw) rest
           | _ \<Rightarrow> False))"

text \<open>\<open>good_member eng expected s m\<close>: the member loop accepts the name \<open>m\<close>, that is
  \<open>resolve_member\<close> finds a device for it whose format has the expected type.\<close>

definition good_member :: "engine \<Rightarrow> string \<Rightarrow> kstate \<Rightarrow> string \<Rightarrow> bool" where
  "good_member eng expected s m =
     (case resolve_member eng s m of
        None \<Rightarrow> False
      | Some d \<Rightarrow> f_type (d_format d) = Some expected)"

text \<open>The mount points that the devices of a tree claim, in device order, and the
  invariant of the specification: no mount point is claimed twice.\<close>

definition claimed :: "device list \<Rightarrow> string list" where
  "claimed ds = filter (\<lambda>m. m \<noteq> []) (map (\<lambda>d. f_mountpoint (d_format d)) ds)"

definition mp_unique :: "kstate \<Rightarrow> bool" where
  "mp_unique s = distinct (claimed (devices s))"

section \<open>Example data\<close>

text \<open>A command that was not requested returns at once.\<close>

definition skip :: "kstate \<Rightarrow> kstate \<times> unit result" where
  "skip s = (s, Returns ())"

text \<open>An engine that finds a device by its name, knows every format type, accepts every
  action and array, and whose solvers change nothing.\<close>

definition by_name :: "device list \<Rightarrow> string \<Rightarrow> device option" where
  "by_name ds spec = find (\<lambda>d. d_name d = spec) ds"

definition eng0 :: engine where
  "eng0 =
     \<lparr> resolveDevice = by_name,
       getFormat_type = (\<lambda>t. t),
       deviceDeps = getChildren,
       shouldClear = (\<lambda>d. False),
       accepts_resize_format = (\<lambda>d n. True),
       accepts_resize_device = (\<lambda>d n. True),
       newMDArray_error = (\<lambda>level n k. None),
       newVG_name = (\<lambda>n. n),
       swapSuggestion = (\<lambda>h space. 2048),
       isMactel = False,
       possiblePhysicalExtents = [1024, 2048, 4096, 8192, 16384, 32768],
       nm_is_connected = False,
       urlopen = (\<lambda>url. None),
       clearPartitions = skip,
       doPartitioning = skip,
       growLVM = skip \<rparr>"

text \<open>The same engine, except that it rejects every resize of a device.\<close>

definition eng_fixed :: engine where
  "eng_fixed = eng0\<lparr>accepts_resize_device := (\<lambda>d n. False)\<rparr>"

text \<open>A system with nothing on it, and one with the disk sda and its partition sda1
  (1000 MB, ext4).\<close>

definition storage0 :: kstate where
  "storage0 =
     \<lparr> devices = [], actions = [], doAutoPart = True, encryptionPassphrase = [],
       escrowCertificates = Map.empty, nextID = 0, onPart = Map.empty,
       defaultFSType = ''xfs'', defaultBootFSType = ''xfs'', eddDict = [],
       clearPartType = 0, clearPartDisks = [], clearPartDevices = [],
       initializeDisks = False, stage2_device_types = [] \<rparr>"

definition disk_sda :: device where
  "disk_sda =
     \<lparr> d_id = 0, d_name = ''sda'', d_req_name = None, d_path = ''/dev/sda'', d_type = DiskDev,
       d_format = DeviceFormat\<lparr>f_type := Some ''disklabel''\<rparr>, d_parents = [],
       d_args = Existing, d_size = 8000, d_currentSize = 8000, d_peSize = 0,
       d_protected = False, d_partitionable = True, d_partitioned = True \<rparr>"

definition part_sda1 :: device where
  "part_sda1 =
     \<lparr> d_id = 1, d_name = ''sda1'', d_req_name = None, d_path = ''/dev/sda1'',
       d_type = PartitionDev, d_format = DeviceFormat\<lparr>f_type := Some ''ext4''\<rparr>,
       d_parents = [0], d_args = Existing, d_size = 1000, d_currentSize = 1000, d_peSize = 0,
       d_protected = False, d_partitionable = False, d_partitioned = False \<rparr>"

definition storage1 :: kstate where
  "storage1 = storage0\<lparr>devices := [disk_sda, part_sda1], nextID := 2\<rparr>"

text \<open>The requests as the parser leaves them when no option is given.\<close>

definition ksdata0 :: ksdata where
  "ksdata0 =
     \<lparr> k_clearpart = \<lparr> c_type = 0, c_drives = [], c_devices = [], c_initAll = False \<rparr>,
       k_partition = [], k_raid = [], k_volgroup = [], k_logvol = [], k_btrfs = [] \<rparr>"

definition commands0 :: commands where
  "commands0 = storage_commands eng0 ksdata0 skip skip skip"

definition part0 :: part_data where
  "part0 =
     \<lparr> p_lineno = 1, p_onbiosdisk = [], p_disk = [], p_mountpoint = [],
       p_recommended = False, p_hibernation = False, p_size = None, p_grow = False,
       p_fstype = [], p_onPart = [], p_format = True, p_resize = False, p_fsopts = [],
       p_label = [], p_fsprofile = [], p_maxSizeMB = 0, p_primOnly = False,
       p_encrypted = False, p_passphrase = [], p_escrowcert = [], p_cipher = [],
       p_backuppassphrase = False \<rparr>"

definition logvol0 :: logvol_data where
  "logvol0 =
     \<lparr> l_lineno = 2, l_vgname = [], l_name = [], l_mountpoint = [],
       l_recommended = False, l_hibernation = False, l_size = None, l_grow = False,
       l_fstype = [], l_thin_pool = False, l_thin_volume = False, l_pool_name = [],
       l_format = True, l_preexist = False, l_resize = False, l_fsopts = [], l_label = [],
       l_fsprofile = [], l_percent = 0, l_maxSizeMB = 0, l_metadata_size = 0,
       l_chunk_size = 0, l_encrypted = False, l_passphrase = [], l_escrowcert = [],
       l_cipher = [], l_backuppassphrase = False \<rparr>"

definition raid0 :: raid_data where
  "raid0 =
     \<lparr> r_lineno = 3, r_device = [], r_preexist = False, r_mountpoint = [], r_fstype = [],
       r_format = True, r_fsopts = [], r_members = [], r_label = [], r_fsprofile = [],
       r_level = ''RAID1'', r_spares = 0, r_encrypted = False, r_passphrase = [],
       r_escrowcert = [], r_cipher = [], r_backuppassphrase = False \<rparr>"

definition volgroup0 :: volgroup_data where
  "volgroup0 =
     \<lparr> v_lineno = 4, v_vgname = [], v_physvols = [], v_preexist = False, v_format = True,
       v_pesize = 32768, v_reserved_space = 0, v_reserved_percent = 0 \<rparr>"

definition btrfs0 :: btrfs_data where
  "btrfs0 =
     \<lparr> b_lineno = 5, b_devices = [], b_subvol = False, b_name = [], b_label = [],
       b_preexist = False, b_mountpoint = [], b_metaDataLevel = [], b_dataLevel = [] \<rparr>"

text \<open>\<^verbatim>\<open>part /data --onpart=sda1 --noformat --resize --size=500\<close>: a shrink of sda1.\<close>

definition part_shrink :: part_data where
  "part_shrink =
     part0\<lparr>p_mountpoint := ''/data'', p_onPart := ''sda1'', p_format := False,
            p_resize := True, p_size := Some 500\<rparr>"

text \<open>
  The run of the specification's scenarios, on the system with sda:
  \<^verbatim>\<open>part pv.01 --size=8000 --encrypted --passphrase=abc123\<close>,
  \<^verbatim>\<open>volgroup sys pv.01\<close>,
  \<^verbatim>\<open>logvol / --vgname=sys --name=root --size=4096 --encrypted\<close>.
\<close>

definition part_pv01 :: part_data where
  "part_pv01 =
     part0\<lparr>p_mountpoint := ''pv.01'', p_size := Some 8000, p_encrypted := True,
            p_passphrase := ''abc123''\<rparr>"

definition volgroup_sys :: volgroup_data where
  "volgroup_sys = volgroup0\<lparr>v_vgname := ''sys'', v_physvols := [''pv.01'']\<rparr>"

definition logvol_root :: logvol_data where
  "logvol_root =
     logvol0\<lparr>l_vgname := ''sys'', l_name := ''root'', l_mountpoint := ''/'',
              l_size := Some 4096, l_encrypted := True\<rparr>"

definition commands_sys :: commands where
  "commands_sys =
     storage_commands eng0
       (ksdata0\<lparr>k_partition := [part_pv01], k_volgroup := [volgroup_sys],
                 k_logvol := [logvol_root]\<rparr>)
       skip skip skip"

text \<open>The devices with a LUKS format, by name, with the passphrase of the format.\<close>

definition luks_passphrases :: "kstate \<Rightarrow> (string \<times> string) list" where
  "luks_passphrases s =
     map (\<lambda>d. (d_name d, f_passphrase (d_format d)))
       (filter (\<lambda>d. f_type (d_format d) = Some ''luks'') (devices s))"

text \<open>The state that the partition command of the scenario leaves on the system with
  sda: the request pv.01 with a LUKS format, and the LUKS device layered on it.\<close>

definition storage_pv :: kstate where
  "storage_pv = fst (Partition_execute eng0 [part_pv01] storage1)"

text \<open>Two volume groups whose member does not exist (sdz), or exists with an ext4
  format (sda1).\<close>

definition volgroup_sdz :: volgroup_data where
  "volgroup_sdz = volgroup0\<lparr>v_vgname := ''sys'', v_physvols := [''sdz'']\<rparr>"

definition volgroup_sda1 :: volgroup_data where
  "volgroup_sda1 = volgroup0\<lparr>v_vgname := ''sys'', v_physvols := [''sda1'']\<rparr>"

text \<open>
  Four raid members and two arrays that both give the placeholder pv.01:
  \<^verbatim>\<open>part raid.01 --size=1000\<close> to \<^verbatim>\<open>part raid.04 --size=1000\<close>,
  \<^verbatim>\<open>raid pv.01 --device=md0 --level=RAID1 raid.01 raid.02\<close>,
  \<^verbatim>\<open>raid pv.01 --device=md1 --level=RAID1 raid.03 raid.04\<close>.
\<close>

definition part_raid :: "string \<Rightarrow> part_data" where
  "part_raid name = part0\<lparr>p_mountpoint := name, p_size := Some 1000\<rparr>"

definition raid_md0 :: raid_data where
  "raid_md0 =
     raid0\<lparr>r_device := ''md0'', r_mountpoint := ''pv.01'',
            r_members := [''raid.01'', ''raid.02'']\<rparr>"

definition raid_md1 :: raid_data where
  "raid_md1 =
     raid0\<lparr>r_device := ''md1'', r_mountpoint := ''pv.01'',
            r_members := [''raid.03'', ''raid.04'']\<rparr>"

definition storage_raid :: kstate where
  "storage_raid =
     fst (Partition_execute eng0
            [part_raid ''raid.01'', part_raid ''raid.02'', part_raid ''raid.03'',
             part_raid ''raid.04''] storage1)"

text \<open>
  A system where sda1 is mounted on /tmp, and the request
  \<^verbatim>\<open>part /tmp --fstype=tmpfs --size=500\<close>.
\<close>

definition storage_tmp :: kstate where
  "storage_tmp =
     storage0\<lparr>devices := [disk_sda,
                  part_sda1\<lparr>d_format := (d_format part_sda1)\<lparr>f_mountpoint := ''/tmp''\<rparr>\<rparr>],
               nextID := 2\<rparr>"

definition part_tmpfs :: part_data where
  "part_tmpfs = part0\<lparr>p_mountpoint := ''/tmp'', p_fstype := ''tmpfs'', p_size := Some 500\<rparr>"

text \<open>
  \<^verbatim>\<open>part /data --onpart=sda1 --noformat --resize --size=2000\<close>: a grow of sda1. A system
  with the volume group sys on sda1 and its logical volume root (800 MB), and the requests
  \<^verbatim>\<open>logvol / --vgname=sys --name=root --useexisting --noformat --resize --size=500\<close>
  and the same with \<^verbatim>\<open>--size=900\<close>.
\<close>

definition part_grow :: part_data where
  "part_grow = part_shrink\<lparr>p_size := Some 2000\<rparr>"

definition vg_sys :: device where
  "vg_sys =
     \<lparr> d_id = 2, d_name = ''sys'', d_req_name = None, d_path = ''/dev/sys'', d_type = VGDev,
       d_format = DeviceFormat, d_parents = [1], d_args = Existing, d_size = 1000,
       d_currentSize = 1000, d_peSize = 4096, d_protected = False, d_partitionable = False,
       d_partitioned = False \<rparr>"

definition lv_sys_root :: device where
  "lv_sys_root =
     \<lparr> d_id = 3, d_name = ''sys-root'', d_req_name = None, d_path = ''/dev/mapper/sys-root'',
       d_type = LVDev, d_format = DeviceFormat\<lparr>f_type := Some ''ext4''\<rparr>, d_parents = [2],
       d_args = Existing, d_size = 800, d_currentSize = 800, d_peSize = 0,
       d_protected = False, d_partitionable = False, d_partitioned = False \<rparr>"

definition storage_lv :: kstate where
  "storage_lv =
     storage0\<lparr>devices := [disk_sda, part_sda1, vg_sys, lv_sys_root], nextID := 4\<rparr>"

definition logvol_shrink :: logvol_data where
  "logvol_shrink =
     logvol0\<lparr>l_vgname := ''sys'', l_name := ''root'', l_mountpoint := ''/'',
              l_preexist := True, l_format := False, l_resize := True, l_size := Some 500\<rparr>"

definition logvol_grow :: logvol_data where
  "logvol_grow = logvol_shrink\<lparr>l_size := Some 900\<rparr>"

text \<open>
  Encrypted requests without a passphrase of their own:
  \<^verbatim>\<open>part /data --onpart=sda1 --encrypted\<close>,
  \<^verbatim>\<open>raid /home --device=md0 --level=RAID1 --encrypted raid.01 raid.02\<close> and
  \<^verbatim>\<open>logvol / --vgname=sys --name=root --useexisting --encrypted\<close>.
\<close>

definition part_crypt :: part_data where
  "part_crypt = part0\<lparr>p_mountpoint := ''/data'', p_onPart := ''sda1'', p_encrypted := True\<rparr>"

definition raid_crypt :: raid_data where
  "raid_crypt =
     raid0\<lparr>r_device := ''md0'', r_mountpoint := ''/home'',
            r_members := [''raid.01'', ''raid.02''], r_encrypted := True\<rparr>"

definition logvol_crypt :: logvol_data where
  "logvol_crypt =
     logvol0\<lparr>l_vgname := ''sys'', l_name := ''root'', l_mountpoint := ''/'',
              l_preexist := True, l_encrypted := True\<rparr>"

text \<open>Raid and BTRFS requests over given members, and a volume group with two members
  that are both refused: sda1 has an ext4 format, sdz does not exist.\<close>

definition raid_on :: "string list \<Rightarrow> raid_data" where
  "raid_on ms = raid0\<lparr>r_device := ''md0'', r_mountpoint := ''/home'', r_members := ms\<rparr>"

definition btrfs_on :: "string list \<Rightarrow> btrfs_data" where
  "btrfs_on ms = btrfs0\<lparr>b_devices := ms, b_mountpoint := ''/home''\<rparr>"

definition volgroup_two :: volgroup_data where
  "volgroup_two = volgroup0\<lparr>v_vgname := ''sys'', v_physvols := [''sda1'', ''sdz'']\<rparr>"

text \<open>A run whose volume group names a member that does not exist:
  \<^verbatim>\<open>volgroup sys sdz\<close>.\<close>

definition commands_sdz :: commands where
  "commands_sdz =
     storage_commands eng0 (ksdata0\<lparr>k_volgroup := [volgroup_sdz]\<rparr>) skip skip skip"

text \<open>A system once a first request has set the default passphrase abc123.\<close>

definition with_default :: "kstate \<Rightarrow> kstate" where
  "with_default s = s\<lparr>encryptionPassphrase := ''abc123''\<rparr>"

section \<open>Properties of the embedded code\<close>

declare removeExistingFormat_loop.simps [simp del]
declare digits.simps [simp del]

subsection \<open>Sequencing\<close>

lemma then_do_Returns [simp]: "then_do (s, Returns x) f = f s x"
  by (simp add: then_do_def)

lemma then_do_Raises [simp]: "then_do (s, Raises e) f = (s, Raises e)"
  by (simp add: then_do_def)

lemma then_do_Hangs [simp]: "then_do (s, Hangs) f = (s, Hangs)"
  by (simp add: then_do_def)

lemma then_do_invariant:
  assumes "P (fst r)" and "\<And>s1 x. r = (s1, Returns x) \<Longrightarrow> P (fst (f s1 x))"
  shows "P (fst (then_do r f))"
proof (cases r)
  case (Pair s1 out)
  then show ?thesis using assms by (cases out) auto
qed

lemma then_do_success:
  assumes "then_do r f = (s', Returns y)"
  obtains s1 x where "r = (s1, Returns x)" and "f s1 x = (s', Returns y)"
proof (cases r)
  case (Pair s1 out)
  then show ?thesis using assms that by (cases out) auto
qed

subsection \<open>What the tree operations leave alone\<close>

lemma same_refl [simp]: "same s s"
  by (simp add: same_def)

lemma same_trans: "same s s1 \<Longrightarrow> same s1 s2 \<Longrightarrow> same s s2"
  by (simp add: same_def)

lemma sameI: "doAutoPart s' = doAutoPart s \<Longrightarrow> encryptionPassphrase s' = encryptionPassphrase s \<Longrightarrow> same s s'"
  by (simp add: same_def)

lemma sameD1: "same s s' \<Longrightarrow> doAutoPart s' = doAutoPart s"
  by (simp add: same_def)

lemma sameD2: "same s s' \<Longrightarrow> encryptionPassphrase s' = encryptionPassphrase s"
  by (simp add: same_def)

lemma registerAction_fields [simp]:
  "devices (registerAction a s) = apply_action a (devices s)"
  "actions (registerAction a s) = actions s @ [a]"
  "onPart (registerAction a s) = onPart s"
  "nextID (registerAction a s) = nextID s"
  "doAutoPart (registerAction a s) = doAutoPart s"
  "encryptionPassphrase (registerAction a s) = encryptionPassphrase s"
  by (simp_all add: registerAction_def)

lemma createDevice_fields [simp]:
  "devices (createDevice d s) = devices s @ [d]"
  "actions (createDevice d s) = actions s @ [ActionCreateDevice d]"
  "onPart (createDevice d s) = onPart s"
  "doAutoPart (createDevice d s) = doAutoPart s"
  "encryptionPassphrase (createDevice d s) = encryptionPassphrase s"
  by (simp_all add: createDevice_def)

lemma destroyDevice_fields [simp]:
  "devices (destroyDevice d s) = filter (\<lambda>x. d_id x \<noteq> d_id d) (devices s)"
  "actions (destroyDevice d s) = actions s @ [ActionDestroyDevice (d_id d)]"
  "onPart (destroyDevice d s) = onPart s"
  "doAutoPart (destroyDevice d s) = doAutoPart s"
  "encryptionPassphrase (destroyDevice d s) = encryptionPassphrase s"
  by (simp_all add: destroyDevice_def)

lemma take_id_fields [simp]:
  "devices (snd (take_id s)) = devices s"
  "actions (snd (take_id s)) = actions s"
  "onPart (snd (take_id s)) = onPart s"
  "doAutoPart (snd (take_id s)) = doAutoPart s"
  "encryptionPassphrase (snd (take_id s)) = encryptionPassphrase s"
  "fst (take_id s) = nextID s"
  "nextID (snd (take_id s)) = Suc (nextID s)"
  by (simp_all add: take_id_def)

lemma set_mount_fields [simp]:
  "actions (set_mount i mp opts s) = actions s"
  "onPart (set_mount i mp opts s) = onPart s"
  "doAutoPart (set_mount i mp opts s) = doAutoPart s"
  "encryptionPassphrase (set_mount i mp opts s) = encryptionPassphrase s"
  by (simp_all add: set_mount_def)

lemma set_mountpoint_fields [simp]:
  "actions (set_mountpoint i mp s) = actions s"
  "onPart (set_mountpoint i mp s) = onPart s"
  "doAutoPart (set_mountpoint i mp s) = doAutoPart s"
  "encryptionPassphrase (set_mountpoint i mp s) = encryptionPassphrase s"
  by (simp_all add: set_mountpoint_def)

lemma claim_mountpoint_fields [simp]:
  "onPart (claim_mountpoint mp s) = onPart s"
  "doAutoPart (claim_mountpoint mp s) = doAutoPart s"
  "encryptionPassphrase (claim_mountpoint mp s) = encryptionPassphrase s"
  by (simp_all add: claim_mountpoint_def split: option.splits)

lemma fold_destroyDevice_fields [simp]:
  "onPart (fold destroyDevice ds s) = onPart s"
  "doAutoPart (fold destroyDevice ds s) = doAutoPart s"
  "encryptionPassphrase (fold destroyDevice ds s) = encryptionPassphrase s"
  by (induction ds arbitrary: s) auto

lemma removeExistingFormat_loop_same:
  "removeExistingFormat_loop s deps = Some s' \<Longrightarrow> same s s' \<and> onPart s' = onPart s"
proof (induction s deps rule: removeExistingFormat_loop.induct)
  case (1 s deps)
  show ?case
  proof (cases "deps = []")
    case True
    then show ?thesis using "1.prems" by (subst (asm) removeExistingFormat_loop.simps) simp
  next
    case False
    let ?leaves = "filter (isleaf (devices s)) deps"
    from False "1.prems" have ne: "?leaves \<noteq> []"
      by (subst (asm) removeExistingFormat_loop.simps) (auto split: if_splits)
    from False ne "1.prems" have rec: "removeExistingFormat_loop (fold destroyDevice ?leaves s)
        (filter (\<lambda>d. d \<notin> set ?leaves) deps) = Some s'"
      by (subst (asm) removeExistingFormat_loop.simps) simp
    from "1.IH" [OF False ne rec]
    show ?thesis by (simp add: same_def)
  qed
qed

lemma removeExistingFormat_fields [simp]:
  "doAutoPart (fst (removeExistingFormat eng device s)) = doAutoPart s"
  "encryptionPassphrase (fst (removeExistingFormat eng device s)) = encryptionPassphrase s"
  "onPart (fst (removeExistingFormat eng device s)) = onPart s"
  using removeExistingFormat_loop_same [of s "deviceDeps eng (devices s) device"]
  by (auto simp: removeExistingFormat_def same_def split: option.splits)

lemma resize_existing_fields [simp]:
  "doAutoPart (fst (resize_existing eng lineno dev sz s)) = doAutoPart s"
  "encryptionPassphrase (fst (resize_existing eng lineno dev sz s)) = encryptionPassphrase s"
  "onPart (fst (resize_existing eng lineno dev sz s)) = onPart s"
  by (simp_all add: resize_existing_def)

lemma getEscrowCertificate_fields [simp]:
  "devices (fst (getEscrowCertificate eng url s)) = devices s"
  "actions (fst (getEscrowCertificate eng url s)) = actions s"
  "onPart (fst (getEscrowCertificate eng url s)) = onPart s"
  "nextID (fst (getEscrowCertificate eng url s)) = nextID s"
  "doAutoPart (fst (getEscrowCertificate eng url s)) = doAutoPart s"
  "encryptionPassphrase (fst (getEscrowCertificate eng url s)) = encryptionPassphrase s"
  by (simp_all add: getEscrowCertificate_def split: option.splits)

subsection \<open>PartitionData.execute, step by step\<close>

lemma part_biosdisk_state [simp]: "fst (part_biosdisk p s) = s"
  by (simp add: part_biosdisk_def Let_def)

lemma part_biosdisk_Returns:
  "part_biosdisk p s = (s1, Returns p') \<Longrightarrow> s1 = s \<and> p' = p\<lparr>p_disk := p_disk p'\<rparr>"
  by (auto simp: part_biosdisk_def Let_def split: if_splits option.splits)

lemma part_type_state [simp]:
  "devices (fst (part_type eng p s)) = devices s"
  "actions (fst (part_type eng p s)) = actions s"
  "nextID (fst (part_type eng p s)) = nextID s"
  "doAutoPart (fst (part_type eng p s)) = doAutoPart s"
  "encryptionPassphrase (fst (part_type eng p s)) = encryptionPassphrase s"
  by (simp_all add: part_type_def part_placeholder_def)

lemma part_type_Returns:
  assumes "part_type eng p s = (s1, Returns r)"
  shows "p_format (fst r) = p_format p" "p_resize (fst r) = p_resize p"
    "p_onPart (fst r) = p_onPart p" "p_fstype (fst r) = p_fstype p"
    "p_encrypted (fst r) = p_encrypted p" "p_passphrase (fst r) = p_passphrase p"
    "p_lineno (fst r) = p_lineno p" "p_disk (fst r) = p_disk p"
    "p_size (fst r) = part_size eng p s"
  using assms
  by (auto simp: part_type_def part_placeholder_def part_size_def split: if_splits)

lemma bind_existing_fields [simp]:
  "doAutoPart (fst (bind_existing eng lineno dev resize sz mp opts s)) = doAutoPart s"
  "encryptionPassphrase (fst (bind_existing eng lineno dev resize sz mp opts s)) =
     encryptionPassphrase s"
  by (auto simp: bind_existing_def resize_existing_def then_do_def)

lemma part_noformat_state [simp]:
  "doAutoPart (fst (part_noformat eng p s)) = doAutoPart s"
  "encryptionPassphrase (fst (part_noformat eng p s)) = encryptionPassphrase s"
  by (auto simp: part_noformat_def split: option.splits)

lemma part_disk_state [simp]: "fst (part_disk eng p s) = s"
  by (auto simp: part_disk_def then_do_def split: option.splits list.splits)

lemma newPartition_fields [simp]:
  "devices (snd (newPartition name f ps a s)) = devices s"
  "actions (snd (newPartition name f ps a s)) = actions s"
  "onPart (snd (newPartition name f ps a s)) = onPart s"
  "doAutoPart (snd (newPartition name f ps a s)) = doAutoPart s"
  "encryptionPassphrase (snd (newPartition name f ps a s)) = encryptionPassphrase s"
  "d_format (fst (newPartition name f ps a s)) = f"
  "d_type (fst (newPartition name f ps a s)) = PartitionDev"
  by (simp_all add: newPartition_def new_device_def split: option.splits)

lemma newTmpFS_fields [simp]:
  "devices (snd (newTmpFS f ps a s)) = devices s"
  "actions (snd (newTmpFS f ps a s)) = actions s"
  "onPart (snd (newTmpFS f ps a s)) = onPart s"
  "doAutoPart (snd (newTmpFS f ps a s)) = doAutoPart s"
  "encryptionPassphrase (snd (newTmpFS f ps a s)) = encryptionPassphrase s"
  "d_format (fst (newTmpFS f ps a s)) = f"
  by (simp_all add: newTmpFS_def new_device_def)

lemma same_fst_then_do:
  assumes "same s (fst r)" and "\<And>s1 x. same s1 (fst (f s1 x))"
  shows "same s (fst (then_do r f))"
  by (rule then_do_invariant [where P = "same s", OF assms(1)])
     (use assms in \<open>auto intro: same_trans\<close>)

lemma format_existing_same: "same s (fst (format_existing eng lineno device resize sz f s))"
  unfolding format_existing_def
  by (rule same_fst_then_do) (simp_all add: same_def)

lemmas format_existing_fields [simp] =
  format_existing_same [THEN sameD1] format_existing_same [THEN sameD2]

lemma part_create_same: "same s (fst (part_create eng p f ps name s))"
  by (rule sameI) (simp_all add: part_create_def Let_def split: option.splits)

lemmas part_create_fields [simp] =
  part_create_same [THEN sameD1] part_create_same [THEN sameD2]

lemma luks_wrap_fields [simp]:
  "doAutoPart (fst (luks_wrap eng ex device lf pw cipher url backup s)) = doAutoPart s"
  "encryptionPassphrase (fst (luks_wrap eng ex device lf pw cipher url backup s)) = ep_after pw s"
proof -
  let ?s0 = "if pw \<noteq> [] \<and> encryptionPassphrase s = []
             then s\<lparr>encryptionPassphrase := pw\<rparr> else s"
  let ?P = "\<lambda>s'. doAutoPart s' = doAutoPart s \<and> encryptionPassphrase s' = ep_after pw s"
  have "?P (fst (luks_wrap eng ex device lf pw cipher url backup s))"
    unfolding luks_wrap_def
  proof (rule then_do_invariant)
    show "?P (fst (getEscrowCertificate eng url ?s0))"
      by (simp add: ep_after_def)
  next
    fix s1 cert
    assume "getEscrowCertificate eng url ?s0 = (s1, Returns cert)"
    then have "s1 = fst (getEscrowCertificate eng url ?s0)" by simp
    then have "doAutoPart s1 = doAutoPart s" "encryptionPassphrase s1 = ep_after pw s"
      by (simp_all add: ep_after_def)
    then show "?P (fst (let s1' = s1\<lparr>devices := set_format (d_id device)
                      (luks_format eng ex device pw cipher cert backup) (devices s1)\<rparr>;
              k = fst (take_id s1'); s2 = snd (take_id s1');
              i = fst (take_id s2); s3 = snd (take_id s2)
          in (createDevice (new_device i (''luks'' @ digits 10 k) LUKSDev lf
                              [d_id device] NewLUKS) s3, Returns ())))"
      by (simp add: Let_def)
  qed
  then show "doAutoPart (fst (luks_wrap eng ex device lf pw cipher url backup s)) = doAutoPart s"
    and "encryptionPassphrase (fst (luks_wrap eng ex device lf pw cipher url backup s)) = ep_after pw s"
    by simp_all
qed

lemma keeps_refl [simp]: "keeps pw s s"
  by (simp add: keeps_def)

lemma keeps_from:
  "keeps pw s2 s' \<Longrightarrow> doAutoPart s2 = doAutoPart s \<Longrightarrow>
   encryptionPassphrase s2 = encryptionPassphrase s \<Longrightarrow> keeps pw s s'"
  by (auto simp: keeps_def ep_after_def)

lemma keepsI:
  "doAutoPart s' = doAutoPart s \<Longrightarrow> encryptionPassphrase s' = encryptionPassphrase s \<Longrightarrow> keeps pw s s'"
  by (simp add: keeps_def)

text \<open>The end of the three encrypting handlers: the device was made, then it is
  wrapped when encryption was asked for.\<close>

lemma encrypt_tail_keeps:
  assumes "doAutoPart (fst r) = doAutoPart s"
    and "encryptionPassphrase (fst r) = encryptionPassphrase s"
  shows "keeps pw s (fst (then_do r (\<lambda>s device.
           if enc then luks_wrap eng ex device lf pw cipher url backup s
           else (s, Returns ()))))"
proof (rule then_do_invariant)
  show "keeps pw s (fst r)" using assms by (simp add: keeps_def)
next
  fix s1 x
  assume "r = (s1, Returns x)"
  then have "doAutoPart s1 = doAutoPart s" "encryptionPassphrase s1 = encryptionPassphrase s"
    using assms by simp_all
  then show "keeps pw s (fst (if enc then luks_wrap eng ex x lf pw cipher url backup s1
                              else (s1, Returns ())))"
    by (simp add: keeps_def ep_after_def)
qed

lemma encrypt_tail_success:
  assumes "then_do r (\<lambda>s device.
             if enc then luks_wrap eng ex device lf pw cipher url backup s
             else (s, Returns ())) = (s', Returns ())"
    and "encryptionPassphrase (fst r) = encryptionPassphrase s" and enc
  shows "encryptionPassphrase s' = ep_after pw s"
proof -
  from assms(1) obtain s1 x where r: "r = (s1, Returns x)"
    and w: "(if enc then luks_wrap eng ex x lf pw cipher url backup s1 else (s1, Returns ()))
            = (s', Returns ())"
    by (rule then_do_success)
  from w \<open>enc\<close> have "s' = fst (luks_wrap eng ex x lf pw cipher url backup s1)" by simp
  then have "encryptionPassphrase s' = ep_after pw s1" by simp
  moreover have "encryptionPassphrase s1 = encryptionPassphrase s" using r assms(2) by simp
  ultimately show ?thesis by (simp add: ep_after_def)
qed

lemma part_rest_keeps: "keeps (p_passphrase p) s (fst (part_rest eng p ty name s))"
proof (cases "\<not> p_format p \<or> \<not> truthy (f_type (part_format eng p ty))")
  case True
  then show ?thesis by (auto simp: part_rest_def keeps_def)
next
  case False
  obtain out where d: "part_disk eng p s = (s, out)"
    using part_disk_state [of eng p s] by (cases "part_disk eng p s") auto
  show ?thesis
  proof (cases out)
    case (Returns parents)
    have "part_rest eng p ty name s =
        then_do (part_create eng p (part_format eng p ty) parents name s) (\<lambda>s device.
          if p_encrypted p
          then luks_wrap eng (p_onPart p \<noteq> []) device (part_format eng p ty)
                 (p_passphrase p) (p_cipher p) (p_escrowcert p) (p_backuppassphrase p) s
          else (s, Returns ()))"
      using False d Returns by (simp add: part_rest_def)
    then show ?thesis by (simp only:) (rule encrypt_tail_keeps; simp)
  qed (use False d in \<open>simp_all add: part_rest_def\<close>)
qed

lemma PartitionData_execute_keeps:
  "keeps (p_passphrase self) (s\<lparr>doAutoPart := False\<rparr>) (fst (PartitionData_execute eng self s))"
  unfolding PartitionData_execute_def
proof (rule then_do_invariant)
  show "keeps (p_passphrase self) (s\<lparr>doAutoPart := False\<rparr>)
          (fst (part_biosdisk self (s\<lparr>doAutoPart := False\<rparr>)))"
    by simp
next
  fix s1 p
  assume b: "part_biosdisk self (s\<lparr>doAutoPart := False\<rparr>) = (s1, Returns p)"
  from part_biosdisk_Returns [OF b]
  have s1: "s1 = s\<lparr>doAutoPart := False\<rparr>" and p: "p = self\<lparr>p_disk := p_disk p\<rparr>" by simp_all
  have pw: "p_passphrase p = p_passphrase self" by (subst p) simp
  show "keeps (p_passphrase self) (s\<lparr>doAutoPart := False\<rparr>)
          (fst (then_do (part_type eng p s1)
                  (\<lambda>s r. part_rest eng (fst r) (fst (snd r)) (snd (snd r)) s)))"
  proof (rule then_do_invariant)
    show "keeps (p_passphrase self) (s\<lparr>doAutoPart := False\<rparr>) (fst (part_type eng p s1))"
      by (simp add: keeps_def s1)
  next
    fix s2 r
    assume t: "part_type eng p s1 = (s2, Returns r)"
    then have "s2 = fst (part_type eng p s1)" by simp
    then have s2: "doAutoPart s2 = False" "encryptionPassphrase s2 = encryptionPassphrase s"
      by (simp_all add: s1)
    have "keeps (p_passphrase (fst r)) s2 (fst (part_rest eng (fst r) (fst (snd r)) (snd (snd r)) s2))"
      by (rule part_rest_keeps)
    then show "keeps (p_passphrase self) (s\<lparr>doAutoPart := False\<rparr>)
                 (fst (part_rest eng (fst r) (fst (snd r)) (snd (snd r)) s2))"
      using s2 part_type_Returns(6) [OF t] pw by (auto intro: keeps_from)
  qed
qed

lemma PartitionData_execute_passphrase:
  assumes "PartitionData_execute eng self s = (s', Returns ())"
    and "p_format self" and "p_encrypted self"
  shows "encryptionPassphrase s' = ep_after (p_passphrase self) s"
proof -
  from assms(1) [unfolded PartitionData_execute_def]
  obtain s1 p where b: "part_biosdisk self (s\<lparr>doAutoPart := False\<rparr>) = (s1, Returns p)"
    and 1: "then_do (part_type eng p s1)
              (\<lambda>s r. part_rest eng (fst r) (fst (snd r)) (snd (snd r)) s) = (s', Returns ())"
    by (rule then_do_success)
  from part_biosdisk_Returns [OF b]
  have s1: "s1 = s\<lparr>doAutoPart := False\<rparr>" and p: "p = self\<lparr>p_disk := p_disk p\<rparr>" by simp_all
  have pf: "p_passphrase p = p_passphrase self" "p_format p = p_format self"
    "p_encrypted p = p_encrypted self"
    by (subst p, simp)+
  from 1 obtain s2 r where t: "part_type eng p s1 = (s2, Returns r)"
    and 2: "part_rest eng (fst r) (fst (snd r)) (snd (snd r)) s2 = (s', Returns ())"
    by (rule then_do_success)
  from t have "s2 = fst (part_type eng p s1)" by simp
  then have s2: "encryptionPassphrase s2 = encryptionPassphrase s" by (simp add: s1)
  let ?p = "fst r" and ?ty = "fst (snd r)" and ?name = "snd (snd r)"
  have rf: "p_format ?p" "p_encrypted ?p" "p_passphrase ?p = p_passphrase self"
    using part_type_Returns [OF t] pf assms by simp_all
  obtain out where d: "part_disk eng ?p s2 = (s2, out)"
    using part_disk_state [of eng ?p s2] by (cases "part_disk eng ?p s2") auto
  from 2 rf(1) have sup: "truthy (f_type (part_format eng ?p ?ty))"
    by (auto simp: part_rest_def split: if_splits)
  from 2 rf(1) sup d obtain parents where out: "out = Returns parents"
    by (cases out) (auto simp: part_rest_def)
  from 2 rf(1) sup d out
  have "then_do (part_create eng ?p (part_format eng ?p ?ty) parents ?name s2) (\<lambda>s device.
          if p_encrypted ?p
          then luks_wrap eng (p_onPart ?p \<noteq> []) device (part_format eng ?p ?ty)
                 (p_passphrase ?p) (p_cipher ?p) (p_escrowcert ?p) (p_backuppassphrase ?p) s
          else (s, Returns ())) = (s', Returns ())"
    by (simp add: part_rest_def)
  from encrypt_tail_success [OF this _ rf(2), of s2]
  have "encryptionPassphrase s' = ep_after (p_passphrase ?p) s2" by simp
  then show ?thesis using s2 rf(3) by (simp add: ep_after_def)
qed

subsection \<open>LogVolData.execute, step by step\<close>

lemma lv_type_fields [simp]:
  "l_format (fst (lv_type eng l s)) = l_format l"
  "l_preexist (fst (lv_type eng l s)) = l_preexist l"
  "l_resize (fst (lv_type eng l s)) = l_resize l"
  "l_encrypted (fst (lv_type eng l s)) = l_encrypted l"
  "l_passphrase (fst (lv_type eng l s)) = l_passphrase l"
  "l_name (fst (lv_type eng l s)) = l_name l"
  "l_vgname (fst (lv_type eng l s)) = l_vgname l"
  "l_lineno (fst (lv_type eng l s)) = l_lineno l"
  "l_thin_volume (fst (lv_type eng l s)) = l_thin_volume l"
  "l_thin_pool (fst (lv_type eng l s)) = l_thin_pool l"
  "l_pool_name (fst (lv_type eng l s)) = l_pool_name l"
  by (simp_all add: lv_type_def Let_def)

lemma lv_noformat_fields [simp]:
  "doAutoPart (fst (lv_noformat eng l vg s)) = doAutoPart s"
  "encryptionPassphrase (fst (lv_noformat eng l vg s)) = encryptionPassphrase s"
  by (auto simp: lv_noformat_def split: option.splits)

lemma newLV_fields [simp]:
  "devices (snd (newLV l vg f ps s)) = devices s"
  "actions (snd (newLV l vg f ps s)) = actions s"
  "doAutoPart (snd (newLV l vg f ps s)) = doAutoPart s"
  "encryptionPassphrase (snd (newLV l vg f ps s)) = encryptionPassphrase s"
  "d_format (fst (newLV l vg f ps s)) = f"
  by (simp_all add: newLV_def new_device_def)

lemma lv_create_fields [simp]:
  "doAutoPart (fst (lv_create eng l vg pool f s)) = doAutoPart s"
  "encryptionPassphrase (fst (lv_create eng l vg pool f s)) = encryptionPassphrase s"
  by (simp_all add: lv_create_def Let_def split: option.splits)

lemma lv_rest_keeps: "keeps (l_passphrase l) s (fst (lv_rest eng l ty vg pool s))"
proof (cases "\<not> l_format l \<or> lv_new_checks l vg s \<noteq> None \<or>
    (\<not> truthy (f_type (lv_format eng l ty)) \<and> \<not> l_thin_pool l)")
  case True
  then show ?thesis by (auto simp: lv_rest_def keeps_def split: option.splits)
next
  case False
  then have "lv_rest eng l ty vg pool s =
      then_do (lv_create eng l vg pool (lv_format eng l ty) s) (\<lambda>s device.
        if l_encrypted l
        then luks_wrap eng (l_preexist l) device (lv_format eng l ty)
               (l_passphrase l) (l_cipher l) (l_escrowcert l) (l_backuppassphrase l) s
        else (s, Returns ()))"
    by (auto simp: lv_rest_def)
  then show ?thesis by (simp only:) (rule encrypt_tail_keeps; simp)
qed

lemma LogVolData_execute_keeps:
  "keeps (l_passphrase self) (s\<lparr>doAutoPart := False\<rparr>) (fst (LogVolData_execute eng self s))"
  using lv_rest_keeps [of "fst (lv_type eng self (s\<lparr>doAutoPart := False\<rparr>))"
      "s\<lparr>doAutoPart := False\<rparr>" eng]
  by (simp add: LogVolData_execute_def Let_def split: option.splits)

lemma lv_rest_passphrase:
  assumes "lv_rest eng l ty vg pool s = (s', Returns ())" and "l_format l" and "l_encrypted l"
  shows "encryptionPassphrase s' = ep_after (l_passphrase l) s"
proof -
  from assms(1,2) have "then_do (lv_create eng l vg pool (lv_format eng l ty) s) (\<lambda>s device.
        if l_encrypted l
        then luks_wrap eng (l_preexist l) device (lv_format eng l ty)
               (l_passphrase l) (l_cipher l) (l_escrowcert l) (l_backuppassphrase l) s
        else (s, Returns ())) = (s', Returns ())"
    by (auto simp: lv_rest_def split: option.splits if_splits)
  from encrypt_tail_success [OF this _ assms(3), of s] show ?thesis by simp
qed

lemma LogVolData_execute_passphrase:
  assumes "LogVolData_execute eng self s = (s', Returns ())"
    and "l_format self" and "l_encrypted self"
  shows "encryptionPassphrase s' = ep_after (l_passphrase self) s"
proof -
  let ?s = "s\<lparr>doAutoPart := False\<rparr>"
  let ?l = "fst (lv_type eng self ?s)"
  from assms(1) obtain ty vg pool where "lv_rest eng ?l ty vg pool ?s = (s', Returns ())"
    by (auto simp: LogVolData_execute_def Let_def split: option.splits if_splits)
  from lv_rest_passphrase [OF this] assms(2,3) show ?thesis
    by (simp add: ep_after_def)
qed

subsection \<open>RaidData.execute, step by step\<close>

lemma raid_type_state [simp]:
  "devices (fst (raid_type dn r s)) = devices s"
  "actions (fst (raid_type dn r s)) = actions s"
  "nextID (fst (raid_type dn r s)) = nextID s"
  "doAutoPart (fst (raid_type dn r s)) = doAutoPart s"
  "encryptionPassphrase (fst (raid_type dn r s)) = encryptionPassphrase s"
  by (simp_all add: raid_type_def raid_placeholder_def Let_def)

lemma raid_type_Returns:
  assumes "raid_type dn r s = (s1, Returns q)"
  shows "r_format (fst q) = r_format r" "r_preexist (fst q) = r_preexist r"
    "r_encrypted (fst q) = r_encrypted r" "r_passphrase (fst q) = r_passphrase r"
    "r_lineno (fst q) = r_lineno r" "r_members (fst q) = r_members r"
  using assms
  by (auto simp: raid_type_def raid_placeholder_def Let_def split: if_splits)

lemma raid_noformat_fields [simp]:
  "doAutoPart (fst (raid_noformat dn r s)) = doAutoPart s"
  "encryptionPassphrase (fst (raid_noformat dn r s)) = encryptionPassphrase s"
  by (auto simp: raid_noformat_def split: option.splits)

lemma newMDArray_fields [simp]:
  "devices (snd (newMDArray dn r f ms s)) = devices s"
  "actions (snd (newMDArray dn r f ms s)) = actions s"
  "doAutoPart (snd (newMDArray dn r f ms s)) = doAutoPart s"
  "encryptionPassphrase (snd (newMDArray dn r f ms s)) = encryptionPassphrase s"
  "d_format (fst (newMDArray dn r f ms s)) = f"
  by (simp_all add: newMDArray_def new_device_def)

lemma raid_create_fields [simp]:
  "doAutoPart (fst (raid_create eng dn r f ms s)) = doAutoPart s"
  "encryptionPassphrase (fst (raid_create eng dn r f ms s)) = encryptionPassphrase s"
  by (simp_all add: raid_create_def Let_def split: option.splits)

lemma raid_rest_keeps: "keeps (r_passphrase r) s (fst (raid_rest eng dn r ty s))"
proof (cases "resolve_members eng (r_lineno r) RaidMember ''mdmember'' s (r_members r)")
  case (Returns raidmems)
  show ?thesis
  proof (cases "(r_mountpoint r \<noteq> [] \<and> \<not> prefix ''/'' (r_mountpoint r)) \<or> \<not> r_format r \<or>
      \<not> truthy (f_type (raid_format eng r ty))")
    case True
    then show ?thesis using Returns by (auto simp: raid_rest_def keeps_def)
  next
    case False
    then have "raid_rest eng dn r ty s =
        then_do (raid_create eng dn r (raid_format eng r ty) raidmems s) (\<lambda>s device.
          if r_encrypted r
          then luks_wrap eng (r_preexist r) device (raid_format eng r ty)
                 (r_passphrase r) (r_cipher r) (r_escrowcert r) (r_backuppassphrase r) s
          else (s, Returns ()))"
      using Returns by (auto simp: raid_rest_def)
    then show ?thesis by (simp only:) (rule encrypt_tail_keeps; simp)
  qed
qed (auto simp: raid_rest_def keeps_def)

lemma RaidData_execute_keeps:
  "keeps (r_passphrase self) (s\<lparr>doAutoPart := False\<rparr>) (fst (RaidData_execute eng self s))"
  unfolding RaidData_execute_def
proof (rule then_do_invariant)
  show "keeps (r_passphrase self) (s\<lparr>doAutoPart := False\<rparr>)
          (fst (raid_type (raid_devicename eng self s) self (s\<lparr>doAutoPart := False\<rparr>)))"
    by (simp add: keeps_def)
next
  fix s1 q
  assume t: "raid_type (raid_devicename eng self s) self (s\<lparr>doAutoPart := False\<rparr>) = (s1, Returns q)"
  then have "s1 = fst (raid_type (raid_devicename eng self s) self (s\<lparr>doAutoPart := False\<rparr>))"
    by simp
  then have s1: "doAutoPart s1 = False" "encryptionPassphrase s1 = encryptionPassphrase s"
    by simp_all
  have "keeps (r_passphrase (fst q)) s1
          (fst (raid_rest eng (raid_devicename eng self s) (fst q) (snd q) s1))"
    by (rule raid_rest_keeps)
  then show "keeps (r_passphrase self) (s\<lparr>doAutoPart := False\<rparr>)
          (fst (raid_rest eng (raid_devicename eng self s) (fst q) (snd q) s1))"
    using s1 raid_type_Returns(4) [OF t] by (auto intro: keeps_from)
qed

lemma raid_rest_passphrase:
  assumes "raid_rest eng dn r ty s = (s', Returns ())" and "r_format r" and "r_encrypted r"
  shows "encryptionPassphrase s' = ep_after (r_passphrase r) s"
proof -
  from assms(1,2) obtain raidmems where
    "then_do (raid_create eng dn r (raid_format eng r ty) raidmems s) (\<lambda>s device.
        if r_encrypted r
        then luks_wrap eng (r_preexist r) device (raid_format eng r ty)
               (r_passphrase r) (r_cipher r) (r_escrowcert r) (r_backuppassphrase r) s
        else (s, Returns ())) = (s', Returns ())"
    by (cases "resolve_members eng (r_lineno r) RaidMember ''mdmember'' s (r_members r)")
       (auto simp: raid_rest_def split: if_splits)
  from encrypt_tail_success [OF this _ assms(3), of s] show ?thesis by simp
qed

lemma RaidData_execute_passphrase:
  assumes "RaidData_execute eng self s = (s', Returns ())"
    and "r_format self" and "r_encrypted self"
  shows "encryptionPassphrase s' = ep_after (r_passphrase self) s"
proof -
  let ?dn = "raid_devicename eng self s"
  from assms(1) [unfolded RaidData_execute_def]
  obtain s1 q where t: "raid_type ?dn self (s\<lparr>doAutoPart := False\<rparr>) = (s1, Returns q)"
    and 1: "raid_rest eng ?dn (fst q) (snd q) s1 = (s', Returns ())"
    by (rule then_do_success)
  from t have "s1 = fst (raid_type ?dn self (s\<lparr>doAutoPart := False\<rparr>))" by simp
  then have s1: "encryptionPassphrase s1 = encryptionPassphrase s" by simp
  from raid_rest_passphrase [OF 1] raid_type_Returns [OF t] assms(2,3) s1
  show ?thesis by (simp add: ep_after_def)
qed

subsection \<open>VolGroupData.execute and BTRFSData.execute\<close>

lemma VolGroupData_execute_fields [simp]:
  "doAutoPart (fst (VolGroupData_execute eng v s)) = False"
  "encryptionPassphrase (fst (VolGroupData_execute eng v s)) = encryptionPassphrase s"
  by (cases "resolve_members eng (v_lineno v) PhysicalVolume ''lvmpv''
               (s\<lparr>doAutoPart := False\<rparr>) (v_physvols v)";
      simp add: VolGroupData_execute_def Let_def newVG_def set_reserved_def
        split: option.splits)+

lemma BTRFSData_execute_fields [simp]:
  "doAutoPart (fst (BTRFSData_execute eng b s)) = False"
  "encryptionPassphrase (fst (BTRFSData_execute eng b s)) = encryptionPassphrase s"
  by (cases "resolve_members eng (b_lineno b) BTRFSPartition ''btrfs''
               (s\<lparr>doAutoPart := False\<rparr>) (b_devices b)";
      simp add: BTRFSData_execute_def Let_def newBTRFS_def split: option.splits)+

subsection \<open>Where each handler can stop\<close>

lemma getAvailableDiskSpace_flag [simp]:
  "getAvailableDiskSpace (s\<lparr>doAutoPart := b\<rparr>) = getAvailableDiskSpace s"
  by (simp add: getAvailableDiskSpace_def disks_def)

lemma part_size_flag [simp]: "part_size eng p (s\<lparr>doAutoPart := b\<rparr>) = part_size eng p s"
  by (auto simp: part_size_def)

lemma part_size_disk [simp]: "part_size eng (p\<lparr>p_disk := d\<rparr>) s = part_size eng p s"
  by (auto simp: part_size_def)

lemma PartitionData_execute_cases:
  obtains (early) "devices (fst (PartitionData_execute eng self s)) = devices s"
      "actions (fst (PartitionData_execute eng self s)) = actions s"
      "\<And>u. snd (PartitionData_execute eng self s) \<noteq> Returns u"
  | (rest) p ty name s1 where
      "PartitionData_execute eng self s = part_rest eng p ty name s1"
      "devices s1 = devices s" "actions s1 = actions s" "doAutoPart s1 = False"
      "encryptionPassphrase s1 = encryptionPassphrase s"
      "p_format p = p_format self" "p_resize p = p_resize self" "p_onPart p = p_onPart self"
      "p_fstype p = p_fstype self" "p_encrypted p = p_encrypted self"
      "p_passphrase p = p_passphrase self" "p_lineno p = p_lineno self"
      "p_size p = part_size eng self s"
proof -
  let ?s0 = "s\<lparr>doAutoPart := False\<rparr>"
  obtain out0 where b: "part_biosdisk self ?s0 = (?s0, out0)"
    using part_biosdisk_state [of self ?s0] by (cases "part_biosdisk self ?s0") auto
  show ?thesis
  proof (cases out0)
    case (Returns p0)
    from part_biosdisk_Returns [OF b [unfolded Returns]]
    have p0: "p0 = self\<lparr>p_disk := p_disk p0\<rparr>" by simp
    have p0f: "p_format p0 = p_format self" "p_resize p0 = p_resize self"
      "p_onPart p0 = p_onPart self" "p_fstype p0 = p_fstype self"
      "p_encrypted p0 = p_encrypted self" "p_passphrase p0 = p_passphrase self"
      "p_lineno p0 = p_lineno self" "part_size eng p0 s = part_size eng self s"
      by (subst p0, simp)+
    obtain s1 out1 where t: "part_type eng p0 ?s0 = (s1, out1)"
      by (cases "part_type eng p0 ?s0")
    then have "s1 = fst (part_type eng p0 ?s0)" by simp
    then have s1: "devices s1 = devices s" "actions s1 = actions s" "doAutoPart s1 = False"
      "encryptionPassphrase s1 = encryptionPassphrase s"
      by simp_all
    have H: "PartitionData_execute eng self s =
        then_do (s1, out1) (\<lambda>s r. part_rest eng (fst r) (fst (snd r)) (snd (snd r)) s)"
      by (simp add: PartitionData_execute_def b Returns t)
    show ?thesis
    proof (cases out1)
      case (Returns r)
      from part_type_Returns [OF t [unfolded Returns]] p0f
      have f: "p_format (fst r) = p_format self" "p_resize (fst r) = p_resize self"
        "p_onPart (fst r) = p_onPart self" "p_fstype (fst r) = p_fstype self"
        "p_encrypted (fst r) = p_encrypted self" "p_passphrase (fst r) = p_passphrase self"
        "p_lineno (fst r) = p_lineno self" "p_size (fst r) = part_size eng self s"
        by simp_all
      have "PartitionData_execute eng self s =
          part_rest eng (fst r) (fst (snd r)) (snd (snd r)) s1"
        using H Returns by simp
      from rest [OF this s1 f] show ?thesis .
    qed (use H s1 in \<open>auto intro!: early\<close>)
  qed (use b in \<open>auto simp: PartitionData_execute_def intro!: early\<close>)
qed

lemma part_rest_encrypted_success:
  assumes "part_rest eng p ty name s = (s', Returns ())" and "p_format p" and "p_encrypted p"
  obtains parents s2 device where
    "part_create eng p (part_format eng p ty) parents name s = (s2, Returns device)"
    "luks_wrap eng (p_onPart p \<noteq> []) device (part_format eng p ty)
       (p_passphrase p) (p_cipher p) (p_escrowcert p) (p_backuppassphrase p) s2 = (s', Returns ())"
proof -
  obtain out where d: "part_disk eng p s = (s, out)"
    using part_disk_state [of eng p s] by (cases "part_disk eng p s") auto
  from assms(1,2) have sup: "truthy (f_type (part_format eng p ty))"
    by (auto simp: part_rest_def split: if_splits)
  from assms(1,2) sup d obtain parents where out: "out = Returns parents"
    by (cases out) (auto simp: part_rest_def)
  from assms(1,2) sup d out
  have "then_do (part_create eng p (part_format eng p ty) parents name s) (\<lambda>s device.
          if p_encrypted p
          then luks_wrap eng (p_onPart p \<noteq> []) device (part_format eng p ty)
                 (p_passphrase p) (p_cipher p) (p_escrowcert p) (p_backuppassphrase p) s
          else (s, Returns ())) = (s', Returns ())"
    by (simp add: part_rest_def)
  then obtain s2 device where
    "part_create eng p (part_format eng p ty) parents name s = (s2, Returns device)"
    "(if p_encrypted p
          then luks_wrap eng (p_onPart p \<noteq> []) device (part_format eng p ty)
                 (p_passphrase p) (p_cipher p) (p_escrowcert p) (p_backuppassphrase p) s2
          else (s2, Returns ())) = (s', Returns ())"
    by (rule then_do_success)
  then show ?thesis using assms(3) that by simp
qed

subsection \<open>Resize of a device bound without formatting\<close>

lemma resize_existing_Returns:
  "resize_existing eng lineno dev sz s = (s', Returns u) \<Longrightarrow>
   actions s' = actions s @ resize_pair dev sz"
  by (auto simp: resize_existing_def resize_pair_def split: if_splits)

lemma resize_existing_stopped:
  "resize_existing eng lineno dev sz s = (s', out) \<Longrightarrow> out \<noteq> Returns () \<Longrightarrow>
   out = Raises (KickstartValueError lineno (InvalidTargetSize sz (d_name dev))) \<and>
   (actions s' = actions s \<or> actions s' = actions s @ [hd (resize_pair dev sz)])"
  by (auto simp: resize_existing_def resize_pair_def split: if_splits)

lemma resize_existing_accepted:
  "accepts_resize_format eng dev sz \<Longrightarrow> accepts_resize_device eng dev sz \<Longrightarrow>
   snd (resize_existing eng lineno dev sz s) = Returns ()"
  by (simp add: resize_existing_def)

lemma bind_existing_resize:
  assumes "bind_existing eng lineno dev True sz mp opts s = (s', out)"
  shows "out = Returns () \<longrightarrow> actions s' = actions s @ resize_pair dev sz"
    and "out \<noteq> Returns () \<longrightarrow>
           out = Raises (KickstartValueError lineno (InvalidTargetSize sz (d_name dev))) \<and>
           (actions s' = actions s \<or> actions s' = actions s @ [hd (resize_pair dev sz)])"
proof -
  obtain s1 o1 where r: "resize_existing eng lineno dev sz s = (s1, o1)"
    by (cases "resize_existing eng lineno dev sz s")
  show "out = Returns () \<longrightarrow> actions s' = actions s @ resize_pair dev sz"
    using assms r resize_existing_Returns [of eng lineno dev sz s s1]
    by (cases o1) (auto simp: bind_existing_def)
  show "out \<noteq> Returns () \<longrightarrow>
           out = Raises (KickstartValueError lineno (InvalidTargetSize sz (d_name dev))) \<and>
           (actions s' = actions s \<or> actions s' = actions s @ [hd (resize_pair dev sz)])"
    using assms r resize_existing_stopped [OF r]
    by (cases o1) (auto simp: bind_existing_def)
qed

lemma bind_existing_accepted:
  "accepts_resize_format eng dev sz \<Longrightarrow> accepts_resize_device eng dev sz \<Longrightarrow>
   snd (bind_existing eng lineno dev resize sz mp opts s) = Returns ()"
  using resize_existing_accepted [of eng dev sz lineno s]
  by (cases "resize_existing eng lineno dev sz s") (auto simp: bind_existing_def)

lemma part_noformat_resize:
  assumes "part_noformat eng p s = (s', out)" and "p_resize p"
  shows "out = Returns () \<longrightarrow>
           (\<exists>dev. resolveDevice eng (devices s) (p_onPart p) = Some dev \<and>
                  actions s' = actions s @ resize_pair dev (p_size p))"
    and "out \<noteq> Returns () \<longrightarrow>
           actions s' = actions s \<or>
           (\<exists>dev. resolveDevice eng (devices s) (p_onPart p) = Some dev \<and>
                  actions s' = actions s @ [hd (resize_pair dev (p_size p))])"
  using assms bind_existing_resize [of eng "p_lineno p" _ "p_size p" "p_mountpoint p" "p_fsopts p" s s' out]
  by (auto simp: part_noformat_def split: if_splits option.splits)

lemma lv_noformat_resize:
  assumes "lv_noformat eng l vg s = (s', out)" and "l_resize l"
  shows "out = Returns () \<longrightarrow>
           (\<exists>dev. getDeviceByName (devices s) (lv_name vg (l_name l)) = Some dev \<and>
                  actions s' = actions s @ resize_pair dev (l_size l))"
    and "out \<noteq> Returns () \<longrightarrow>
           actions s' = actions s \<or>
           (\<exists>dev. getDeviceByName (devices s) (lv_name vg (l_name l)) = Some dev \<and>
                  actions s' = actions s @ [hd (resize_pair dev (l_size l))])"
  using assms bind_existing_resize [of eng "l_lineno l" _ "l_size l" "l_mountpoint l" "l_fsopts l" s s' out]
  by (auto simp: lv_noformat_def split: if_splits option.splits)

lemma PartitionData_execute_resize:
  assumes "\<not> p_format self" and "p_resize self"
    and H: "PartitionData_execute eng self s = (s', out)"
  shows "out = Returns () \<longrightarrow>
           (\<exists>dev. resolveDevice eng (devices s) (p_onPart self) = Some dev \<and>
                  actions s' = actions s @ resize_pair dev (part_size eng self s))"
    and "out \<noteq> Returns () \<longrightarrow>
           actions s' = actions s \<or>
           (\<exists>dev. resolveDevice eng (devices s) (p_onPart self) = Some dev \<and>
                  actions s' = actions s @ [hd (resize_pair dev (part_size eng self s))])"
proof -
  have "(out = Returns () \<longrightarrow>
           (\<exists>dev. resolveDevice eng (devices s) (p_onPart self) = Some dev \<and>
                  actions s' = actions s @ resize_pair dev (part_size eng self s))) \<and>
        (out \<noteq> Returns () \<longrightarrow>
           actions s' = actions s \<or>
           (\<exists>dev. resolveDevice eng (devices s) (p_onPart self) = Some dev \<and>
                  actions s' = actions s @ [hd (resize_pair dev (part_size eng self s))]))"
  proof (cases rule: PartitionData_execute_cases [of eng self s])
    case early
    then show ?thesis using H by auto
  next
    case (rest p ty name s1)
    from rest(1,6) assms(1) H have "part_noformat eng p s1 = (s', out)"
      by (simp add: part_rest_def)
    from part_noformat_resize [OF this] rest assms(2) show ?thesis by simp
  qed
  then show "out = Returns () \<longrightarrow>
           (\<exists>dev. resolveDevice eng (devices s) (p_onPart self) = Some dev \<and>
                  actions s' = actions s @ resize_pair dev (part_size eng self s))"
    and "out \<noteq> Returns () \<longrightarrow>
           actions s' = actions s \<or>
           (\<exists>dev. resolveDevice eng (devices s) (p_onPart self) = Some dev \<and>
                  actions s' = actions s @ [hd (resize_pair dev (part_size eng self s))])"
    by simp_all
qed

lemma part_type_plain:
  assumes "\<not> prefix ''raid.'' (p_mountpoint p)" "\<not> prefix ''pv.'' (p_mountpoint p)"
    "\<not> prefix ''btrfs.'' (p_mountpoint p)"
  shows "\<exists>r. part_type eng p s = (s, Returns r)"
  using assms by (simp add: part_type_def)

lemma PartitionData_execute_resize_total:
  assumes "\<not> p_format self" and "p_onbiosdisk self = []"
    and "\<not> prefix ''raid.'' (p_mountpoint self)" "\<not> prefix ''pv.'' (p_mountpoint self)"
    "\<not> prefix ''btrfs.'' (p_mountpoint self)"
    and "p_onPart self \<noteq> []"
    and "resolveDevice eng (devices s) (p_onPart self) = Some dev"
    and "accepts_resize_format eng dev (part_size eng self s)"
    and "accepts_resize_device eng dev (part_size eng self s)"
  shows "snd (PartitionData_execute eng self s) = Returns ()"
proof -
  let ?s0 = "s\<lparr>doAutoPart := False\<rparr>"
  have b: "part_biosdisk self ?s0 = (?s0, Returns self)"
    using assms(2) by (simp add: part_biosdisk_def)
  from part_type_plain [OF assms(3-5)] obtain r where t: "part_type eng self ?s0 = (?s0, Returns r)"
    by blast
  from part_type_Returns [OF t] assms
  have "snd (part_noformat eng (fst r) ?s0) = Returns ()"
    by (simp add: part_noformat_def bind_existing_accepted)
  then show ?thesis
    using b t part_type_Returns(1) [OF t] assms(1)
    by (simp add: PartitionData_execute_def part_rest_def)
qed

lemma lv_type_size [simp]: "l_size (fst (lv_type eng l s)) = lv_size eng l s"
  by (auto simp: lv_type_def lv_size_def Let_def)

lemma lv_size_flag [simp]: "lv_size eng l (s\<lparr>doAutoPart := b\<rparr>) = lv_size eng l s"
  by (auto simp: lv_size_def)

lemma LogVolData_execute_cases:
  obtains (early) "devices (fst (LogVolData_execute eng self s)) = devices s"
      "actions (fst (LogVolData_execute eng self s)) = actions s"
      "\<And>u. snd (LogVolData_execute eng self s) \<noteq> Returns u"
  | (rest) ty vg pool where
      "LogVolData_execute eng self s =
         lv_rest eng (fst (lv_type eng self (s\<lparr>doAutoPart := False\<rparr>))) ty vg pool
           (s\<lparr>doAutoPart := False\<rparr>)"
      "lv_vg self s = Some vg"
      "l_mountpoint (fst (lv_type eng self (s\<lparr>doAutoPart := False\<rparr>))) = [] \<or>
       prefix ''/'' (l_mountpoint (fst (lv_type eng self (s\<lparr>doAutoPart := False\<rparr>))))"
proof -
  let ?s = "s\<lparr>doAutoPart := False\<rparr>"
  let ?l = "fst (lv_type eng self ?s)"
  show ?thesis
  proof (cases "(l_mountpoint ?l \<noteq> [] \<and> \<not> prefix ''/'' (l_mountpoint ?l)) \<or> lv_vg self s = None")
    case True
    then show ?thesis
      by (intro early) (auto simp: LogVolData_execute_def Let_def lv_vg_def split: option.splits)
  next
    case False
    then obtain vg where vg: "lv_vg self s = Some vg" by auto
    let ?pool = "if l_thin_volume ?l then getDeviceByName (devices ?s) (lv_name vg (l_pool_name ?l))
                 else None"
    show ?thesis
    proof (cases "l_thin_volume ?l \<and> ?pool = None")
      case True
      then show ?thesis using False vg
        by (intro early) (auto simp: LogVolData_execute_def Let_def lv_vg_def split: option.splits)
    next
      case nopool: False
      have "LogVolData_execute eng self s = lv_rest eng ?l (snd (lv_type eng self ?s)) vg ?pool ?s"
        using False vg nopool
        by (auto simp: LogVolData_execute_def Let_def lv_vg_def split: option.splits)
      then show ?thesis using vg False by (intro rest) auto
    qed
  qed
qed

lemma LogVolData_execute_resize:
  assumes "\<not> l_format self" and "l_resize self"
    and H: "LogVolData_execute eng self s = (s', out)"
  shows "out = Returns () \<longrightarrow>
           (\<exists>vg dev. lv_vg self s = Some vg \<and>
                  getDeviceByName (devices s) (lv_name vg (l_name self)) = Some dev \<and>
                  actions s' = actions s @ resize_pair dev (lv_size eng self s))"
    and "out \<noteq> Returns () \<longrightarrow>
           actions s' = actions s \<or>
           (\<exists>vg dev. lv_vg self s = Some vg \<and>
                  getDeviceByName (devices s) (lv_name vg (l_name self)) = Some dev \<and>
                  actions s' = actions s @ [hd (resize_pair dev (lv_size eng self s))])"
proof -
  have "(out = Returns () \<longrightarrow>
           (\<exists>vg dev. lv_vg self s = Some vg \<and>
                  getDeviceByName (devices s) (lv_name vg (l_name self)) = Some dev \<and>
                  actions s' = actions s @ resize_pair dev (lv_size eng self s))) \<and>
        (out \<noteq> Returns () \<longrightarrow>
           actions s' = actions s \<or>
           (\<exists>vg dev. lv_vg self s = Some vg \<and>
                  getDeviceByName (devices s) (lv_name vg (l_name self)) = Some dev \<and>
                  actions s' = actions s @ [hd (resize_pair dev (lv_size eng self s))]))"
  proof (cases rule: LogVolData_execute_cases [of eng self s])
    case early
    then show ?thesis using H by auto
  next
    case (rest ty vg pool)
    let ?s = "s\<lparr>doAutoPart := False\<rparr>"
    from rest(1) assms(1) H have "lv_noformat eng (fst (lv_type eng self ?s)) vg ?s = (s', out)"
      by (simp add: lv_rest_def)
    from lv_noformat_resize [OF this] rest(2) assms(2) show ?thesis by simp
  qed
  then show "out = Returns () \<longrightarrow>
           (\<exists>vg dev. lv_vg self s = Some vg \<and>
                  getDeviceByName (devices s) (lv_name vg (l_name self)) = Some dev \<and>
                  actions s' = actions s @ resize_pair dev (lv_size eng self s))"
    and "out \<noteq> Returns () \<longrightarrow>
           actions s' = actions s \<or>
           (\<exists>vg dev. lv_vg self s = Some vg \<and>
                  getDeviceByName (devices s) (lv_name vg (l_name self)) = Some dev \<and>
                  actions s' = actions s @ [hd (resize_pair dev (lv_size eng self s))])"
    by simp_all
qed

lemma call_in_order:
  "in_order k r \<Longrightarrow> k < length step_order \<Longrightarrow> st = step_order ! k \<Longrightarrow> k' = Suc k \<Longrightarrow>
   in_order k' (call st f r)"
proof (cases r)
  case (fields tr s out)
  assume "in_order k r" "k < length step_order" "st = step_order ! k" "k' = Suc k"
  then show ?thesis using fields
    by (cases out) (auto simp: in_order_def call_def take_Suc_conv_app_nth split: prod.splits)
qed

lemma in_order_chain:
  assumes 1: "in_order 1 r"
  shows "in_order 9
       (call SetUpBootLoaderStep f8
       (call BTRFSStep f7
       (call LogVolStep f6
       (call VolGroupStep f5
       (call RaidStep f4
       (call PartitionStep f3
       (call AutoPartStep f2
       (call BootloaderStep f1 r))))))))"
proof -
  let ?r2 = "call BootloaderStep f1 r"
  let ?r3 = "call AutoPartStep f2 ?r2"
  let ?r4 = "call PartitionStep f3 ?r3"
  let ?r5 = "call RaidStep f4 ?r4"
  let ?r6 = "call VolGroupStep f5 ?r5"
  let ?r7 = "call LogVolStep f6 ?r6"
  let ?r8 = "call BTRFSStep f7 ?r7"
  have 2: "in_order 2 ?r2"
    using call_in_order [OF 1, of BootloaderStep 2 f1] by (simp add: step_order_def)
  have 3: "in_order 3 ?r3"
    using call_in_order [OF 2, of AutoPartStep 3 f2] by (simp add: step_order_def)
  have 4: "in_order 4 ?r4"
    using call_in_order [OF 3, of PartitionStep 4 f3] by (simp add: step_order_def)
  have 5: "in_order 5 ?r5"
    using call_in_order [OF 4, of RaidStep 5 f4] by (simp add: step_order_def)
  have 6: "in_order 6 ?r6"
    using call_in_order [OF 5, of VolGroupStep 6 f5] by (simp add: step_order_def)
  have 7: "in_order 7 ?r7"
    using call_in_order [OF 6, of LogVolStep 7 f6] by (simp add: step_order_def)
  have 8: "in_order 8 ?r8"
    using call_in_order [OF 7, of BTRFSStep 8 f7] by (simp add: step_order_def)
  show ?thesis
    using call_in_order [OF 8, of SetUpBootLoaderStep 9 f8] by (simp add: step_order_def)
qed

lemma clearpart_in_order: "in_order 1 (call ClearPartStep f ([], storage, Returns ()))"
  by (simp add: in_order_def call_def step_order_def split: prod.splits)

lemma in_order_prefix: "in_order k r \<Longrightarrow> prefix (fst r) step_order"
  by (auto simp: in_order_def take_is_prefix split: if_splits intro: prefix_order.trans)


section \<open>The claims\<close>

lemmas example_defs = skip_def by_name_def eng0_def eng_fixed_def storage0_def disk_sda_def
  part_sda1_def storage1_def ksdata0_def commands0_def part0_def logvol0_def raid0_def
  volgroup0_def btrfs0_def

lemmas run_defs = doKickstartStorage_def call_def Let_def usable_disk_def disks_def
  storage_commands_def ClearPart_execute_def Partition_execute_def Raid_execute_def
  VolGroup_execute_def LogVol_execute_def BTRFS_execute_def
  PartitionData_execute_def part_biosdisk_def part_type_def part_placeholder_def
  part_rest_def part_noformat_def part_format_def part_disk_def part_create_def
  newPartition_def newTmpFS_def new_device_def
  LogVolData_execute_def lv_type_def lv_rest_def lv_noformat_def lv_new_checks_def
  lv_format_def lv_create_def newLV_def lv_name_def
  RaidData_execute_def raid_devicename_def raid_type_def raid_placeholder_def raid_rest_def
  raid_noformat_def raid_format_def raid_create_def newMDArray_def mdarrays_def
  VolGroupData_execute_def newVG_def set_reserved_def vgs_def
  BTRFSData_execute_def newBTRFS_def
  resolve_member_def lookupAlias_def getChildren_def
  bind_existing_def resize_existing_def format_existing_def py_lt_def
  luks_wrap_def luks_format_def getEscrowCertificate_def getFormat_def truthy_def
  claim_mountpoint_def mountpoints_def getDeviceByName_def set_format_def set_mount_def
  set_mountpoint_def registerAction_def createDevice_def destroyDevice_def take_id_def
  DeviceFormat_def

lemma digits_small [simp]: "n < 10 \<Longrightarrow> digits 10 n = [''0123456789abcdef'' ! n]"
  by (subst digits.simps) simp

subsection \<open>Claim C3\<close>

lemma then_do_assoc:
  "then_do (then_do m f) g = then_do m (\<lambda>s x. then_do (f s x) g)"
  by (cases m; cases "snd m") (auto simp: then_do_def)

lemma then_do_unit: "then_do (m :: 's \<times> unit result) (\<lambda>s u. (s, Returns ())) = m"
  by (cases m; cases "snd m") (auto simp: then_do_def)

lemma call_outcome: "snd (call st f r) = then_do (snd r) (\<lambda>s u. f s)"
  by (cases r; cases "snd (snd r)") (auto simp: call_def)

lemma run_in_order_append:
  "run_in_order (fs @ gs) s = then_do (run_in_order fs s) (\<lambda>s' u. run_in_order gs s')"
  by (induction fs arbitrary: s) (simp_all add: then_do_assoc)

text \<open>After a call, the state and the outcome are still those of the commands that the
  steps called so far stand for, run in order from the first state.\<close>

lemma call_traced:
  assumes "snd r = run_in_order (map (command_of c) (fst r)) s0" and "f = command_of c st"
  shows "snd (call st f r) = run_in_order (map (command_of c) (fst (call st f r))) s0"
proof (cases r)
  case (fields tr s out)
  with assms(1) have run: "run_in_order (map (command_of c) tr) s0 = (s, out)" by simp
  show ?thesis
  proof (cases out)
    case (Returns u)
    have "call st f r = (tr @ [st], f s)"
      using fields Returns by (simp add: call_def)
    then show ?thesis
      using run Returns assms(2) by (simp add: run_in_order_append then_do_unit)
  next
    case (Raises e)
    have "call st f r = r" using fields Raises by (simp add: call_def)
    then show ?thesis using assms(1) by simp
  next
    case Hangs
    have "call st f r = r" using fields Hangs by (simp add: call_def)
    then show ?thesis using assms(1) by simp
  qed
qed

lemma doKickstartStorage_traced:
  "snd (doKickstartStorage ksdata storage) =
   run_in_order (map (command_of ksdata) (fst (doKickstartStorage ksdata storage))) storage"
proof -
  let ?r = "call ClearPartStep (clearpart ksdata) ([], storage, Returns ())"
  have 1: "snd ?r = run_in_order (map (command_of ksdata) (fst ?r)) storage"
    by (rule call_traced) simp_all
  show ?thesis
  proof (cases "snd (snd ?r) = Returns () \<and> \<not> usable_disk (fst (snd ?r))")
    case True
    then have "doKickstartStorage ksdata storage = ?r"
      by (simp add: doKickstartStorage_def Let_def)
    then show ?thesis using 1 by simp
  next
    case False
    have eq: "doKickstartStorage ksdata storage =
       call SetUpBootLoaderStep (setUpBootLoader ksdata)
       (call BTRFSStep (btrfs ksdata)
       (call LogVolStep (logvol ksdata)
       (call VolGroupStep (volgroup ksdata)
       (call RaidStep (raid ksdata)
       (call PartitionStep (partition ksdata)
       (call AutoPartStep (autopart ksdata)
       (call BootloaderStep (bootloader ksdata) ?r)))))))"
      by (simp only: doKickstartStorage_def Let_def if_not_P [OF False])
    show ?thesis
      unfolding eq by (intro call_traced 1) simp_all
  qed
qed

lemma chain_outcome:
  "snd (call st8 f8 (call st7 f7 (call st6 f6 (call st5 f5 (call st4 f4 (call st3 f3
     (call st2 f2 (call st1 f1 r)))))))) =
   then_do (snd r) (\<lambda>s u. run_in_order [f1, f2, f3, f4, f5, f6, f7, f8] s)"
  by (simp only: call_outcome then_do_assoc run_in_order.simps then_do_unit)

lemma doKickstartStorage_outcome:
  "snd (doKickstartStorage ksdata storage) =
     then_do (clearpart ksdata storage) (\<lambda>s u.
       if usable_disk s
       then run_in_order [bootloader ksdata, autopart ksdata, partition ksdata, raid ksdata,
              volgroup ksdata, logvol ksdata, btrfs ksdata, setUpBootLoader ksdata] s
       else (s, Returns ()))"
proof -
  let ?r = "call ClearPartStep (clearpart ksdata) ([], storage, Returns ())"
  let ?fs = "[bootloader ksdata, autopart ksdata, partition ksdata, raid ksdata,
              volgroup ksdata, logvol ksdata, btrfs ksdata, setUpBootLoader ksdata]"
  obtain s1 out where c: "clearpart ksdata storage = (s1, out)"
    by (cases "clearpart ksdata storage")
  have r: "?r = ([ClearPartStep], s1, out)"
    by (simp add: call_def c)
  show ?thesis
  proof (cases "out = Returns () \<and> \<not> usable_disk s1")
    case True
    then have "doKickstartStorage ksdata storage = ([ClearPartStep], s1, out)"
      by (simp add: doKickstartStorage_def Let_def r)
    then show ?thesis using True c by simp
  next
    case False
    then have n: "\<not> (snd (snd ?r) = Returns () \<and> \<not> usable_disk (fst (snd ?r)))"
      by (simp add: r)
    have eq: "doKickstartStorage ksdata storage =
       call SetUpBootLoaderStep (setUpBootLoader ksdata)
       (call BTRFSStep (btrfs ksdata)
       (call LogVolStep (logvol ksdata)
       (call VolGroupStep (volgroup ksdata)
       (call RaidStep (raid ksdata)
       (call PartitionStep (partition ksdata)
       (call AutoPartStep (autopart ksdata)
       (call BootloaderStep (bootloader ksdata) ?r)))))))"
      by (simp only: doKickstartStorage_def Let_def if_not_P [OF n])
    have run: "snd (doKickstartStorage ksdata storage) =
        then_do (s1, out) (\<lambda>s u. run_in_order ?fs s)"
      by (simp only: eq chain_outcome r snd_conv)
    show ?thesis
    proof (cases out)
      case (Returns u)
      with False have "usable_disk s1" by simp
      then show ?thesis by (simp only: run c Returns then_do_Returns if_True)
    next
      case (Raises e)
      show ?thesis by (simp only: run c Raises then_do_Raises)
    next
      case Hangs
      show ?thesis by (simp only: run c Hangs then_do_Hangs)
    qed
  qed
qed

text \<open>
  C3: for every run, the state and the outcome of \<^verbatim>\<open>doKickstartStorage\<close> are those of
  the clear-partitions command followed, when a usable disk is left, by the bootloader,
  automatic partitioning, partition, raid, volume-group, logical-volume and BTRFS
  commands and the bootloader set-up, each run from the state the one before left and
  the first that does not return ending the run. The steps called are a beginning of
  this fixed order, so no two are ever called in another order, and the state and the
  outcome are those of the commands these steps stand for, run in that order; a run that
  returns has called all nine, or only the first one when no usable disk was left.
\<close>

theorem doKickstartStorage_order:
  "snd (doKickstartStorage ksdata storage) =
     then_do (clearpart ksdata storage) (\<lambda>s u.
       if usable_disk s
       then run_in_order [bootloader ksdata, autopart ksdata, partition ksdata, raid ksdata,
              volgroup ksdata, logvol ksdata, btrfs ksdata, setUpBootLoader ksdata] s
       else (s, Returns ())) \<and>
   snd (doKickstartStorage ksdata storage) =
     run_in_order (map (command_of ksdata) (fst (doKickstartStorage ksdata storage))) storage \<and>
   prefix (fst (doKickstartStorage ksdata storage)) step_order \<and>
   (snd (snd (doKickstartStorage ksdata storage)) = Returns () \<longrightarrow>
      fst (doKickstartStorage ksdata storage) = step_order \<or>
      fst (doKickstartStorage ksdata storage) = [ClearPartStep] \<and>
      \<not> usable_disk (fst (snd (doKickstartStorage ksdata storage))))"
proof -
  let ?r = "call ClearPartStep (clearpart ksdata) ([], storage, Returns ())"
  have "prefix (fst (doKickstartStorage ksdata storage)) step_order \<and>
   (snd (snd (doKickstartStorage ksdata storage)) = Returns () \<longrightarrow>
      fst (doKickstartStorage ksdata storage) = step_order \<or>
      fst (doKickstartStorage ksdata storage) = [ClearPartStep] \<and>
      \<not> usable_disk (fst (snd (doKickstartStorage ksdata storage))))"
  proof (cases "snd (snd ?r) = Returns () \<and> \<not> usable_disk (fst (snd ?r))")
    case True
    then have eq: "doKickstartStorage ksdata storage = ?r"
      by (simp add: doKickstartStorage_def Let_def)
    have "fst ?r = [ClearPartStep]"
      using True clearpart_in_order [of "clearpart ksdata" storage]
      by (simp add: in_order_def step_order_def)
    then show ?thesis
      using True eq by (simp add: step_order_def)
  next
    case False
    have eq: "doKickstartStorage ksdata storage =
       call SetUpBootLoaderStep (setUpBootLoader ksdata)
       (call BTRFSStep (btrfs ksdata)
       (call LogVolStep (logvol ksdata)
       (call VolGroupStep (volgroup ksdata)
       (call RaidStep (raid ksdata)
       (call PartitionStep (partition ksdata)
       (call AutoPartStep (autopart ksdata)
       (call BootloaderStep (bootloader ksdata) ?r)))))))"
      by (simp only: doKickstartStorage_def Let_def if_not_P [OF False])
    have "in_order 9 (doKickstartStorage ksdata storage)"
      unfolding eq by (rule in_order_chain [OF clearpart_in_order])
    then show ?thesis
      by (auto simp: in_order_def step_order_def split: if_splits)
  qed
  then show ?thesis
    by (rule conjI [OF doKickstartStorage_outcome conjI [OF doKickstartStorage_traced]])
qed

theorem doKickstartStorage_order_witness:
  "fst (doKickstartStorage commands_sys storage1) = step_order \<and>
   snd (snd (doKickstartStorage commands_sys storage1)) = Returns () \<and>
   map d_name (devices (fst (snd (doKickstartStorage commands_sys storage1)))) =
     [''sda'', ''sda1'', ''pv.01'', ''luks3'', ''sys'', ''sys-root'', ''luks7''] \<and>
   fst (doKickstartStorage commands_sdz storage1) =
     [ClearPartStep, BootloaderStep, AutoPartStep, PartitionStep, RaidStep, VolGroupStep] \<and>
   snd (doKickstartStorage commands_sdz storage1) =
     (storage1\<lparr>doAutoPart := False\<rparr>,
      Raises (KickstartValueError 4 (UndefinedPartition PhysicalVolume ''sdz'')))"
  using doKickstartStorage_order [of commands_sys storage1]
    doKickstartStorage_order [of commands_sdz storage1]
  by (simp add: run_defs example_defs part_pv01_def volgroup_sys_def logvol_root_def
      commands_sys_def commands_sdz_def volgroup_sdz_def step_order_def)

subsection \<open>Claim C2\<close>

text \<open>
  C2 as stated fails: when no usable disk is left after the clear-partitions step, the
  run does not abort with an error. \<^verbatim>\<open>doKickstartStorage\<close> returns normally (line 1786).
\<close>

theorem doKickstartStorage_no_error_counterexample:
  "\<not> usable_disk (fst (clearpart commands0 storage0)) \<and>
   snd (snd (doKickstartStorage commands0 storage0)) = Returns ()"
  by (simp add: doKickstartStorage_def call_def Let_def usable_disk_def disks_def
      storage_commands_def ClearPart_execute_def example_defs)

text \<open>
  C2 (amended): if the clear-partitions step returns and leaves no usable disk (every
  disk is hidden or protected), the run returns at once without an error, and no later
  step (bootloader, autopart, partition, raid, volgroup, logvol, btrfs, bootloader
  set-up) is called.
\<close>

theorem doKickstartStorage_no_disk:
  "clearpart ksdata storage = (s1, Returns ()) \<Longrightarrow> \<not> usable_disk s1 \<Longrightarrow>
   doKickstartStorage ksdata storage = ([ClearPartStep], s1, Returns ())"
  by (simp add: doKickstartStorage_def call_def Let_def)

theorem doKickstartStorage_no_disk_witness:
  "doKickstartStorage commands0 storage0 = ([ClearPartStep], storage0, Returns ())"
proof -
  have c: "clearpart commands0 storage0 = (storage0, Returns ())"
    by (simp add: storage_commands_def ClearPart_execute_def example_defs)
  have d: "\<not> usable_disk storage0"
    by (simp add: usable_disk_def disks_def storage0_def)
  from doKickstartStorage_no_disk [OF c d] show ?thesis .
qed

subsection \<open>Claim C9\<close>

lemma deviceMatches_set:
  "set (deviceMatches u spec) =
     set (udev_resolve_glob u (full_spec u spec)) \<union>
     {d. udev_resolve_devspec u (full_spec u spec) = Some d \<and> d \<noteq> []}"
  by (auto simp: deviceMatches_def Let_def split: option.splits)

lemma deviceMatches_distinct:
  "distinct (udev_resolve_glob u (full_spec u spec)) \<Longrightarrow> distinct (deviceMatches u spec)"
  by (auto simp: deviceMatches_def Let_def split: option.splits)

text \<open>
  C9 as stated fails in its last part: a specification that matches exactly one device
  through the glob expansion alone yields a singleton, while the direct lookup of that
  specification finds nothing.
\<close>

theorem deviceMatches_singleton_counterexample:
  "deviceMatches udev_sda ''sd*'' = [''sda''] \<and>
   udev_resolve_devspec udev_sda (full_spec udev_sda ''sd*'') = None"
  by (simp add: deviceMatches_def full_spec_def udev_sda_def)

text \<open>
  C9 (amended): \<^verbatim>\<open>deviceMatches\<close> queries udev at the specification itself when it
  starts with /dev/ and at \<^verbatim>\<open>normpath("/dev/" + spec)\<close> otherwise. Its result is the
  glob expansion, in the order udev gives it, followed by the direct match when that
  match is a non-empty name that the expansion does not hold. So the result holds
  exactly the names of the expansion and the non-empty direct match, and has no
  duplicate when the expansion has none. When neither query matches the result is the
  empty list. When the direct lookup finds a non-empty name and the expansion holds
  nothing else, the result is the singleton of the direct match.
\<close>

theorem deviceMatches_union:
  "full_spec u spec = (if prefix ''/dev/'' spec then spec else normpath u (''/dev/'' @ spec)) \<and>
   deviceMatches u spec =
     udev_resolve_glob u (full_spec u spec) @
     (case udev_resolve_devspec u (full_spec u spec) of
        None \<Rightarrow> []
      | Some dev \<Rightarrow>
          if dev \<noteq> [] \<and> dev \<notin> set (udev_resolve_glob u (full_spec u spec)) then [dev]
          else []) \<and>
   set (deviceMatches u spec) =
     set (udev_resolve_glob u (full_spec u spec)) \<union>
     {d. udev_resolve_devspec u (full_spec u spec) = Some d \<and> d \<noteq> []} \<and>
   (distinct (udev_resolve_glob u (full_spec u spec)) \<longrightarrow> distinct (deviceMatches u spec)) \<and>
   (udev_resolve_glob u (full_spec u spec) = [] \<and>
    udev_resolve_devspec u (full_spec u spec) = None \<longrightarrow> deviceMatches u spec = []) \<and>
   (udev_resolve_devspec u (full_spec u spec) = Some d \<and> d \<noteq> [] \<and>
    (udev_resolve_glob u (full_spec u spec) = [] \<or> udev_resolve_glob u (full_spec u spec) = [d])
      \<longrightarrow> deviceMatches u spec = [d])"
proof -
  have "deviceMatches u spec = []"
    if "udev_resolve_glob u (full_spec u spec) = []"
      and "udev_resolve_devspec u (full_spec u spec) = None"
    using that by (simp add: deviceMatches_def)
  moreover have "deviceMatches u spec = [d]"
    if "udev_resolve_devspec u (full_spec u spec) = Some d" and "d \<noteq> []"
      and "udev_resolve_glob u (full_spec u spec) = [] \<or>
           udev_resolve_glob u (full_spec u spec) = [d]"
    using that by (auto simp: deviceMatches_def)
  moreover have "deviceMatches u spec =
     udev_resolve_glob u (full_spec u spec) @
     (case udev_resolve_devspec u (full_spec u spec) of
        None \<Rightarrow> []
      | Some dev \<Rightarrow>
          if dev \<noteq> [] \<and> dev \<notin> set (udev_resolve_glob u (full_spec u spec)) then [dev]
          else [])"
    by (simp add: deviceMatches_def Let_def split: option.splits)
  ultimately show ?thesis
    using deviceMatches_set [of u spec] deviceMatches_distinct [of u spec]
    by (simp add: full_spec_def)
qed

theorem deviceMatches_union_witness:
  "deviceMatches udev_sda ''sda'' = [''sda''] \<and>
   deviceMatches udev_sda ''/dev/sda'' = [''sda''] \<and>
   deviceMatches udev_sda ''sdb'' = [] \<and>
   deviceMatches udev_md ''md/*'' = [''md0'', ''md1'', ''md127''] \<and>
   set (deviceMatches udev_md ''md/*'') = {''md0'', ''md1'', ''md127''} \<and>
   distinct (deviceMatches udev_md ''md/*'')"
proof -
  have "deviceMatches udev_sda ''sda'' = [''sda'']"
    using deviceMatches_union [of udev_sda "''sda''" "''sda''"]
    by (simp add: full_spec_def udev_sda_def)
  moreover have "deviceMatches udev_sda ''/dev/sda'' = [''sda'']"
    using deviceMatches_union [of udev_sda "''/dev/sda''" "''sda''"]
    by (simp add: full_spec_def udev_sda_def)
  moreover have "deviceMatches udev_sda ''sdb'' = []"
    using deviceMatches_union [of udev_sda "''sdb''" "''sda''"]
    by (simp add: full_spec_def udev_sda_def)
  moreover have "deviceMatches udev_md ''md/*'' = [''md0'', ''md1'', ''md127''] \<and>
    set (deviceMatches udev_md ''md/*'') = {''md0'', ''md1'', ''md127''} \<and>
    distinct (deviceMatches udev_md ''md/*'')"
    using deviceMatches_union [of udev_md "''md/*''" "''md127''"]
    by (simp add: full_spec_def udev_md_def)
  ultimately show ?thesis by simp
qed

lemma execute_each_flag:
  assumes "\<And>x s. doAutoPart (fst (f x s)) = False"
  shows "xs \<noteq> [] \<or> \<not> doAutoPart s \<Longrightarrow> doAutoPart (fst (execute_each f xs s)) = False"
proof (induction xs arbitrary: s)
  case Nil
  then show ?case by simp
next
  case (Cons x xs)
  show ?case
    unfolding execute_each.simps
  proof (rule then_do_invariant)
    show "doAutoPart (fst (f x s)) = False" by (rule assms)
  next
    fix s1 u
    assume "f x s = (s1, Returns u)"
    then have "s1 = fst (f x s)" by simp
    then have "\<not> doAutoPart s1" using assms [of x s] by simp
    then show "doAutoPart (fst (execute_each f xs s1)) = False"
      using Cons.IH [of s1] by simp
  qed
qed

lemma PartitionData_execute_flag [simp]: "doAutoPart (fst (PartitionData_execute eng p s)) = False"
  using PartitionData_execute_keeps [of p s eng] by (simp add: keeps_def)

lemma RaidData_execute_flag [simp]: "doAutoPart (fst (RaidData_execute eng r s)) = False"
  using RaidData_execute_keeps [of r s eng] by (simp add: keeps_def)

lemma LogVolData_execute_flag [simp]: "doAutoPart (fst (LogVolData_execute eng l s)) = False"
  using LogVolData_execute_keeps [of l s eng] by (simp add: keeps_def)

subsection \<open>Claim C10\<close>

text \<open>
  C10: every execution of a partition, raid, logical-volume or btrfs sub-item handler
  leaves \<^verbatim>\<open>storage.doAutoPart\<close> false, whether it returns, raises or never stops (the
  volume-group handler does the same); so the flag is false after any non-empty list of
  sub-items, and once it is false every further list of sub-items leaves it false.
\<close>

theorem sub_items_disable_autopart:
  "doAutoPart (fst (PartitionData_execute eng p s)) = False \<and>
   doAutoPart (fst (RaidData_execute eng r s)) = False \<and>
   doAutoPart (fst (LogVolData_execute eng l s)) = False \<and>
   doAutoPart (fst (BTRFSData_execute eng b s)) = False \<and>
   doAutoPart (fst (VolGroupData_execute eng v s)) = False \<and>
   (ps \<noteq> [] \<or> \<not> doAutoPart s \<longrightarrow>
      doAutoPart (fst (execute_each (PartitionData_execute eng) ps s)) = False) \<and>
   (rs \<noteq> [] \<or> \<not> doAutoPart s \<longrightarrow> doAutoPart (fst (Raid_execute eng rs s)) = False) \<and>
   (vs \<noteq> [] \<or> \<not> doAutoPart s \<longrightarrow> doAutoPart (fst (VolGroup_execute eng vs s)) = False) \<and>
   (ls \<noteq> [] \<or> \<not> doAutoPart s \<longrightarrow>
      doAutoPart (fst (execute_each (LogVolData_execute eng) ls s)) = False) \<and>
   (bs \<noteq> [] \<or> \<not> doAutoPart s \<longrightarrow> doAutoPart (fst (BTRFS_execute eng bs s)) = False)"
  using execute_each_flag [of "PartitionData_execute eng" ps s]
    execute_each_flag [of "RaidData_execute eng" rs s]
    execute_each_flag [of "VolGroupData_execute eng" vs s]
    execute_each_flag [of "LogVolData_execute eng" ls s]
    execute_each_flag [of "BTRFSData_execute eng" bs s]
  by (simp add: Raid_execute_def VolGroup_execute_def BTRFS_execute_def)

theorem sub_items_disable_autopart_witness:
  "doAutoPart storage1 \<and>
   \<not> doAutoPart (fst (PartitionData_execute eng0 part_shrink storage1)) \<and>
   \<not> doAutoPart (fst (execute_each (PartitionData_execute eng0) [part_shrink] storage1)) \<and>
   \<not> doAutoPart (fst (Raid_execute eng0 [raid0] storage1))"
  using sub_items_disable_autopart [of eng0 part_shrink storage1 raid0 logvol0 btrfs0 volgroup0
      "[part_shrink]" "[raid0]" "[]" "[]" "[]"]
  by (simp add: storage1_def storage0_def)


lemma lv_type_mountpoint:
  "l_mountpoint (fst (lv_type eng l s)) = [] \<or>
   l_mountpoint (fst (lv_type eng l s)) = l_mountpoint l"
  by (simp add: lv_type_def Let_def)

lemma LogVolData_execute_resize_total:
  assumes "\<not> l_format self"
    and "l_mountpoint self = [] \<or> prefix ''/'' (l_mountpoint self) \<or> l_mountpoint self = ''swap''"
    and "lv_vg self s = Some vg" and "\<not> l_thin_volume self" and "l_name self \<noteq> []"
    and "getDeviceByName (devices s) (lv_name vg (l_name self)) = Some dev"
    and "accepts_resize_format eng dev (lv_size eng self s)"
    and "accepts_resize_device eng dev (lv_size eng self s)"
  shows "snd (LogVolData_execute eng self s) = Returns ()"
proof -
  let ?s = "s\<lparr>doAutoPart := False\<rparr>"
  let ?l = "fst (lv_type eng self ?s)"
  have mp: "l_mountpoint ?l = [] \<or> prefix ''/'' (l_mountpoint ?l)"
    using assms(2) by (auto simp: lv_type_def Let_def)
  have "snd (lv_noformat eng ?l vg ?s) = Returns ()"
    using assms by (simp add: lv_noformat_def bind_existing_accepted)
  then show ?thesis
    using mp assms(1,3,4)
    by (auto simp: LogVolData_execute_def Let_def lv_vg_def lv_rest_def split: option.splits)
qed

lemma resize_existing_outcome:
  "actions (fst (resize_existing eng lineno dev sz s)) =
     actions s @ takeWhile (accepted eng dev sz) (resize_pair dev sz) \<and>
   snd (resize_existing eng lineno dev sz s) =
     (if list_all (accepted eng dev sz) (resize_pair dev sz) then Returns ()
      else Raises (KickstartValueError lineno (InvalidTargetSize sz (d_name dev))))"
  by (simp add: resize_existing_def resize_pair_def accepted_def registerAction_def)

lemma bind_existing_outcome:
  "actions (fst (bind_existing eng lineno dev True sz mp opts s)) =
     actions s @ takeWhile (accepted eng dev sz) (resize_pair dev sz) \<and>
   snd (bind_existing eng lineno dev True sz mp opts s) =
     (if list_all (accepted eng dev sz) (resize_pair dev sz) then Returns ()
      else Raises (KickstartValueError lineno (InvalidTargetSize sz (d_name dev))))"
proof (cases "resize_existing eng lineno dev sz s")
  case (Pair s1 o1)
  with resize_existing_outcome [of eng lineno dev sz s]
  show ?thesis
    by (cases o1) (auto simp: bind_existing_def split: if_splits)
qed

lemma PartitionData_execute_resize_outcome:
  assumes "\<not> p_format self" and "p_resize self" and "p_onbiosdisk self = []"
    and "\<not> prefix ''raid.'' (p_mountpoint self)" "\<not> prefix ''pv.'' (p_mountpoint self)"
    "\<not> prefix ''btrfs.'' (p_mountpoint self)"
    and "p_onPart self \<noteq> []"
    and "resolveDevice eng (devices s) (p_onPart self) = Some dev"
  shows "actions (fst (PartitionData_execute eng self s)) =
     actions s @ takeWhile (accepted eng dev (part_size eng self s))
                   (resize_pair dev (part_size eng self s)) \<and>
   snd (PartitionData_execute eng self s) =
     (if list_all (accepted eng dev (part_size eng self s))
           (resize_pair dev (part_size eng self s))
      then Returns ()
      else Raises (KickstartValueError (p_lineno self)
                     (InvalidTargetSize (part_size eng self s) (d_name dev))))"
proof -
  let ?s0 = "s\<lparr>doAutoPart := False\<rparr>"
  have b: "part_biosdisk self ?s0 = (?s0, Returns self)"
    using assms(3) by (simp add: part_biosdisk_def)
  from part_type_plain [OF assms(4-6)] obtain r where t: "part_type eng self ?s0 = (?s0, Returns r)"
    by blast
  note f = part_type_Returns [OF t]
  have "PartitionData_execute eng self s = part_noformat eng (fst r) ?s0"
    using b t f(1) assms(1) by (simp add: PartitionData_execute_def part_rest_def)
  also have "\<dots> = bind_existing eng (p_lineno self) dev True (part_size eng self s)
      (p_mountpoint (fst r)) (p_fsopts (fst r)) ?s0"
    using f assms by (simp add: part_noformat_def)
  finally show ?thesis
    using bind_existing_outcome [of eng "p_lineno self" dev "part_size eng self s"
        "p_mountpoint (fst r)" "p_fsopts (fst r)" ?s0]
    by simp
qed

lemma LogVolData_execute_resize_outcome:
  assumes "\<not> l_format self" and "l_resize self"
    and "l_mountpoint self = [] \<or> prefix ''/'' (l_mountpoint self) \<or> l_mountpoint self = ''swap''"
    and "lv_vg self s = Some vg" and "\<not> l_thin_volume self" and "l_name self \<noteq> []"
    and "getDeviceByName (devices s) (lv_name vg (l_name self)) = Some dev"
  shows "actions (fst (LogVolData_execute eng self s)) =
     actions s @ takeWhile (accepted eng dev (lv_size eng self s))
                   (resize_pair dev (lv_size eng self s)) \<and>
   snd (LogVolData_execute eng self s) =
     (if list_all (accepted eng dev (lv_size eng self s))
           (resize_pair dev (lv_size eng self s))
      then Returns ()
      else Raises (KickstartValueError (l_lineno self)
                     (InvalidTargetSize (lv_size eng self s) (d_name dev))))"
proof -
  let ?s = "s\<lparr>doAutoPart := False\<rparr>"
  let ?l = "fst (lv_type eng self ?s)"
  have mp: "l_mountpoint ?l = [] \<or> prefix ''/'' (l_mountpoint ?l)"
    using assms(3) by (auto simp: lv_type_def Let_def)
  have ln: "l_lineno ?l = l_lineno self" "l_thin_volume ?l = l_thin_volume self"
    by (simp_all add: lv_type_def Let_def)
  have "LogVolData_execute eng self s = lv_noformat eng ?l vg ?s"
    using mp assms(1,4,5) ln
    by (auto simp: LogVolData_execute_def Let_def lv_vg_def lv_rest_def split: option.splits)
  also have "\<dots> = bind_existing eng (l_lineno self) dev True (lv_size eng self s)
      (l_mountpoint ?l) (l_fsopts ?l) ?s"
    using assms ln by (simp add: lv_noformat_def)
  finally show ?thesis
    using bind_existing_outcome [of eng "l_lineno self" dev "lv_size eng self s"
        "l_mountpoint ?l" "l_fsopts ?l" ?s]
    by simp
qed

subsection \<open>Claim C1\<close>

text \<open>
  C1 as stated fails: the engine may reject an action. Here it accepts the resize of the
  format and rejects the resize of the device; the shrink of sda1 then leaves the first
  action of the pair registered alone, and the handler raises.
\<close>

theorem resize_rejected_counterexample:
  "actions (fst (PartitionData_execute eng_fixed part_shrink storage1)) =
     [ActionResizeFormat 1 (Some 500)] \<and>
   snd (PartitionData_execute eng_fixed part_shrink storage1) =
     Raises (KickstartValueError 1 (InvalidTargetSize (Some 500) ''sda1''))"
  by (simp add: example_defs part_shrink_def PartitionData_execute_def part_biosdisk_def
      part_type_def part_rest_def part_noformat_def bind_existing_def resize_existing_def
      py_lt_def registerAction_def)

text \<open>
  C1 (amended): for a partition or a logical volume that is bound without formatting and
  with a resize, a handler that returns has registered exactly the pair of the
  specification on the device found: the resize of the format then of the device when
  the requested size is below the current size of the device, the resize of the device
  then of the format otherwise. A handler that does not return has registered nothing,
  or only the first action of that pair. When the device is found, the handler registers
  the actions of the pair, in order, up to the first one that the engine rejects; it
  returns when the engine accepts both, and otherwise raises the error of an invalid
  target size that names the size and the device.
\<close>

theorem resize_existing_order:
  "(\<not> p_format p \<and> p_resize p \<and> PartitionData_execute eng p s = (s', out) \<longrightarrow>
      (out = Returns () \<longrightarrow>
         (\<exists>dev. resolveDevice eng (devices s) (p_onPart p) = Some dev \<and>
                actions s' = actions s @ resize_pair dev (part_size eng p s))) \<and>
      (out \<noteq> Returns () \<longrightarrow>
         actions s' = actions s \<or>
         (\<exists>dev. resolveDevice eng (devices s) (p_onPart p) = Some dev \<and>
                actions s' = actions s @ [hd (resize_pair dev (part_size eng p s))]))) \<and>
   (\<not> l_format l \<and> l_resize l \<and> LogVolData_execute eng l s = (t', out') \<longrightarrow>
      (out' = Returns () \<longrightarrow>
         (\<exists>vg dev. lv_vg l s = Some vg \<and>
                getDeviceByName (devices s) (lv_name vg (l_name l)) = Some dev \<and>
                actions t' = actions s @ resize_pair dev (lv_size eng l s))) \<and>
      (out' \<noteq> Returns () \<longrightarrow>
         actions t' = actions s \<or>
         (\<exists>vg dev. lv_vg l s = Some vg \<and>
                getDeviceByName (devices s) (lv_name vg (l_name l)) = Some dev \<and>
                actions t' = actions s @ [hd (resize_pair dev (lv_size eng l s))]))) \<and>
   (\<not> p_format p \<and> p_onbiosdisk p = [] \<and> \<not> prefix ''raid.'' (p_mountpoint p) \<and>
    \<not> prefix ''pv.'' (p_mountpoint p) \<and> \<not> prefix ''btrfs.'' (p_mountpoint p) \<and>
    p_onPart p \<noteq> [] \<and> resolveDevice eng (devices s) (p_onPart p) = Some dev \<and>
    accepts_resize_format eng dev (part_size eng p s) \<and>
    accepts_resize_device eng dev (part_size eng p s) \<longrightarrow>
      snd (PartitionData_execute eng p s) = Returns ()) \<and>
   (\<not> l_format l \<and>
    (l_mountpoint l = [] \<or> prefix ''/'' (l_mountpoint l) \<or> l_mountpoint l = ''swap'') \<and>
    lv_vg l s = Some vg \<and> \<not> l_thin_volume l \<and> l_name l \<noteq> [] \<and>
    getDeviceByName (devices s) (lv_name vg (l_name l)) = Some lv \<and>
    accepts_resize_format eng lv (lv_size eng l s) \<and>
    accepts_resize_device eng lv (lv_size eng l s) \<longrightarrow>
      snd (LogVolData_execute eng l s) = Returns ()) \<and>
   (\<not> p_format p \<and> p_resize p \<and> p_onbiosdisk p = [] \<and>
    \<not> prefix ''raid.'' (p_mountpoint p) \<and> \<not> prefix ''pv.'' (p_mountpoint p) \<and>
    \<not> prefix ''btrfs.'' (p_mountpoint p) \<and>
    p_onPart p \<noteq> [] \<and> resolveDevice eng (devices s) (p_onPart p) = Some dev \<longrightarrow>
      actions (fst (PartitionData_execute eng p s)) =
        actions s @ takeWhile (accepted eng dev (part_size eng p s))
                      (resize_pair dev (part_size eng p s)) \<and>
      snd (PartitionData_execute eng p s) =
        (if list_all (accepted eng dev (part_size eng p s)) (resize_pair dev (part_size eng p s))
         then Returns ()
         else Raises (KickstartValueError (p_lineno p)
                        (InvalidTargetSize (part_size eng p s) (d_name dev))))) \<and>
   (\<not> l_format l \<and> l_resize l \<and>
    (l_mountpoint l = [] \<or> prefix ''/'' (l_mountpoint l) \<or> l_mountpoint l = ''swap'') \<and>
    lv_vg l s = Some vg \<and> \<not> l_thin_volume l \<and> l_name l \<noteq> [] \<and>
    getDeviceByName (devices s) (lv_name vg (l_name l)) = Some lv \<longrightarrow>
      actions (fst (LogVolData_execute eng l s)) =
        actions s @ takeWhile (accepted eng lv (lv_size eng l s))
                      (resize_pair lv (lv_size eng l s)) \<and>
      snd (LogVolData_execute eng l s) =
        (if list_all (accepted eng lv (lv_size eng l s)) (resize_pair lv (lv_size eng l s))
         then Returns ()
         else Raises (KickstartValueError (l_lineno l)
                        (InvalidTargetSize (lv_size eng l s) (d_name lv))))) \<and>
   accepted eng d sz (ActionResizeFormat i sz') = accepts_resize_format eng d sz \<and>
   accepted eng d sz (ActionResizeDevice i sz') = accepts_resize_device eng d sz \<and>
   resize_pair d (Some n) =
     (if n < d_currentSize d
      then [ActionResizeFormat (d_id d) (Some n), ActionResizeDevice (d_id d) (Some n)]
      else [ActionResizeDevice (d_id d) (Some n), ActionResizeFormat (d_id d) (Some n)])"
proof (intro conjI impI)
  show "resize_pair d (Some n) =
     (if n < d_currentSize d
      then [ActionResizeFormat (d_id d) (Some n), ActionResizeDevice (d_id d) (Some n)]
      else [ActionResizeDevice (d_id d) (Some n), ActionResizeFormat (d_id d) (Some n)])"
    by (simp add: resize_pair_def py_lt_def)
qed (use PartitionData_execute_resize [of p eng s s' out]
      LogVolData_execute_resize [of l eng s t' out']
      PartitionData_execute_resize_total [of p eng s dev]
      LogVolData_execute_resize_total [of l s vg lv eng]
      PartitionData_execute_resize_outcome [of p eng s dev]
      LogVolData_execute_resize_outcome [of l s vg lv eng] in \<open>simp_all add: accepted_def\<close>)

lemmas resize_example_defs = example_defs part_shrink_def part_grow_def logvol_shrink_def
  logvol_grow_def storage_lv_def vg_sys_def lv_sys_root_def part_size_def lv_size_def
  lv_vg_def lv_name_def getDeviceByName_def resize_pair_def py_lt_def accepted_def

theorem resize_existing_order_witness:
  "snd (PartitionData_execute eng0 part_shrink storage1) = Returns () \<and>
   actions (fst (PartitionData_execute eng0 part_shrink storage1)) =
     [ActionResizeFormat 1 (Some 500), ActionResizeDevice 1 (Some 500)] \<and>
   snd (PartitionData_execute eng0 part_grow storage1) = Returns () \<and>
   actions (fst (PartitionData_execute eng0 part_grow storage1)) =
     [ActionResizeDevice 1 (Some 2000), ActionResizeFormat 1 (Some 2000)] \<and>
   snd (LogVolData_execute eng0 logvol_shrink storage_lv) = Returns () \<and>
   actions (fst (LogVolData_execute eng0 logvol_shrink storage_lv)) =
     [ActionResizeFormat 3 (Some 500), ActionResizeDevice 3 (Some 500)] \<and>
   snd (LogVolData_execute eng0 logvol_grow storage_lv) = Returns () \<and>
   actions (fst (LogVolData_execute eng0 logvol_grow storage_lv)) =
     [ActionResizeDevice 3 (Some 900), ActionResizeFormat 3 (Some 900)] \<and>
   snd (PartitionData_execute eng_fixed part_shrink storage1) =
     Raises (KickstartValueError 1 (InvalidTargetSize (Some 500) ''sda1'')) \<and>
   actions (fst (PartitionData_execute eng_fixed part_shrink storage1)) =
     [ActionResizeFormat 1 (Some 500)] \<and>
   snd (LogVolData_execute eng_fixed logvol_grow storage_lv) =
     Raises (KickstartValueError 2 (InvalidTargetSize (Some 900) ''sys-root'')) \<and>
   actions (fst (LogVolData_execute eng_fixed logvol_grow storage_lv)) = []"
proof -
  have 1: "snd (PartitionData_execute eng0 part_shrink storage1) = Returns () \<and>
     actions (fst (PartitionData_execute eng0 part_shrink storage1)) =
       [ActionResizeFormat 1 (Some 500), ActionResizeDevice 1 (Some 500)]"
    using resize_existing_order [where p = part_shrink and eng = eng0 and s = storage1
        and dev = part_sda1 and l = logvol0 and vg = vg_sys and lv = lv_sys_root]
    by (simp add: resize_example_defs)
  have 2: "snd (PartitionData_execute eng0 part_grow storage1) = Returns () \<and>
     actions (fst (PartitionData_execute eng0 part_grow storage1)) =
       [ActionResizeDevice 1 (Some 2000), ActionResizeFormat 1 (Some 2000)]"
    using resize_existing_order [where p = part_grow and eng = eng0 and s = storage1
        and dev = part_sda1 and l = logvol0 and vg = vg_sys and lv = lv_sys_root]
    by (simp add: resize_example_defs)
  have 3: "snd (LogVolData_execute eng0 logvol_shrink storage_lv) = Returns () \<and>
     actions (fst (LogVolData_execute eng0 logvol_shrink storage_lv)) =
       [ActionResizeFormat 3 (Some 500), ActionResizeDevice 3 (Some 500)]"
    using resize_existing_order [where l = logvol_shrink and eng = eng0 and s = storage_lv
        and vg = vg_sys and lv = lv_sys_root and p = part0 and dev = part_sda1]
    by (simp add: resize_example_defs)
  have 4: "snd (LogVolData_execute eng0 logvol_grow storage_lv) = Returns () \<and>
     actions (fst (LogVolData_execute eng0 logvol_grow storage_lv)) =
       [ActionResizeDevice 3 (Some 900), ActionResizeFormat 3 (Some 900)]"
    using resize_existing_order [where l = logvol_grow and eng = eng0 and s = storage_lv
        and vg = vg_sys and lv = lv_sys_root and p = part0 and dev = part_sda1]
    by (simp add: resize_example_defs)
  have 5: "snd (PartitionData_execute eng_fixed part_shrink storage1) =
       Raises (KickstartValueError 1 (InvalidTargetSize (Some 500) ''sda1'')) \<and>
     actions (fst (PartitionData_execute eng_fixed part_shrink storage1)) =
       [ActionResizeFormat 1 (Some 500)]"
    using resize_existing_order [where p = part_shrink and eng = eng_fixed and s = storage1
        and dev = part_sda1 and l = logvol0 and vg = vg_sys and lv = lv_sys_root]
    by (simp add: resize_example_defs)
  have 6: "snd (LogVolData_execute eng_fixed logvol_grow storage_lv) =
       Raises (KickstartValueError 2 (InvalidTargetSize (Some 900) ''sys-root'')) \<and>
     actions (fst (LogVolData_execute eng_fixed logvol_grow storage_lv)) = []"
    using resize_existing_order [where l = logvol_grow and eng = eng_fixed and s = storage_lv
        and vg = vg_sys and lv = lv_sys_root and p = part0 and dev = part_sda1]
    by (simp add: resize_example_defs)
  from 1 2 3 4 5 6 show ?thesis by simp
qed

lemma luks_wrap_Returns_devices:
  assumes "luks_wrap eng ex device lf pw cipher url backup s = (s', Returns ())"
  shows "\<exists>cert luksdev. devices s' =
           set_format (d_id device) (luks_format eng ex device pw cipher cert backup) (devices s)
           @ [luksdev] \<and>
         d_type luksdev = LUKSDev \<and> d_format luksdev = lf \<and> d_parents luksdev = [d_id device]"
proof -
  let ?s0 = "if pw \<noteq> [] \<and> encryptionPassphrase s = []
             then s\<lparr>encryptionPassphrase := pw\<rparr> else s"
  from assms [unfolded luks_wrap_def]
  obtain s1 cert where g: "getEscrowCertificate eng url ?s0 = (s1, Returns cert)"
    and w: "(let s1' = s1\<lparr>devices := set_format (d_id device)
                      (luks_format eng ex device pw cipher cert backup) (devices s1)\<rparr>;
              k = fst (take_id s1'); s2 = snd (take_id s1');
              i = fst (take_id s2); s3 = snd (take_id s2)
          in (createDevice (new_device i (''luks'' @ digits 10 k) LUKSDev lf
                              [d_id device] NewLUKS) s3, Returns ())) = (s', Returns ())"
    by (rule then_do_success)
  from g have "s1 = fst (getEscrowCertificate eng url ?s0)" by simp
  then have "devices s1 = devices s" by simp
  with w show ?thesis
    by (auto simp: Let_def new_device_def)
qed

lemma part_create_new:
  assumes "p_onPart p = []" and "part_create eng p f ps name s = (s2, Returns req)"
  shows "\<exists>ds. devices s2 = ds @ [req]" and "d_format req = f"
  using assms by (auto simp: part_create_def Let_def split: if_splits)

lemma lv_create_new:
  assumes "\<not> l_preexist l" and "lv_create eng l vg pool f s = (s2, Returns req)"
  shows "\<exists>ds. devices s2 = ds @ [req]" and "d_format req = f"
  using assms by (auto simp: lv_create_def Let_def split: if_splits)

lemma set_format_last:
  "set_format (d_id req) f (ds @ [req]) = set_format (d_id req) f ds @ [req\<lparr>d_format := f\<rparr>]"
  by (simp add: set_format_def)

lemma luks_format_fields [simp]:
  "f_passphrase (luks_format eng ex device pw cipher cert backup) = pw"
  "f_cipher (luks_format eng ex device pw cipher cert backup) = cipher"
  "f_type (luks_format eng ex device pw cipher cert backup) = getFormat_type eng (Some ''luks'')"
  "f_mountpoint (luks_format eng ex device pw cipher cert backup) = []"
  by (simp_all add: luks_format_def getFormat_def DeviceFormat_def)

lemma wrap_new_request:
  assumes "devices s2 = ds @ [req]"
    and "luks_wrap eng ex req lf pw cipher url backup s2 = (s', Returns ())"
  shows "wrapped eng pw (devices s')"
proof -
  from luks_wrap_Returns_devices [OF assms(2)] obtain cert luksdev where
    d: "devices s' = set_format (d_id req) (luks_format eng ex req pw cipher cert backup) (devices s2)
           @ [luksdev]"
    and l: "d_type luksdev = LUKSDev" "d_parents luksdev = [d_id req]"
    by blast
  let ?lk = "luks_format eng ex req pw cipher cert backup"
  have "devices s' = set_format (d_id req) ?lk ds @ [req\<lparr>d_format := ?lk\<rparr>, luksdev]"
    using d assms(1) by (simp add: set_format_last)
  then show ?thesis
    unfolding wrapped_def using l
    by (intro exI [of _ "set_format (d_id req) ?lk ds"] exI [of _ "req\<lparr>d_format := ?lk\<rparr>"]
        exI [of _ luksdev]) simp
qed

lemma PartitionData_execute_wrapped:
  assumes "PartitionData_execute eng self s = (s', Returns ())"
    and "p_format self" and "p_encrypted self" and "p_onPart self = []"
  shows "wrapped eng (p_passphrase self) (devices s')"
proof (cases rule: PartitionData_execute_cases [of eng self s])
  case early
  then show ?thesis using assms(1) by simp
next
  case (rest p ty name s1)
  from rest assms have 1: "part_rest eng p ty name s1 = (s', Returns ())"
    and f: "p_format p" "p_encrypted p" "p_onPart p = []" "p_passphrase p = p_passphrase self"
    by simp_all
  from part_rest_encrypted_success [OF 1 f(1,2)]
  obtain parents s2 device where
    c: "part_create eng p (part_format eng p ty) parents name s1 = (s2, Returns device)"
    and w: "luks_wrap eng (p_onPart p \<noteq> []) device (part_format eng p ty)
       (p_passphrase p) (p_cipher p) (p_escrowcert p) (p_backuppassphrase p) s2 = (s', Returns ())"
    by blast
  from part_create_new(1) [OF f(3) c] obtain ds where "devices s2 = ds @ [device]" by blast
  from wrap_new_request [OF this w] f(4) show ?thesis by simp
qed

lemma LogVolData_execute_wrapped:
  assumes "LogVolData_execute eng self s = (s', Returns ())"
    and "l_format self" and "l_encrypted self" and "\<not> l_preexist self"
  shows "wrapped eng (l_passphrase self) (devices s')"
proof (cases rule: LogVolData_execute_cases [of eng self s])
  case early
  then show ?thesis using assms(1) by simp
next
  case (rest ty vg pool)
  let ?s = "s\<lparr>doAutoPart := False\<rparr>"
  let ?l = "fst (lv_type eng self ?s)"
  from rest(1) assms have "then_do (lv_create eng ?l vg pool (lv_format eng ?l ty) ?s) (\<lambda>s device.
        if l_encrypted ?l
        then luks_wrap eng (l_preexist ?l) device (lv_format eng ?l ty)
               (l_passphrase ?l) (l_cipher ?l) (l_escrowcert ?l) (l_backuppassphrase ?l) s
        else (s, Returns ())) = (s', Returns ())"
    by (auto simp: lv_rest_def split: option.splits if_splits)
  then obtain s2 device where
    c: "lv_create eng ?l vg pool (lv_format eng ?l ty) ?s = (s2, Returns device)"
    and "(if l_encrypted ?l
        then luks_wrap eng (l_preexist ?l) device (lv_format eng ?l ty)
               (l_passphrase ?l) (l_cipher ?l) (l_escrowcert ?l) (l_backuppassphrase ?l) s2
        else (s2, Returns ())) = (s', Returns ())"
    by (rule then_do_success)
  then have w: "luks_wrap eng (l_preexist ?l) device (lv_format eng ?l ty)
               (l_passphrase self) (l_cipher ?l) (l_escrowcert ?l) (l_backuppassphrase ?l) s2
               = (s', Returns ())"
    using assms(3) by simp
  from lv_create_new(1) [OF _ c] assms(4) obtain ds where "devices s2 = ds @ [device]" by auto
  from wrap_new_request [OF this w] show ?thesis .
qed

lemma raid_create_new:
  assumes "\<not> r_preexist r" and "raid_create eng dn r f raidmems s = (s2, Returns req)"
  shows "\<exists>ds. devices s2 = ds @ [req]"
  using assms by (auto simp: raid_create_def Let_def newMDArray_def split: if_splits option.splits)

lemma raid_rest_encrypted_success:
  assumes "raid_rest eng dn r ty s = (s', Returns ())" and "r_format r" and "r_encrypted r"
  obtains raidmems s2 device where
    "raid_create eng dn r (raid_format eng r ty) raidmems s = (s2, Returns device)"
    "luks_wrap eng (r_preexist r) device (raid_format eng r ty)
       (r_passphrase r) (r_cipher r) (r_escrowcert r) (r_backuppassphrase r) s2 = (s', Returns ())"
proof -
  from assms(1,2) obtain raidmems where
    m: "resolve_members eng (r_lineno r) RaidMember ''mdmember'' s (r_members r) = Returns raidmems"
    by (cases "resolve_members eng (r_lineno r) RaidMember ''mdmember'' s (r_members r)")
      (auto simp: raid_rest_def split: if_splits)
  from assms(1,2) m
  have "then_do (raid_create eng dn r (raid_format eng r ty) raidmems s) (\<lambda>s device.
          if r_encrypted r
          then luks_wrap eng (r_preexist r) device (raid_format eng r ty)
                 (r_passphrase r) (r_cipher r) (r_escrowcert r) (r_backuppassphrase r) s
          else (s, Returns ())) = (s', Returns ())"
    by (auto simp: raid_rest_def split: if_splits)
  then obtain s2 device where
    "raid_create eng dn r (raid_format eng r ty) raidmems s = (s2, Returns device)"
    "(if r_encrypted r
          then luks_wrap eng (r_preexist r) device (raid_format eng r ty)
                 (r_passphrase r) (r_cipher r) (r_escrowcert r) (r_backuppassphrase r) s2
          else (s2, Returns ())) = (s', Returns ())"
    by (rule then_do_success)
  then show ?thesis using assms(3) that by simp
qed

lemma RaidData_execute_encrypted_success:
  assumes "RaidData_execute eng self s = (s', Returns ())" and "r_format self"
    and "r_encrypted self"
  obtains r f raidmems dn s1 s2 device where
    "r_preexist r = r_preexist self" "r_passphrase r = r_passphrase self"
    "raid_create eng dn r f raidmems s1 = (s2, Returns device)"
    "luks_wrap eng (r_preexist r) device f
       (r_passphrase r) (r_cipher r) (r_escrowcert r) (r_backuppassphrase r) s2 = (s', Returns ())"
proof -
  from assms(1) [unfolded RaidData_execute_def]
  obtain s1 q where
    t: "raid_type (raid_devicename eng self s) self (s\<lparr>doAutoPart := False\<rparr>) = (s1, Returns q)"
    and r: "raid_rest eng (raid_devicename eng self s) (fst q) (snd q) s1 = (s', Returns ())"
    by (rule then_do_success)
  note f = raid_type_Returns [OF t]
  from raid_rest_encrypted_success [OF r] f assms(2,3)
  obtain raidmems s2 device where
    "raid_create eng (raid_devicename eng self s) (fst q) (raid_format eng (fst q) (snd q))
       raidmems s1 = (s2, Returns device)"
    "luks_wrap eng (r_preexist (fst q)) device (raid_format eng (fst q) (snd q))
       (r_passphrase (fst q)) (r_cipher (fst q)) (r_escrowcert (fst q))
       (r_backuppassphrase (fst q)) s2 = (s', Returns ())"
    by auto
  with f(2,4) show ?thesis by (rule that)
qed

lemma RaidData_execute_wrapped:
  assumes "RaidData_execute eng self s = (s', Returns ())"
    and "r_format self" and "r_encrypted self" and "\<not> r_preexist self"
  shows "wrapped eng (r_passphrase self) (devices s')"
proof (rule RaidData_execute_encrypted_success [OF assms(1-3)])
  fix r f raidmems dn s1 s2 device
  assume p: "r_preexist r = r_preexist self" "r_passphrase r = r_passphrase self"
    and c: "raid_create eng dn r f raidmems s1 = (s2, Returns device)"
    and w: "luks_wrap eng (r_preexist r) device f
       (r_passphrase r) (r_cipher r) (r_escrowcert r) (r_backuppassphrase r) s2 = (s', Returns ())"
  have "\<not> r_preexist r" using p(1) assms(4) by simp
  from raid_create_new [OF this c] obtain ds where "devices s2 = ds @ [device]" ..
  from wrap_new_request [OF this w] show ?thesis by (simp only: p(2))
qed

text \<open>The encryption block on any device, new or not.\<close>

lemma luks_wrap_encrypted_with:
  assumes "luks_wrap eng ex device lf pw cipher url backup s = (s', Returns ())"
  shows "encrypted_with eng pw (devices s')"
proof -
  from luks_wrap_Returns_devices [OF assms] obtain cert luksdev where
    d: "devices s' =
          set_format (d_id device) (luks_format eng ex device pw cipher cert backup) (devices s)
          @ [luksdev]"
    and l: "d_type luksdev = LUKSDev" "d_parents luksdev = [d_id device]"
    by blast
  show ?thesis
    unfolding encrypted_with_def d using l
    by (auto simp: list_all_iff set_format_def)
qed

lemma PartitionData_execute_encrypted:
  assumes "PartitionData_execute eng self s = (s', Returns ())"
    and "p_format self" and "p_encrypted self"
  shows "encrypted_with eng (p_passphrase self) (devices s')"
proof (cases rule: PartitionData_execute_cases [of eng self s])
  case early
  then show ?thesis using assms(1) by simp
next
  case (rest p ty name s1)
  from rest assms have 1: "part_rest eng p ty name s1 = (s', Returns ())"
    and f: "p_format p" "p_encrypted p" "p_passphrase p = p_passphrase self"
    by simp_all
  from part_rest_encrypted_success [OF 1 f(1,2)]
  obtain parents s2 device where
    w: "luks_wrap eng (p_onPart p \<noteq> []) device (part_format eng p ty)
       (p_passphrase p) (p_cipher p) (p_escrowcert p) (p_backuppassphrase p) s2 = (s', Returns ())"
    by blast
  from luks_wrap_encrypted_with [OF w] f(3) show ?thesis by simp
qed

lemma RaidData_execute_encrypted:
  assumes "RaidData_execute eng self s = (s', Returns ())"
    and "r_format self" and "r_encrypted self"
  shows "encrypted_with eng (r_passphrase self) (devices s')"
proof (rule RaidData_execute_encrypted_success [OF assms])
  fix r f raidmems dn s1 s2 device
  assume p: "r_passphrase r = r_passphrase self"
    and w: "luks_wrap eng (r_preexist r) device f
       (r_passphrase r) (r_cipher r) (r_escrowcert r) (r_backuppassphrase r) s2 = (s', Returns ())"
  from luks_wrap_encrypted_with [OF w] show ?thesis by (simp only: p)
qed

lemma LogVolData_execute_encrypted:
  assumes "LogVolData_execute eng self s = (s', Returns ())"
    and "l_format self" and "l_encrypted self"
  shows "encrypted_with eng (l_passphrase self) (devices s')"
proof (cases rule: LogVolData_execute_cases [of eng self s])
  case early
  then show ?thesis using assms(1) by simp
next
  case (rest ty vg pool)
  let ?s = "s\<lparr>doAutoPart := False\<rparr>"
  let ?l = "fst (lv_type eng self ?s)"
  from rest(1) assms have "then_do (lv_create eng ?l vg pool (lv_format eng ?l ty) ?s) (\<lambda>s device.
        if l_encrypted ?l
        then luks_wrap eng (l_preexist ?l) device (lv_format eng ?l ty)
               (l_passphrase ?l) (l_cipher ?l) (l_escrowcert ?l) (l_backuppassphrase ?l) s
        else (s, Returns ())) = (s', Returns ())"
    by (auto simp: lv_rest_def split: option.splits if_splits)
  then obtain s2 device where
    "(if l_encrypted ?l
        then luks_wrap eng (l_preexist ?l) device (lv_format eng ?l ty)
               (l_passphrase ?l) (l_cipher ?l) (l_escrowcert ?l) (l_backuppassphrase ?l) s2
        else (s2, Returns ())) = (s', Returns ())"
    by (rule then_do_success)
  then have w: "luks_wrap eng (l_preexist ?l) device (lv_format eng ?l ty)
               (l_passphrase self) (l_cipher ?l) (l_escrowcert ?l) (l_backuppassphrase ?l) s2
               = (s', Returns ())"
    using assms(3) by simp
  from luks_wrap_encrypted_with [OF w] show ?thesis .
qed

lemma PartitionData_execute_ep [simp]:
  "encryptionPassphrase s \<noteq> [] \<Longrightarrow>
   encryptionPassphrase (fst (PartitionData_execute eng p s)) = encryptionPassphrase s"
  using PartitionData_execute_keeps [of p s eng] by (auto simp: keeps_def ep_after_def)

lemma RaidData_execute_ep [simp]:
  "encryptionPassphrase s \<noteq> [] \<Longrightarrow>
   encryptionPassphrase (fst (RaidData_execute eng r s)) = encryptionPassphrase s"
  using RaidData_execute_keeps [of r s eng] by (auto simp: keeps_def ep_after_def)

lemma LogVolData_execute_ep [simp]:
  "encryptionPassphrase s \<noteq> [] \<Longrightarrow>
   encryptionPassphrase (fst (LogVolData_execute eng l s)) = encryptionPassphrase s"
  using LogVolData_execute_keeps [of l s eng] by (auto simp: keeps_def ep_after_def)

subsection \<open>Claim C4\<close>

text \<open>
  C4 as stated fails in its second half. In the run of the scenario the partition pv.01
  carries the passphrase abc123, which becomes the default of the run; the logical volume
  root is encrypted without a passphrase of its own, and the LUKS format that the handler
  puts on it has the empty passphrase of the request, not the default
  (\<^verbatim>\<open>getFormat("luks", passphrase=self.passphrase, ...)\<close>, lines 886-889).
\<close>

theorem later_request_passphrase_counterexample:
  "snd (snd (doKickstartStorage commands_sys storage1)) = Returns () \<and>
   encryptionPassphrase (fst (snd (doKickstartStorage commands_sys storage1))) = ''abc123'' \<and>
   luks_passphrases (fst (snd (doKickstartStorage commands_sys storage1))) =
     [(''pv.01'', ''abc123''), (''sys-root'', [])]"
  by (simp add: run_defs example_defs part_pv01_def volgroup_sys_def logvol_root_def
      commands_sys_def luks_passphrases_def)

text \<open>
  C4 (amended): an encrypted partition, raid or logical-volume request that is formatted,
  carries a passphrase and whose handler returns sets \<^verbatim>\<open>storage.encryptionPassphrase\<close>
  to its passphrase when none was set; once a default is set, no partition, raid,
  volume-group, logical-volume or btrfs handler changes it. Whenever the partition, the
  raid or the logical-volume handler of a formatted, encrypted request returns, the last
  device of the tree is the new LUKS device, and the LUKS format on its parent, which is
  the new request or the device that was on the system, carries the passphrase of the
  request itself, empty when the request omits it; for a new request the parent is the
  device before it in the tree. The handlers record the default and do not apply it.
\<close>

theorem default_passphrase:
  "(encryptionPassphrase s \<noteq> [] \<longrightarrow>
      encryptionPassphrase (fst (PartitionData_execute eng p s)) = encryptionPassphrase s \<and>
      encryptionPassphrase (fst (RaidData_execute eng r s)) = encryptionPassphrase s \<and>
      encryptionPassphrase (fst (LogVolData_execute eng l s)) = encryptionPassphrase s \<and>
      encryptionPassphrase (fst (VolGroupData_execute eng v s)) = encryptionPassphrase s \<and>
      encryptionPassphrase (fst (BTRFSData_execute eng b s)) = encryptionPassphrase s) \<and>
   (encryptionPassphrase s = [] \<and> p_format p \<and> p_encrypted p \<and> p_passphrase p \<noteq> [] \<and>
    PartitionData_execute eng p s = (s1, Returns ()) \<longrightarrow>
      encryptionPassphrase s1 = p_passphrase p) \<and>
   (encryptionPassphrase s = [] \<and> r_format r \<and> r_encrypted r \<and> r_passphrase r \<noteq> [] \<and>
    RaidData_execute eng r s = (s2, Returns ()) \<longrightarrow>
      encryptionPassphrase s2 = r_passphrase r) \<and>
   (encryptionPassphrase s = [] \<and> l_format l \<and> l_encrypted l \<and> l_passphrase l \<noteq> [] \<and>
    LogVolData_execute eng l s = (s3, Returns ()) \<longrightarrow>
      encryptionPassphrase s3 = l_passphrase l) \<and>
   (p_format p \<and> p_encrypted p \<and> PartitionData_execute eng p s = (s1, Returns ()) \<longrightarrow>
      encrypted_with eng (p_passphrase p) (devices s1) \<and>
      (p_onPart p = [] \<longrightarrow> wrapped eng (p_passphrase p) (devices s1))) \<and>
   (r_format r \<and> r_encrypted r \<and> RaidData_execute eng r s = (s2, Returns ()) \<longrightarrow>
      encrypted_with eng (r_passphrase r) (devices s2) \<and>
      (\<not> r_preexist r \<longrightarrow> wrapped eng (r_passphrase r) (devices s2))) \<and>
   (l_format l \<and> l_encrypted l \<and> LogVolData_execute eng l s = (s3, Returns ()) \<longrightarrow>
      encrypted_with eng (l_passphrase l) (devices s3) \<and>
      (\<not> l_preexist l \<longrightarrow> wrapped eng (l_passphrase l) (devices s3)))"
  using PartitionData_execute_passphrase [of eng p s s1]
    RaidData_execute_passphrase [of eng r s s2]
    LogVolData_execute_passphrase [of eng l s s3]
    PartitionData_execute_wrapped [of eng p s s1]
    RaidData_execute_wrapped [of eng r s s2]
    LogVolData_execute_wrapped [of eng l s s3]
    PartitionData_execute_encrypted [of eng p s s1]
    RaidData_execute_encrypted [of eng r s s2]
    LogVolData_execute_encrypted [of eng l s s3]
  by (simp add: ep_after_def)

lemma removeExistingFormat_loop_Nil [simp]: "removeExistingFormat_loop s [] = Some s"
  by (subst removeExistingFormat_loop.simps) simp

theorem default_passphrase_witness:
  "encryptionPassphrase storage1 = [] \<and>
   snd (PartitionData_execute eng0 part_pv01 storage1) = Returns () \<and>
   encryptionPassphrase (fst (PartitionData_execute eng0 part_pv01 storage1)) = ''abc123'' \<and>
   wrapped eng0 ''abc123'' (devices (fst (PartitionData_execute eng0 part_pv01 storage1))) \<and>
   snd (RaidData_execute eng0 raid_crypt (with_default storage_raid)) = Returns () \<and>
   encryptionPassphrase (fst (RaidData_execute eng0 raid_crypt (with_default storage_raid))) =
     ''abc123'' \<and>
   wrapped eng0 [] (devices (fst (RaidData_execute eng0 raid_crypt (with_default storage_raid)))) \<and>
   luks_passphrases (fst (RaidData_execute eng0 raid_crypt (with_default storage_raid))) =
     [(''md0'', [])] \<and>
   snd (PartitionData_execute eng0 part_crypt (with_default storage1)) = Returns () \<and>
   encrypted_with eng0 []
     (devices (fst (PartitionData_execute eng0 part_crypt (with_default storage1)))) \<and>
   luks_passphrases (fst (PartitionData_execute eng0 part_crypt (with_default storage1))) =
     [(''sda1'', [])] \<and>
   snd (LogVolData_execute eng0 logvol_crypt (with_default storage_lv)) = Returns () \<and>
   encrypted_with eng0 []
     (devices (fst (LogVolData_execute eng0 logvol_crypt (with_default storage_lv)))) \<and>
   luks_passphrases (fst (LogVolData_execute eng0 logvol_crypt (with_default storage_lv))) =
     [(''sys-root'', [])]"
proof -
  let ?A = "PartitionData_execute eng0 part_pv01 storage1"
  let ?B = "RaidData_execute eng0 raid_crypt (with_default storage_raid)"
  let ?C = "PartitionData_execute eng0 part_crypt (with_default storage1)"
  let ?D = "LogVolData_execute eng0 logvol_crypt (with_default storage_lv)"
  have a: "snd ?A = Returns ()"
    by (simp add: run_defs example_defs part_pv01_def)
  have b: "snd ?B = Returns () \<and> luks_passphrases (fst ?B) = [(''md0'', [])]"
    by (simp add: run_defs example_defs storage_raid_def part_raid_def raid_crypt_def
        with_default_def luks_passphrases_def del: set_filter)
  have c: "snd ?C = Returns () \<and> luks_passphrases (fst ?C) = [(''sda1'', [])]"
    by (simp add: run_defs example_defs part_crypt_def with_default_def luks_passphrases_def
        removeExistingFormat_def)
  have d: "snd ?D = Returns () \<and> luks_passphrases (fst ?D) = [(''sys-root'', [])]"
    by (simp add: run_defs example_defs logvol_crypt_def with_default_def luks_passphrases_def
        removeExistingFormat_def storage_lv_def vg_sys_def lv_sys_root_def)
  have A: "?A = (fst ?A, Returns ())" using a by (simp add: prod_eq_iff)
  have B: "?B = (fst ?B, Returns ())" using b by (simp add: prod_eq_iff)
  have C: "?C = (fst ?C, Returns ())" using c by (simp add: prod_eq_iff)
  have D: "?D = (fst ?D, Returns ())" using d by (simp add: prod_eq_iff)
  have f: "encryptionPassphrase storage1 = []" "p_format part_pv01" "p_encrypted part_pv01"
    "p_passphrase part_pv01 = ''abc123''" "p_onPart part_pv01 = []"
    "encryptionPassphrase (with_default storage_raid) = ''abc123''"
    "r_format raid_crypt" "r_encrypted raid_crypt" "r_passphrase raid_crypt = []"
    "\<not> r_preexist raid_crypt"
    "p_format part_crypt" "p_encrypted part_crypt" "p_passphrase part_crypt = []"
    "l_format logvol_crypt" "l_encrypted logvol_crypt" "l_passphrase logvol_crypt = []"
    by (simp_all add: storage1_def storage0_def part_pv01_def part0_def with_default_def
        raid_crypt_def raid0_def part_crypt_def logvol_crypt_def logvol0_def)
  have 1: "encryptionPassphrase (fst ?A) = ''abc123'' \<and> wrapped eng0 ''abc123'' (devices (fst ?A))"
    using default_passphrase [of storage1 eng0 part_pv01 raid0 logvol0 volgroup0 btrfs0
        "fst ?A" "fst ?A" "fst ?A"] A f
    by simp
  have 2: "encryptionPassphrase (fst ?B) = ''abc123'' \<and> wrapped eng0 [] (devices (fst ?B))"
    using default_passphrase [of "with_default storage_raid" eng0 part0 raid_crypt logvol0
        volgroup0 btrfs0 "fst ?B" "fst ?B" "fst ?B"] B f
    by simp
  have 3: "encrypted_with eng0 [] (devices (fst ?C))"
    using default_passphrase [of "with_default storage1" eng0 part_crypt raid0 logvol0
        volgroup0 btrfs0 "fst ?C" "fst ?C" "fst ?C"] C f
    by simp
  have 4: "encrypted_with eng0 [] (devices (fst ?D))"
    using default_passphrase [of "with_default storage_lv" eng0 part0 raid0 logvol_crypt
        volgroup0 btrfs0 "fst ?D" "fst ?D" "fst ?D"] D f
    by simp
  from a b c d f(1) 1 2 3 4 show ?thesis by simp
qed

lemma resolve_member_flag [simp]:
  "resolve_member eng (s\<lparr>doAutoPart := b\<rparr>) m = resolve_member eng s m"
  by (simp add: resolve_member_def Let_def split: option.splits list.splits)

lemma good_member_flag [simp]:
  "good_member eng expected (s\<lparr>doAutoPart := b\<rparr>) m = good_member eng expected s m"
  by (simp add: good_member_def)

lemma resolve_members_flag [simp]:
  "resolve_members eng lineno kind expected (s\<lparr>doAutoPart := b\<rparr>) ms =
   resolve_members eng lineno kind expected s ms"
  by (induction ms) (simp_all split: option.splits result.splits)

lemma resolve_members_unresolved:
  assumes "list_all (good_member eng expected s) before" and "resolve_member eng s m = None"
  shows "resolve_members eng lineno kind expected s (before @ m # after) =
         Raises (KickstartValueError lineno (UndefinedPartition kind m))"
  using assms
  by (induction before) (auto simp: good_member_def split: option.splits)

lemma resolve_members_wrong_format:
  assumes "list_all (good_member eng expected s) before" and "resolve_member eng s m = Some d"
    and "f_type (d_format d) \<noteq> Some expected"
  shows "resolve_members eng lineno kind expected s (before @ m # after) =
         Raises (KickstartValueError lineno (IncorrectFormat kind m (f_type (d_format d))))"
  using assms
  by (induction before) (auto simp: good_member_def split: option.splits)

lemma resolve_members_good:
  "list_all (good_member eng expected s) ms \<Longrightarrow>
   \<exists>devs. resolve_members eng lineno kind expected s ms = Returns devs"
  by (induction ms) (auto simp: good_member_def split: option.splits)

lemma RaidData_execute_members:
  assumes "raid_type (raid_devicename eng r s) r (s\<lparr>doAutoPart := False\<rparr>) = (s1, Returns q)"
    and "r_mountpoint (fst q) = [] \<or> prefix ''/'' (r_mountpoint (fst q))" and "r_format r"
    and "resolve_members eng (r_lineno r) RaidMember ''mdmember'' s1 (r_members r) = Raises e"
  shows "RaidData_execute eng r s = (s1, Raises e)"
  using assms raid_type_Returns [OF assms(1)]
  by (auto simp: RaidData_execute_def raid_rest_def)

lemma first_bad_member:
  assumes "\<not> list_all (good_member eng expected s) ms"
  obtains before m after where "ms = before @ m # after"
    "list_all (good_member eng expected s) before" "\<not> good_member eng expected s m"
proof -
  from assms have "\<exists>x\<in>set ms. \<not> good_member eng expected s x"
    by (simp add: list_all_iff)
  from split_list_first_prop [OF this] obtain before m after where
    "ms = before @ m # after" "\<not> good_member eng expected s m"
    "\<forall>y\<in>set before. \<not> \<not> good_member eng expected s y"
    by blast
  then show ?thesis using that by (simp add: list_all_iff)
qed

lemma resolve_members_bad:
  assumes "\<not> list_all (good_member eng expected s) ms"
  shows "\<exists>m\<in>set ms. \<not> good_member eng expected s m \<and>
           (resolve_member eng s m = None \<and>
            resolve_members eng lineno kind expected s ms =
              Raises (KickstartValueError lineno (UndefinedPartition kind m)) \<or>
            (\<exists>d. resolve_member eng s m = Some d \<and>
                 resolve_members eng lineno kind expected s ms =
                   Raises (KickstartValueError lineno
                             (IncorrectFormat kind m (f_type (d_format d))))))"
proof (rule first_bad_member [OF assms])
  fix before m after
  assume ms: "ms = before @ m # after"
    and g: "list_all (good_member eng expected s) before"
    and b: "\<not> good_member eng expected s m"
  show ?thesis
  proof (cases "resolve_member eng s m")
    case None
    from resolve_members_unresolved [OF g None, of lineno kind after] ms b None
    show ?thesis by auto
  next
    case (Some d)
    with b have "f_type (d_format d) \<noteq> Some expected" by (simp add: good_member_def)
    from resolve_members_wrong_format [OF g Some this, of lineno kind after] ms b Some
    show ?thesis by auto
  qed
qed

subsection \<open>Claim C8\<close>

text \<open>
  C8: a listed member resolves as the member loops of the handlers resolve it (lines
  363-374, 1216-1226 and 1445-1455): by the engine's lookup, the alias table or the
  requested name, and through a LUKS format to the device layered on it. In the raid,
  volume-group and btrfs handlers, new requests included, a member that resolves to no
  device raises the undefined-partition error that names it (the ReferenceError of the
  specification), and a member that resolves to a device whose format is not of the
  type mdmember, lvmpv or btrfs respectively raises the incorrect-format error that
  names it and the type found (the ValidationError); every error ends the run, so the
  error raised is that of the first member in the list that is not accepted, and a list
  with a member that is not accepted always raises one of the two. The two errors are
  never equal. When every member is accepted the loop returns the devices.
\<close>

theorem member_errors:
  "(list_all (good_member eng ''lvmpv'' s) before \<and> v_physvols v = before @ m # after \<longrightarrow>
      (resolve_member eng s m = None \<longrightarrow>
         VolGroupData_execute eng v s =
           (s\<lparr>doAutoPart := False\<rparr>,
            Raises (KickstartValueError (v_lineno v) (UndefinedPartition PhysicalVolume m)))) \<and>
      (resolve_member eng s m = Some d \<and> f_type (d_format d) \<noteq> Some ''lvmpv'' \<longrightarrow>
         VolGroupData_execute eng v s =
           (s\<lparr>doAutoPart := False\<rparr>,
            Raises (KickstartValueError (v_lineno v)
                      (IncorrectFormat PhysicalVolume m (f_type (d_format d))))))) \<and>
   (list_all (good_member eng ''btrfs'' s) before \<and> b_devices b = before @ m # after \<longrightarrow>
      (resolve_member eng s m = None \<longrightarrow>
         BTRFSData_execute eng b s =
           (s\<lparr>doAutoPart := False\<rparr>,
            Raises (KickstartValueError (b_lineno b) (UndefinedPartition BTRFSPartition m)))) \<and>
      (resolve_member eng s m = Some d \<and> f_type (d_format d) \<noteq> Some ''btrfs'' \<longrightarrow>
         BTRFSData_execute eng b s =
           (s\<lparr>doAutoPart := False\<rparr>,
            Raises (KickstartValueError (b_lineno b)
                      (IncorrectFormat BTRFSPartition m (f_type (d_format d))))))) \<and>
   (raid_type (raid_devicename eng r s) r (s\<lparr>doAutoPart := False\<rparr>) = (s', Returns q) \<and>
    (r_mountpoint (fst q) = [] \<or> prefix ''/'' (r_mountpoint (fst q))) \<and> r_format r \<and>
    list_all (good_member eng ''mdmember'' s') before \<and> r_members r = before @ m # after \<longrightarrow>
      (resolve_member eng s' m = None \<longrightarrow>
         RaidData_execute eng r s =
           (s', Raises (KickstartValueError (r_lineno r) (UndefinedPartition RaidMember m)))) \<and>
      (resolve_member eng s' m = Some d \<and> f_type (d_format d) \<noteq> Some ''mdmember'' \<longrightarrow>
         RaidData_execute eng r s =
           (s', Raises (KickstartValueError (r_lineno r)
                          (IncorrectFormat RaidMember m (f_type (d_format d))))))) \<and>
   (\<not> list_all (good_member eng ''lvmpv'' s) (v_physvols v) \<longrightarrow>
      (\<exists>x\<in>set (v_physvols v). \<not> good_member eng ''lvmpv'' s x \<and>
         (resolve_member eng s x = None \<and>
          snd (VolGroupData_execute eng v s) =
            Raises (KickstartValueError (v_lineno v) (UndefinedPartition PhysicalVolume x)) \<or>
          (\<exists>dx. resolve_member eng s x = Some dx \<and>
             snd (VolGroupData_execute eng v s) =
               Raises (KickstartValueError (v_lineno v)
                         (IncorrectFormat PhysicalVolume x (f_type (d_format dx)))))))) \<and>
   (\<not> list_all (good_member eng ''btrfs'' s) (b_devices b) \<longrightarrow>
      (\<exists>x\<in>set (b_devices b). \<not> good_member eng ''btrfs'' s x \<and>
         (resolve_member eng s x = None \<and>
          snd (BTRFSData_execute eng b s) =
            Raises (KickstartValueError (b_lineno b) (UndefinedPartition BTRFSPartition x)) \<or>
          (\<exists>dx. resolve_member eng s x = Some dx \<and>
             snd (BTRFSData_execute eng b s) =
               Raises (KickstartValueError (b_lineno b)
                         (IncorrectFormat BTRFSPartition x (f_type (d_format dx)))))))) \<and>
   (raid_type (raid_devicename eng r s) r (s\<lparr>doAutoPart := False\<rparr>) = (s', Returns q) \<and>
    (r_mountpoint (fst q) = [] \<or> prefix ''/'' (r_mountpoint (fst q))) \<and> r_format r \<and>
    \<not> list_all (good_member eng ''mdmember'' s') (r_members r) \<longrightarrow>
      (\<exists>x\<in>set (r_members r). \<not> good_member eng ''mdmember'' s' x \<and>
         (resolve_member eng s' x = None \<and>
          snd (RaidData_execute eng r s) =
            Raises (KickstartValueError (r_lineno r) (UndefinedPartition RaidMember x)) \<or>
          (\<exists>dx. resolve_member eng s' x = Some dx \<and>
             snd (RaidData_execute eng r s) =
               Raises (KickstartValueError (r_lineno r)
                         (IncorrectFormat RaidMember x (f_type (d_format dx)))))))) \<and>
   KickstartValueError n (UndefinedPartition k m) \<noteq> KickstartValueError n' (IncorrectFormat k' m' t) \<and>
   (list_all (good_member eng expected s) ms \<longrightarrow>
      (\<exists>devs. resolve_members eng n k expected s ms = Returns devs))"
proof (intro conjI impI; (elim conjE)?)
  show "KickstartValueError n (UndefinedPartition k m) \<noteq>
        KickstartValueError n' (IncorrectFormat k' m' t)"
    by simp
  show "\<exists>devs. resolve_members eng n k expected s ms = Returns devs"
    if "list_all (good_member eng expected s) ms"
    using that by (rule resolve_members_good)
next
  assume "list_all (good_member eng ''lvmpv'' s) before" "v_physvols v = before @ m # after"
    "resolve_member eng s m = None"
  then show "VolGroupData_execute eng v s =
           (s\<lparr>doAutoPart := False\<rparr>,
            Raises (KickstartValueError (v_lineno v) (UndefinedPartition PhysicalVolume m)))"
    by (simp add: VolGroupData_execute_def resolve_members_unresolved)
next
  assume "list_all (good_member eng ''lvmpv'' s) before" "v_physvols v = before @ m # after"
    "resolve_member eng s m = Some d" "f_type (d_format d) \<noteq> Some ''lvmpv''"
  then show "VolGroupData_execute eng v s =
           (s\<lparr>doAutoPart := False\<rparr>,
            Raises (KickstartValueError (v_lineno v)
                      (IncorrectFormat PhysicalVolume m (f_type (d_format d)))))"
    by (simp add: VolGroupData_execute_def resolve_members_wrong_format)
next
  assume "list_all (good_member eng ''btrfs'' s) before" "b_devices b = before @ m # after"
    "resolve_member eng s m = None"
  then show "BTRFSData_execute eng b s =
           (s\<lparr>doAutoPart := False\<rparr>,
            Raises (KickstartValueError (b_lineno b) (UndefinedPartition BTRFSPartition m)))"
    by (simp add: BTRFSData_execute_def resolve_members_unresolved)
next
  assume "list_all (good_member eng ''btrfs'' s) before" "b_devices b = before @ m # after"
    "resolve_member eng s m = Some d" "f_type (d_format d) \<noteq> Some ''btrfs''"
  then show "BTRFSData_execute eng b s =
           (s\<lparr>doAutoPart := False\<rparr>,
            Raises (KickstartValueError (b_lineno b)
                      (IncorrectFormat BTRFSPartition m (f_type (d_format d)))))"
    by (simp add: BTRFSData_execute_def resolve_members_wrong_format)
next
  assume a: "raid_type (raid_devicename eng r s) r (s\<lparr>doAutoPart := False\<rparr>) = (s', Returns q)"
    "r_mountpoint (fst q) = [] \<or> prefix ''/'' (r_mountpoint (fst q))" "r_format r"
    and g: "list_all (good_member eng ''mdmember'' s') before" "r_members r = before @ m # after"
    "resolve_member eng s' m = None"
  show "RaidData_execute eng r s =
           (s', Raises (KickstartValueError (r_lineno r) (UndefinedPartition RaidMember m)))"
    by (rule RaidData_execute_members [OF a]) (simp add: g resolve_members_unresolved)
next
  assume a: "raid_type (raid_devicename eng r s) r (s\<lparr>doAutoPart := False\<rparr>) = (s', Returns q)"
    "r_mountpoint (fst q) = [] \<or> prefix ''/'' (r_mountpoint (fst q))" "r_format r"
    and g: "list_all (good_member eng ''mdmember'' s') before" "r_members r = before @ m # after"
    "resolve_member eng s' m = Some d" "f_type (d_format d) \<noteq> Some ''mdmember''"
  show "RaidData_execute eng r s =
           (s', Raises (KickstartValueError (r_lineno r)
                          (IncorrectFormat RaidMember m (f_type (d_format d)))))"
    by (rule RaidData_execute_members [OF a]) (simp add: g resolve_members_wrong_format)
next
  assume b: "\<not> list_all (good_member eng ''lvmpv'' s) (v_physvols v)"
  have "snd (VolGroupData_execute eng v s) = Raises e"
    if "resolve_members eng (v_lineno v) PhysicalVolume ''lvmpv'' s (v_physvols v) = Raises e"
    for e using that by (simp add: VolGroupData_execute_def)
  with resolve_members_bad [OF b, of "v_lineno v" PhysicalVolume]
  show "\<exists>x\<in>set (v_physvols v). \<not> good_member eng ''lvmpv'' s x \<and>
         (resolve_member eng s x = None \<and>
          snd (VolGroupData_execute eng v s) =
            Raises (KickstartValueError (v_lineno v) (UndefinedPartition PhysicalVolume x)) \<or>
          (\<exists>dx. resolve_member eng s x = Some dx \<and>
             snd (VolGroupData_execute eng v s) =
               Raises (KickstartValueError (v_lineno v)
                         (IncorrectFormat PhysicalVolume x (f_type (d_format dx))))))"
    by blast
next
  assume b: "\<not> list_all (good_member eng ''btrfs'' s) (b_devices b)"
  have "snd (BTRFSData_execute eng b s) = Raises e"
    if "resolve_members eng (b_lineno b) BTRFSPartition ''btrfs'' s (b_devices b) = Raises e"
    for e using that by (simp add: BTRFSData_execute_def)
  with resolve_members_bad [OF b, of "b_lineno b" BTRFSPartition]
  show "\<exists>x\<in>set (b_devices b). \<not> good_member eng ''btrfs'' s x \<and>
         (resolve_member eng s x = None \<and>
          snd (BTRFSData_execute eng b s) =
            Raises (KickstartValueError (b_lineno b) (UndefinedPartition BTRFSPartition x)) \<or>
          (\<exists>dx. resolve_member eng s x = Some dx \<and>
             snd (BTRFSData_execute eng b s) =
               Raises (KickstartValueError (b_lineno b)
                         (IncorrectFormat BTRFSPartition x (f_type (d_format dx))))))"
    by blast
next
  assume a: "raid_type (raid_devicename eng r s) r (s\<lparr>doAutoPart := False\<rparr>) = (s', Returns q)"
    "r_mountpoint (fst q) = [] \<or> prefix ''/'' (r_mountpoint (fst q))" "r_format r"
    and b: "\<not> list_all (good_member eng ''mdmember'' s') (r_members r)"
  have "snd (RaidData_execute eng r s) = Raises e"
    if "resolve_members eng (r_lineno r) RaidMember ''mdmember'' s' (r_members r) = Raises e"
    for e using RaidData_execute_members [OF a that] by simp
  with resolve_members_bad [OF b, of "r_lineno r" RaidMember]
  show "\<exists>x\<in>set (r_members r). \<not> good_member eng ''mdmember'' s' x \<and>
         (resolve_member eng s' x = None \<and>
          snd (RaidData_execute eng r s) =
            Raises (KickstartValueError (r_lineno r) (UndefinedPartition RaidMember x)) \<or>
          (\<exists>dx. resolve_member eng s' x = Some dx \<and>
             snd (RaidData_execute eng r s) =
               Raises (KickstartValueError (r_lineno r)
                         (IncorrectFormat RaidMember x (f_type (d_format dx))))))"
    by blast
qed

theorem member_errors_witness:
  "VolGroupData_execute eng0 volgroup_sdz storage1 =
     (storage1\<lparr>doAutoPart := False\<rparr>,
      Raises (KickstartValueError 4 (UndefinedPartition PhysicalVolume ''sdz''))) \<and>
   VolGroupData_execute eng0 volgroup_sda1 storage1 =
     (storage1\<lparr>doAutoPart := False\<rparr>,
      Raises (KickstartValueError 4 (IncorrectFormat PhysicalVolume ''sda1'' (Some ''ext4'')))) \<and>
   VolGroupData_execute eng0 volgroup_two storage1 =
     (storage1\<lparr>doAutoPart := False\<rparr>,
      Raises (KickstartValueError 4 (IncorrectFormat PhysicalVolume ''sda1'' (Some ''ext4'')))) \<and>
   BTRFSData_execute eng0 (btrfs_on [''sdz'']) storage1 =
     (storage1\<lparr>doAutoPart := False\<rparr>,
      Raises (KickstartValueError 5 (UndefinedPartition BTRFSPartition ''sdz''))) \<and>
   BTRFSData_execute eng0 (btrfs_on [''sda1'']) storage1 =
     (storage1\<lparr>doAutoPart := False\<rparr>,
      Raises (KickstartValueError 5 (IncorrectFormat BTRFSPartition ''sda1'' (Some ''ext4'')))) \<and>
   RaidData_execute eng0 (raid_on [''sdz'']) storage1 =
     (storage1\<lparr>doAutoPart := False\<rparr>,
      Raises (KickstartValueError 3 (UndefinedPartition RaidMember ''sdz''))) \<and>
   RaidData_execute eng0 (raid_on [''sda1'']) storage1 =
     (storage1\<lparr>doAutoPart := False\<rparr>,
      Raises (KickstartValueError 3 (IncorrectFormat RaidMember ''sda1'' (Some ''ext4'')))) \<and>
   good_member eng0 ''lvmpv'' storage_pv ''pv.01'' \<and>
   (\<exists>devs. resolve_members eng0 4 PhysicalVolume ''lvmpv'' storage_pv (v_physvols volgroup_sys) =
      Returns devs)"
proof -
  have 1: "resolve_member eng0 storage1 ''sdz'' = None"
    "resolve_member eng0 (storage1\<lparr>doAutoPart := False\<rparr>) ''sdz'' = None"
    by (simp_all add: resolve_member_def lookupAlias_def example_defs)
  have 2: "resolve_member eng0 storage1 ''sda1'' = Some part_sda1"
    "resolve_member eng0 (storage1\<lparr>doAutoPart := False\<rparr>) ''sda1'' = Some part_sda1"
    "f_type (d_format part_sda1) = Some ''ext4''"
    by (simp_all add: resolve_member_def lookupAlias_def example_defs DeviceFormat_def)
  have 3: "v_physvols volgroup_sdz = [] @ ''sdz'' # []" "v_lineno volgroup_sdz = 4"
    "v_physvols volgroup_sda1 = [] @ ''sda1'' # []" "v_lineno volgroup_sda1 = 4"
    "v_physvols volgroup_two = [] @ ''sda1'' # [''sdz'']" "v_lineno volgroup_two = 4"
    "b_devices (btrfs_on [''sdz'']) = [] @ ''sdz'' # []" "b_lineno (btrfs_on [''sdz'']) = 5"
    "b_devices (btrfs_on [''sda1'']) = [] @ ''sda1'' # []" "b_lineno (btrfs_on [''sda1'']) = 5"
    "r_members (raid_on [''sdz'']) = [] @ ''sdz'' # []" "r_lineno (raid_on [''sdz'']) = 3"
    "r_members (raid_on [''sda1'']) = [] @ ''sda1'' # []" "r_lineno (raid_on [''sda1'']) = 3"
    by (simp_all add: volgroup_sdz_def volgroup_sda1_def volgroup_two_def volgroup0_def
        btrfs_on_def btrfs0_def raid_on_def raid0_def)
  have 4: "raid_type (raid_devicename eng0 (raid_on ms) storage1) (raid_on ms)
             (storage1\<lparr>doAutoPart := False\<rparr>) =
           (storage1\<lparr>doAutoPart := False\<rparr>, Returns (raid_on ms, ''xfs''))"
    "r_mountpoint (raid_on ms) = ''/home''" "r_format (raid_on ms)" for ms
    by (simp_all add: raid_type_def raid_devicename_def raid_on_def raid0_def storage1_def
        storage0_def)
  have a: "VolGroupData_execute eng0 volgroup_sdz storage1 =
     (storage1\<lparr>doAutoPart := False\<rparr>,
      Raises (KickstartValueError 4 (UndefinedPartition PhysicalVolume ''sdz'')))"
    using member_errors [where eng = eng0 and s = storage1 and before = "[]"
        and v = volgroup_sdz and m = "''sdz''" and after = "[]"] 1 3
    by simp
  have b: "VolGroupData_execute eng0 volgroup_sda1 storage1 =
     (storage1\<lparr>doAutoPart := False\<rparr>,
      Raises (KickstartValueError 4 (IncorrectFormat PhysicalVolume ''sda1'' (Some ''ext4''))))"
    using member_errors [where eng = eng0 and s = storage1 and before = "[]"
        and v = volgroup_sda1 and m = "''sda1''" and after = "[]" and d = part_sda1] 2 3
    by simp
  have c: "VolGroupData_execute eng0 volgroup_two storage1 =
     (storage1\<lparr>doAutoPart := False\<rparr>,
      Raises (KickstartValueError 4 (IncorrectFormat PhysicalVolume ''sda1'' (Some ''ext4''))))"
    using member_errors [where eng = eng0 and s = storage1 and before = "[]"
        and v = volgroup_two and m = "''sda1''" and after = "[''sdz'']" and d = part_sda1] 2 3
    by simp
  have d: "BTRFSData_execute eng0 (btrfs_on [''sdz'']) storage1 =
     (storage1\<lparr>doAutoPart := False\<rparr>,
      Raises (KickstartValueError 5 (UndefinedPartition BTRFSPartition ''sdz'')))"
    using member_errors [where eng = eng0 and s = storage1 and before = "[]"
        and b = "btrfs_on [''sdz'']" and m = "''sdz''" and after = "[]"] 1 3
    by simp
  have e: "BTRFSData_execute eng0 (btrfs_on [''sda1'']) storage1 =
     (storage1\<lparr>doAutoPart := False\<rparr>,
      Raises (KickstartValueError 5 (IncorrectFormat BTRFSPartition ''sda1'' (Some ''ext4''))))"
    using member_errors [where eng = eng0 and s = storage1 and before = "[]"
        and b = "btrfs_on [''sda1'']" and m = "''sda1''" and after = "[]" and d = part_sda1] 2 3
    by simp
  have f: "RaidData_execute eng0 (raid_on [''sdz'']) storage1 =
     (storage1\<lparr>doAutoPart := False\<rparr>,
      Raises (KickstartValueError 3 (UndefinedPartition RaidMember ''sdz'')))"
    using member_errors [where eng = eng0 and s = storage1 and before = "[]"
        and r = "raid_on [''sdz'']" and m = "''sdz''" and after = "[]"
        and s' = "storage1\<lparr>doAutoPart := False\<rparr>" and q = "(raid_on [''sdz''], ''xfs'')"]
      1 3 4
    by simp
  have g: "RaidData_execute eng0 (raid_on [''sda1'']) storage1 =
     (storage1\<lparr>doAutoPart := False\<rparr>,
      Raises (KickstartValueError 3 (IncorrectFormat RaidMember ''sda1'' (Some ''ext4''))))"
    using member_errors [where eng = eng0 and s = storage1 and before = "[]"
        and r = "raid_on [''sda1'']" and m = "''sda1''" and after = "[]" and d = part_sda1
        and s' = "storage1\<lparr>doAutoPart := False\<rparr>" and q = "(raid_on [''sda1''], ''xfs'')"]
      2 3 4
    by simp
  have h: "good_member eng0 ''lvmpv'' storage_pv ''pv.01''"
    by (simp add: good_member_def storage_pv_def run_defs example_defs part_pv01_def)
  have i: "\<exists>devs. resolve_members eng0 4 PhysicalVolume ''lvmpv'' storage_pv
                    (v_physvols volgroup_sys) = Returns devs"
    using member_errors [where eng = eng0 and s = storage_pv and expected = "''lvmpv''"
        and ms = "v_physvols volgroup_sys" and n = 4 and k = PhysicalVolume] h
    by (simp add: volgroup_sys_def volgroup0_def)
  from a b c d e f g h i show ?thesis by simp
qed

subsection \<open>Claims C6 and C7\<close>

text \<open>
  C6 at the failing input: the second raid request that gives the placeholder pv.01 is
  executed without an error. The check of line 1175 looks for a device named pv.01, and
  the first array was created under the name md0 (line 1245).
\<close>

theorem duplicate_raid_label_accepted:
  "r_mountpoint raid_md0 = ''pv.01'' \<and> r_mountpoint raid_md1 = ''pv.01'' \<and>
   snd (RaidData_execute eng0 raid_md0 storage_raid) = Returns () \<and>
   snd (Raid_execute eng0 [raid_md0, raid_md1] storage_raid) = Returns ()"
  by (simp add: storage_raid_def part_raid_def raid_md0_def raid_md1_def run_defs example_defs
      del: set_filter)

text \<open>
  C7 at the failing input: the first raid request enters pv.01 into the alias table with
  the name md0; the second one replaces the entry by md1 (line 1173 runs before the
  check of line 1175) and returns.
\<close>

theorem raid_label_overwritten:
  "onPart (fst (RaidData_execute eng0 raid_md0 storage_raid)) ''pv.01'' = Some ''md0'' \<and>
   onPart (fst (Raid_execute eng0 [raid_md0, raid_md1] storage_raid)) ''pv.01'' = Some ''md1'' \<and>
   snd (Raid_execute eng0 [raid_md0, raid_md1] storage_raid) = Returns ()"
  by (simp add: storage_raid_def part_raid_def raid_md0_def raid_md1_def run_defs example_defs
      del: set_filter)

subsection \<open>Mount points (lines 404-409, 839-844, 1107-1121, 1268-1273)\<close>

lemma claimed_append [simp]: "claimed (xs @ ys) = claimed xs @ claimed ys"
  by (simp add: claimed_def)

lemma claimed_single:
  "claimed [d] = (if f_mountpoint (d_format d) = [] then [] else [f_mountpoint (d_format d)])"
  by (simp add: claimed_def)

lemma claimed_set_format:
  "f_mountpoint f = [] \<Longrightarrow> claimed (set_format i f ds) = claimed (filter (\<lambda>d. d_id d \<noteq> i) ds)"
  by (induction ds) (auto simp: claimed_def set_format_def)

lemma claimed_iff: "mp \<in> set (claimed ds) \<longleftrightarrow> mp \<noteq> [] \<and> (\<exists>d\<in>set ds. f_mountpoint (d_format d) = mp)"
  by (auto simp: claimed_def)

lemma set_claimed_filter: "set (claimed (filter P ds)) \<subseteq> set (claimed ds)"
  by (auto simp: claimed_iff)

lemma distinct_claimed_filter: "distinct (claimed ds) \<Longrightarrow> distinct (claimed (filter P ds))"
proof (induction ds)
  case Nil
  then show ?case by simp
next
  case (Cons d ds)
  have "claimed (d # ds) = claimed [d] @ claimed ds" "claimed (filter P (d # ds)) =
      (if P d then claimed [d] else []) @ claimed (filter P ds)"
    by (simp_all add: claimed_def)
  then show ?case using Cons set_claimed_filter [of P ds]
    by (auto simp: claimed_single split: if_splits)
qed

lemma find_SomeD: "find P xs = Some x \<Longrightarrow> x \<in> set xs \<and> P x"
  by (induction xs) (auto split: if_splits)

lemma mountpoints_None: "mountpoints s mp = None \<Longrightarrow> mp \<notin> set (claimed (devices s))"
  by (auto simp: mountpoints_def claimed_iff find_None_iff)

lemma mountpoints_Some:
  "mountpoints s mp = Some d \<Longrightarrow> d \<in> set (devices s) \<and> f_mountpoint (d_format d) = mp"
  using find_SomeD [of "\<lambda>d. f_mountpoint (d_format d) = mp" "rev (devices s)" d]
  by (simp add: mountpoints_def)

lemma luks_wrap_stopped_devices:
  assumes "luks_wrap eng ex device lf pw cipher url backup s = (s', out)" and "out \<noteq> Returns ()"
  shows "devices s' = devices s"
proof -
  let ?s0 = "if pw \<noteq> [] \<and> encryptionPassphrase s = []
             then s\<lparr>encryptionPassphrase := pw\<rparr> else s"
  obtain s1 o1 where g: "getEscrowCertificate eng url ?s0 = (s1, o1)"
    by (cases "getEscrowCertificate eng url ?s0")
  then have "s1 = fst (getEscrowCertificate eng url ?s0)" by simp
  then have d: "devices s1 = devices s" by simp
  show ?thesis
    using assms g d by (cases o1) (auto simp: luks_wrap_def Let_def)
qed

lemma distinct_claimed_same:
  assumes "distinct (claimed ds)" and "x \<in> set ds" and "y \<in> set ds"
    and "f_mountpoint (d_format x) = mp" and "f_mountpoint (d_format y) = mp" and "mp \<noteq> []"
  shows "x = y"
proof -
  let ?f = "\<lambda>d. f_mountpoint (d_format d)"
  have "claimed ds = map ?f (filter (\<lambda>d. ?f d \<noteq> []) ds)"
    by (simp add: claimed_def filter_map comp_def)
  with assms(1) have "inj_on ?f (set (filter (\<lambda>d. ?f d \<noteq> []) ds))"
    by (simp add: distinct_map)
  then show ?thesis using assms(2-6) by (auto simp: inj_on_def)
qed

lemma claim_mountpoint_devices:
  "devices (claim_mountpoint mp s) =
     (if mp = [] then devices s
      else case mountpoints s mp of
        None \<Rightarrow> devices s
      | Some d \<Rightarrow> filter (\<lambda>x. d_id x \<noteq> d_id d) (devices s))"
  by (simp add: claim_mountpoint_def split: option.splits)

lemma claim_mountpoint_unique:
  assumes "distinct (claimed (devices s))"
  shows "distinct (claimed (devices (claim_mountpoint mp s)))"
    and "mp \<notin> set (claimed (devices (claim_mountpoint mp s)))"
proof -
  show "distinct (claimed (devices (claim_mountpoint mp s)))"
    using assms by (simp add: claim_mountpoint_devices distinct_claimed_filter split: option.splits)
  show "mp \<notin> set (claimed (devices (claim_mountpoint mp s)))"
  proof (cases "mp = []")
    case True
    then show ?thesis by (simp add: claimed_iff)
  next
    case False
    show ?thesis
    proof (cases "mountpoints s mp")
      case None
      then show ?thesis using False mountpoints_None [OF None]
        by (simp add: claim_mountpoint_devices)
    next
      case (Some d)
      then have d: "d \<in> set (devices s)" "f_mountpoint (d_format d) = mp"
        using mountpoints_Some by blast+
      have "x \<notin> set (filter (\<lambda>x. d_id x \<noteq> d_id d) (devices s))"
        if "x \<in> set (devices s)" "f_mountpoint (d_format x) = mp" for x
        using distinct_claimed_same [OF assms that(1) d(1) that(2) d(2) False] by simp
      then show ?thesis using False Some
        by (auto simp: claim_mountpoint_devices claimed_iff)
    qed
  qed
qed

text \<open>The end of a handler that has made a new request: the request was added to the
  tree, then it is wrapped when encryption was asked for.\<close>

lemma new_request_unique:
  assumes "distinct (claimed ds)" and "f_mountpoint lf \<notin> set (claimed ds)"
    and "devices s2 = ds @ [req]" and "d_format req = lf"
  shows "mp_unique (fst (if enc then luks_wrap eng ex req lf pw cipher url backup s2
                        else (s2, Returns ())))"
proof -
  have s2: "distinct (claimed (devices s2))"
    using assms by (simp add: claimed_single)
  show ?thesis
  proof (cases enc)
    case False
    then show ?thesis using s2 by (simp add: mp_unique_def)
  next
    case True
    obtain s' out where w: "luks_wrap eng ex req lf pw cipher url backup s2 = (s', out)"
      by (cases "luks_wrap eng ex req lf pw cipher url backup s2")
    have "distinct (claimed (devices s'))"
    proof (cases out)
      case (Returns u)
      from luks_wrap_Returns_devices [OF w [unfolded Returns, simplified]]
      obtain cert luksdev where
        d: "devices s' = set_format (d_id req) (luks_format eng ex req pw cipher cert backup)
              (devices s2) @ [luksdev]"
        and l: "d_format luksdev = lf"
        by auto
      let ?rest = "claimed (filter (\<lambda>d. d_id d \<noteq> d_id req) ds)"
      have c: "claimed (devices s') = ?rest @ claimed [luksdev]"
        using d assms(3) by (simp add: claimed_set_format)
      have "distinct ?rest" "f_mountpoint lf \<notin> set ?rest"
        using assms(1,2) distinct_claimed_filter [of ds] set_claimed_filter [of _ ds] by blast+
      then show ?thesis using c l by (simp add: claimed_single)
    next
    qed (use luks_wrap_stopped_devices [OF w] s2 in simp_all)
    then show ?thesis using True w by (simp add: mp_unique_def)
  qed
qed

lemma part_format_mountpoint [simp]: "f_mountpoint (part_format eng p ty) = p_mountpoint p"
  by (simp add: part_format_def getFormat_def DeviceFormat_def)

lemma lv_format_mountpoint [simp]: "f_mountpoint (lv_format eng l ty) = l_mountpoint l"
  by (simp add: lv_format_def getFormat_def DeviceFormat_def)

lemma raid_format_mountpoint [simp]: "f_mountpoint (raid_format eng r ty) = r_mountpoint r"
  by (simp add: raid_format_def getFormat_def DeviceFormat_def)

lemma part_create_new_partition:
  assumes "p_onPart p = []" and "p_fstype p \<noteq> ''tmpfs''"
  shows "\<exists>req s2. part_create eng p f ps name s = (s2, Returns req) \<and> d_format req = f \<and>
           devices s2 = devices (claim_mountpoint (p_mountpoint p) s) @ [req] \<and>
           actions s2 = actions (claim_mountpoint (p_mountpoint p) s) @ [ActionCreateDevice req]"
  using assms by (simp add: part_create_def Let_def)

lemma lv_create_new_request:
  assumes "\<not> l_preexist l"
  shows "\<exists>req s2. lv_create eng l vg pool f s = (s2, Returns req) \<and> d_format req = f \<and>
           devices s2 = devices (claim_mountpoint (l_mountpoint l) s) @ [req] \<and>
           actions s2 = actions (claim_mountpoint (l_mountpoint l) s) @ [ActionCreateDevice req]"
  using assms by (simp add: lv_create_def Let_def)

lemma part_rest_new_unique:
  assumes "mp_unique s" and "p_format p" and "p_onPart p = []" and "p_fstype p \<noteq> ''tmpfs''"
  shows "mp_unique (fst (part_rest eng p ty name s))"
proof (cases "truthy (f_type (part_format eng p ty))")
  case False
  then show ?thesis using assms by (simp add: part_rest_def)
next
  case True
  obtain out where d: "part_disk eng p s = (s, out)"
    using part_disk_state [of eng p s] by (cases "part_disk eng p s") auto
  show ?thesis
  proof (cases out)
    case (Returns parents)
    from part_create_new_partition [OF assms(3,4), of eng "part_format eng p ty" parents name s]
    obtain req s2 where
      c: "part_create eng p (part_format eng p ty) parents name s = (s2, Returns req)"
      and r: "d_format req = part_format eng p ty"
        "devices s2 = devices (claim_mountpoint (p_mountpoint p) s) @ [req]"
      by blast
    have "part_rest eng p ty name s =
        (if p_encrypted p
         then luks_wrap eng (p_onPart p \<noteq> []) req (part_format eng p ty)
                (p_passphrase p) (p_cipher p) (p_escrowcert p) (p_backuppassphrase p) s2
         else (s2, Returns ()))"
      using True assms(2) d Returns c by (simp add: part_rest_def)
    moreover have "mp_unique (fst (if p_encrypted p
         then luks_wrap eng (p_onPart p \<noteq> []) req (part_format eng p ty)
                (p_passphrase p) (p_cipher p) (p_escrowcert p) (p_backuppassphrase p) s2
         else (s2, Returns ())))"
      using claim_mountpoint_unique [OF assms(1) [unfolded mp_unique_def], of "p_mountpoint p"]
      by (intro new_request_unique [OF _ _ r(2) r(1)]) simp_all
    ultimately show ?thesis by simp
  next
    case (Raises e)
    then show ?thesis using True assms(1,2) d by (simp add: part_rest_def)
  next
    case Hangs
    then show ?thesis using True assms(1,2) d by (simp add: part_rest_def)
  qed
qed

lemma PartitionData_execute_new_unique:
  assumes "mp_unique s" and "p_format self" and "p_onPart self = []"
    and "p_fstype self \<noteq> ''tmpfs''"
  shows "mp_unique (fst (PartitionData_execute eng self s))"
proof (cases rule: PartitionData_execute_cases [of eng self s])
  case early
  then show ?thesis using assms(1) by (simp add: mp_unique_def)
next
  case (rest p ty name s1)
  have "mp_unique s1" using rest(2) assms(1) by (simp add: mp_unique_def)
  moreover have "p_format p" "p_onPart p = []" "p_fstype p \<noteq> ''tmpfs''"
    using rest(6,8,9) assms(2-4) by simp_all
  ultimately have "mp_unique (fst (part_rest eng p ty name s1))"
    by (rule part_rest_new_unique)
  then show ?thesis by (simp only: rest(1))
qed

lemma lv_rest_new_unique:
  assumes "mp_unique s" and "l_format l" and "\<not> l_preexist l"
  shows "mp_unique (fst (lv_rest eng l ty vg pool s))"
proof (cases "lv_new_checks l vg s = None \<and>
    \<not> (\<not> truthy (f_type (lv_format eng l ty)) \<and> \<not> l_thin_pool l)")
  case False
  then show ?thesis using assms by (auto simp: lv_rest_def split: option.splits)
next
  case True
  from lv_create_new_request [OF assms(3), of eng vg pool "lv_format eng l ty" s]
  obtain req s2 where
    c: "lv_create eng l vg pool (lv_format eng l ty) s = (s2, Returns req)"
    and r: "d_format req = lv_format eng l ty"
      "devices s2 = devices (claim_mountpoint (l_mountpoint l) s) @ [req]"
    by blast
  have "lv_rest eng l ty vg pool s =
      (if l_encrypted l
       then luks_wrap eng (l_preexist l) req (lv_format eng l ty)
              (l_passphrase l) (l_cipher l) (l_escrowcert l) (l_backuppassphrase l) s2
       else (s2, Returns ()))"
    using True assms(2) c by (auto simp: lv_rest_def)
  moreover have "mp_unique (fst (if l_encrypted l
       then luks_wrap eng (l_preexist l) req (lv_format eng l ty)
              (l_passphrase l) (l_cipher l) (l_escrowcert l) (l_backuppassphrase l) s2
       else (s2, Returns ())))"
    using claim_mountpoint_unique [OF assms(1) [unfolded mp_unique_def], of "l_mountpoint l"]
    by (intro new_request_unique [OF _ _ r(2) r(1)]) simp_all
  ultimately show ?thesis by simp
qed

lemma LogVolData_execute_new_unique:
  assumes "mp_unique s" and "l_format self" and "\<not> l_preexist self"
  shows "mp_unique (fst (LogVolData_execute eng self s))"
proof (cases rule: LogVolData_execute_cases [of eng self s])
  case early
  then show ?thesis using assms(1) by (simp add: mp_unique_def)
next
  case (rest ty vg pool)
  have "mp_unique (s\<lparr>doAutoPart := False\<rparr>)" using assms(1) by (simp add: mp_unique_def)
  from lv_rest_new_unique [OF this, of "fst (lv_type eng self (s\<lparr>doAutoPart := False\<rparr>))"
      eng ty vg pool] rest(1) assms(2,3)
  show ?thesis by simp
qed

lemma raid_rest_new_unique:
  assumes "mp_unique s" and "r_format r" and "\<not> r_preexist r"
  shows "mp_unique (fst (raid_rest eng dn r ty s))"
proof (cases "resolve_members eng (r_lineno r) RaidMember ''mdmember'' s (r_members r)")
  case (Returns raidmems)
  let ?s1 = "claim_mountpoint (r_mountpoint r) s"
  let ?f = "raid_format eng r ty"
  note u = claim_mountpoint_unique [OF assms(1) [unfolded mp_unique_def], of "r_mountpoint r"]
  show ?thesis
  proof (cases "(r_mountpoint r \<noteq> [] \<and> \<not> prefix ''/'' (r_mountpoint r)) \<or> \<not> truthy (f_type ?f) \<or>
      (dn \<noteq> [] \<and> dn \<in> set (map d_name (mdarrays s)))")
    case True
    then show ?thesis using assms Returns
      by (auto simp: raid_rest_def raid_create_def)
  next
    case ok: False
    show ?thesis
    proof (cases "newMDArray_error eng (r_level r) dn (length raidmems)")
      case (Some e)
      then show ?thesis using assms ok Returns u(1)
        by (auto simp: raid_rest_def raid_create_def Let_def mp_unique_def)
    next
      case None
      let ?q = "newMDArray dn r ?f raidmems ?s1"
      let ?s2 = "createDevice (fst ?q) (snd ?q)"
      have "raid_rest eng dn r ty s =
          (if r_encrypted r
           then luks_wrap eng (r_preexist r) (fst ?q) ?f
                  (r_passphrase r) (r_cipher r) (r_escrowcert r) (r_backuppassphrase r) ?s2
           else (?s2, Returns ()))"
        using assms ok Returns None by (auto simp: raid_rest_def raid_create_def Let_def)
      moreover have "mp_unique (fst (if r_encrypted r
           then luks_wrap eng (r_preexist r) (fst ?q) ?f
                  (r_passphrase r) (r_cipher r) (r_escrowcert r) (r_backuppassphrase r) ?s2
           else (?s2, Returns ())))"
        using u by (intro new_request_unique [where ds = "devices ?s1"]) simp_all
      ultimately show ?thesis by simp
    qed
  qed
qed (use assms in \<open>auto simp: raid_rest_def\<close>)

lemma RaidData_execute_new_unique:
  assumes "mp_unique s" and "r_format self" and "\<not> r_preexist self"
  shows "mp_unique (fst (RaidData_execute eng self s))"
  unfolding RaidData_execute_def
proof (rule then_do_invariant)
  show "mp_unique (fst (raid_type (raid_devicename eng self s) self (s\<lparr>doAutoPart := False\<rparr>)))"
    using assms(1) by (simp add: mp_unique_def)
next
  fix s1 q
  assume t: "raid_type (raid_devicename eng self s) self (s\<lparr>doAutoPart := False\<rparr>) = (s1, Returns q)"
  then have "s1 = fst (raid_type (raid_devicename eng self s) self (s\<lparr>doAutoPart := False\<rparr>))"
    by simp
  then have "mp_unique s1" using assms(1) by (simp add: mp_unique_def)
  from raid_rest_new_unique [OF this] raid_type_Returns [OF t] assms(2,3)
  show "mp_unique (fst (raid_rest eng (raid_devicename eng self s) (fst q) (snd q) s1))"
    by simp
qed

lemma BTRFSData_execute_new_unique:
  assumes "mp_unique s" and "\<not> b_preexist b"
  shows "mp_unique (fst (BTRFSData_execute eng b s))"
proof (cases "resolve_members eng (b_lineno b) BTRFSPartition ''btrfs'' s (b_devices b)")
  case (Returns members)
  let ?mp = "if b_mountpoint b = ''none'' \<or> b_mountpoint b = ''None'' then []
             else b_mountpoint b"
  note u = claim_mountpoint_unique [of "s\<lparr>doAutoPart := False\<rparr>" ?mp]
  show ?thesis
    using assms Returns u
    by (auto simp: BTRFSData_execute_def Let_def mp_unique_def newBTRFS_def new_device_def
        getFormat_def DeviceFormat_def claimed_single split: option.splits)
qed (use assms in \<open>auto simp: BTRFSData_execute_def mp_unique_def\<close>)

lemma claim_mountpoint_None: "mountpoints s mp = None \<Longrightarrow> claim_mountpoint mp s = s"
  by (simp add: claim_mountpoint_def)

lemma claim_mountpoint_Some:
  "mp \<noteq> [] \<Longrightarrow> mountpoints s mp = Some d \<Longrightarrow> claim_mountpoint mp s = destroyDevice d s"
  by (simp add: claim_mountpoint_def)

text \<open>The partition, raid, logical-volume and BTRFS handlers keep the invariant for a new
  request, whatever their outcome; the tmpfs branch of the partition handler is the one
  place where a new device is given a mount point without the look-up.\<close>

lemma new_requests_keep_unique:
  assumes "mp_unique s"
  shows "p_format p \<and> p_onPart p = [] \<and> p_fstype p \<noteq> ''tmpfs'' \<longrightarrow>
           mp_unique (fst (PartitionData_execute eng p s))"
    and "l_format l \<and> \<not> l_preexist l \<longrightarrow> mp_unique (fst (LogVolData_execute eng l s))"
    and "r_format r \<and> \<not> r_preexist r \<longrightarrow> mp_unique (fst (RaidData_execute eng r s))"
    and "\<not> b_preexist b \<longrightarrow> mp_unique (fst (BTRFSData_execute eng b s))"
  using assms PartitionData_execute_new_unique [of s p eng]
    LogVolData_execute_new_unique [of s l eng] RaidData_execute_new_unique [of s r eng]
    BTRFSData_execute_new_unique [of s b eng]
  by blast+

subsection \<open>Claim C5\<close>

text \<open>
  C5 at the failing input: on a system where sda1 is mounted on /tmp, the request
  \<^verbatim>\<open>part /tmp --fstype=tmpfs --size=500\<close> is new, formatted and carries a mount point.
  Its branch (lines 1107-1109) creates the device without the look-up in
  \<^verbatim>\<open>storage.mountpoints\<close> that the partition branch next to it makes (lines
  1110-1118): the handler returns, sda1 is not destroyed, and two devices claim /tmp.
  The same request with the type ext4 destroys sda1, and one device claims /tmp.
\<close>

theorem tmpfs_keeps_claimant:
  "mp_unique storage_tmp \<and>
   p_format part_tmpfs \<and> p_onPart part_tmpfs = [] \<and> p_mountpoint part_tmpfs = ''/tmp'' \<and>
   snd (PartitionData_execute eng0 part_tmpfs storage_tmp) = Returns () \<and>
   map d_name (devices (fst (PartitionData_execute eng0 part_tmpfs storage_tmp))) =
     [''sda'', ''sda1'', ''tmpfs''] \<and>
   claimed (devices (fst (PartitionData_execute eng0 part_tmpfs storage_tmp))) =
     [''/tmp'', ''/tmp''] \<and>
   \<not> mp_unique (fst (PartitionData_execute eng0 part_tmpfs storage_tmp)) \<and>
   snd (PartitionData_execute eng0 (part_tmpfs\<lparr>p_fstype := ''ext4''\<rparr>) storage_tmp) =
     Returns () \<and>
   map d_name (devices (fst (PartitionData_execute eng0 (part_tmpfs\<lparr>p_fstype := ''ext4''\<rparr>)
                               storage_tmp))) = [''sda'', ''req2''] \<and>
   claimed (devices (fst (PartitionData_execute eng0 (part_tmpfs\<lparr>p_fstype := ''ext4''\<rparr>)
                            storage_tmp))) = [''/tmp'']"
  by (simp add: run_defs example_defs storage_tmp_def part_tmpfs_def mp_unique_def claimed_def)

end
